theory Spec2Isabelle
  imports Main "HOL-Library.Word"
begin

section \<open>Strings\<close>

text \<open>
  A JavaScript string is a sequence of 16-bit code units. \<open>str\<close> gives the string of a literal
  written in ASCII, \<open>charCode\<close> the code unit of one of its characters.
\<close>

type_synonym code_unit = "16 word"

type_synonym jsstring = "code_unit list"

definition charCode :: "char \<Rightarrow> code_unit" where
  "charCode c = of_char c"

definition str :: "string \<Rightarrow> jsstring" where
  "str s = map charCode s"

text \<open>
  \<open>String.prototype.toLowerCase()\<close> maps a string by the Unicode case tables of the runtime.
  Every function here that calls it takes it as the argument \<open>toLowerCase\<close>, so what is proved
  holds whatever the tables are. \<open>toLowerCaseASCII\<close> is the mapping on strings that hold no
  letter outside ASCII; the worked examples use it.
\<close>

fun indexOf :: "jsstring \<Rightarrow> code_unit \<Rightarrow> nat option" where
  "indexOf [] c = None"
| "indexOf (x # xs) c = (if x = c then Some 0 else map_option Suc (indexOf xs c))"

definition toLowerCaseASCII :: "jsstring \<Rightarrow> jsstring" where
  "toLowerCaseASCII s =
     map (\<lambda>c. case indexOf (str ''ABCDEFGHIJKLMNOPQRSTUVWXYZ'') c of
                None \<Rightarrow> c
              | Some k \<Rightarrow> str ''abcdefghijklmnopqrstuvwxyz'' ! k) s"

section \<open>Amounts: decimal strings read with BigInt\<close>

text \<open>
  The store keeps \<open>cap_amount\<close>, \<open>remaining_amount\<close> and a settlement's \<open>amount\<close> as strings and
  compares them after \<open>BigInt(...)\<close>. \<open>BigInt\<close> of a string (StringToBigInt of ECMA-262) strips
  white space and line terminators from both ends, reads the empty string as zero, a signed
  run of decimal digits, or an unsigned literal with the prefix \<open>0x\<close>, \<open>0o\<close> or \<open>0b\<close>; anything
  else throws a SyntaxError (\<open>None\<close> here). The characters stripped are TAB, LF, VT, FF, CR,
  the space, the no-break space U+00A0, U+1680, U+2000 to U+200A, the line and paragraph
  separators U+2028 and U+2029, U+202F, U+205F, U+3000 and the byte order mark U+FEFF. All of
  them, and all digits, are single code units.
\<close>

definition isStrWhiteSpaceChar :: "code_unit \<Rightarrow> bool" where
  "isStrWhiteSpaceChar c \<longleftrightarrow>
     c \<in> set [0x0009, 0x000A, 0x000B, 0x000C, 0x000D, 0x0020, 0x00A0, 0x1680, 0x2028, 0x2029,
               0x202F, 0x205F, 0x3000, 0xFEFF]
     \<or> (0x2000 \<le> c \<and> c \<le> 0x200A)"

definition trimString :: "jsstring \<Rightarrow> jsstring" where
  "trimString s = rev (dropWhile isStrWhiteSpaceChar (rev (dropWhile isStrWhiteSpaceChar s)))"

text \<open>The value of a digit in radix 16 or below: its position among the digits.\<close>

definition digitValue :: "code_unit \<Rightarrow> nat option" where
  "digitValue c =
     (case indexOf (str ''0123456789abcdef'') c of
        Some d \<Rightarrow> Some d
      | None \<Rightarrow> map_option (\<lambda>d. d + 10) (indexOf (str ''ABCDEF'') c))"

fun digitsToNat :: "nat \<Rightarrow> nat \<Rightarrow> jsstring \<Rightarrow> nat option" where
  "digitsToNat radix acc [] = Some acc"
| "digitsToNat radix acc (c # cs) =
     (case digitValue c of
        None \<Rightarrow> None
      | Some d \<Rightarrow> if d < radix then digitsToNat radix (acc * radix + d) cs else None)"

definition parseDigits :: "nat \<Rightarrow> jsstring \<Rightarrow> nat option" where
  "parseDigits radix s = (if s = [] then None else digitsToNat radix 0 s)"

definition BigInt :: "jsstring \<Rightarrow> int option" where
  "BigInt s =
     (case trimString s of
        [] \<Rightarrow> Some 0
      | c # rest \<Rightarrow>
          if c = charCode CHR ''-'' then map_option (\<lambda>n. - int n) (parseDigits 10 rest)
          else if c = charCode CHR ''+'' then map_option int (parseDigits 10 rest)
          else if c = charCode CHR ''0'' \<and> rest \<noteq> []
                  \<and> (hd rest = charCode CHR ''x'' \<or> hd rest = charCode CHR ''X'')
            then map_option int (parseDigits 16 (tl rest))
          else if c = charCode CHR ''0'' \<and> rest \<noteq> []
                  \<and> (hd rest = charCode CHR ''o'' \<or> hd rest = charCode CHR ''O'')
            then map_option int (parseDigits 8 (tl rest))
          else if c = charCode CHR ''0'' \<and> rest \<noteq> []
                  \<and> (hd rest = charCode CHR ''b'' \<or> hd rest = charCode CHR ''B'')
            then map_option int (parseDigits 2 (tl rest))
          else map_option int (parseDigits 10 (c # rest)))"

text \<open>\<open>BigInt.prototype.toString()\<close>: the canonical decimal numeral, \<open>-\<close> in front of a negative.\<close>

definition digitChar :: "nat \<Rightarrow> code_unit" where
  "digitChar d = str ''0123456789'' ! d"

function natToString :: "nat \<Rightarrow> jsstring" where
  "natToString n = (if n < 10 then [digitChar n] else natToString (n div 10) @ [digitChar (n mod 10)])"
  by pat_completeness auto
termination
  by (relation "measure id") auto

declare natToString.simps [simp del]

definition bigintToString :: "int \<Rightarrow> jsstring" where
  "bigintToString i =
     (if i < 0 then charCode CHR ''-'' # natToString (nat (- i)) else natToString (nat i))"

section \<open>The tables (db/multisettle.ts)\<close>

text \<open>
  The status columns hold one of the string literals the code writes; they are datatypes here
  and \<open>status_name\<close> gives the string back. \<open>valid_until\<close> and the clock are whole
  seconds. \<open>deposited\<close> is the integer column, 0 or 1. The columns \<open>created_at\<close> are left
  out: the order of the rows is the order of insertion.
\<close>

datatype signature_status = Active | Exhausted | Expired | Revoked

fun status_name :: "signature_status \<Rightarrow> jsstring" where
  "status_name Active = str ''active''"
| "status_name Exhausted = str ''exhausted''"
| "status_name Expired = str ''expired''"
| "status_name Revoked = str ''revoked''"

record MultiSettleSignatureRecord =
  sig_id :: jsstring
  facilitator_id :: jsstring
  network :: jsstring
  asset :: jsstring
  from_address :: jsstring
  cap_amount :: jsstring
  remaining_amount :: jsstring
  valid_until :: int
  nonce :: jsstring
  signature :: jsstring
  payment_payload :: jsstring
  status :: signature_status
  deposited :: nat

datatype settlement_status = Pending | Success | Failed

record MultiSettleSettlementRecord =
  stl_id :: jsstring
  signature_id :: jsstring
  stl_facilitator_id :: jsstring
  pay_to :: jsstring
  amount :: jsstring
  transaction_hash :: "jsstring option"
  stl_status :: settlement_status
  error_message :: "jsstring option"

text \<open>
  The database: the rows of the two tables in insertion order. A function that writes takes the
  database and returns the new one; \<open>Date.now()\<close>, \<open>nanoid()\<close> and \<open>toLowerCase\<close> are
  arguments.
\<close>

record database =
  multisettle_signatures :: "MultiSettleSignatureRecord list"
  multisettle_settlements :: "MultiSettleSettlementRecord list"

definition empty_database :: database where
  "empty_database = \<lparr>multisettle_signatures = [], multisettle_settlements = []\<rparr>"

text \<open>\<open>SELECT * FROM multisettle_signatures WHERE id = ?\<close>, first row or null.\<close>

definition getMultiSettleSignatureById :: "database \<Rightarrow> jsstring \<Rightarrow> MultiSettleSignatureRecord option" where
  "getMultiSettleSignatureById db i = find (\<lambda>r. sig_id r = i) (multisettle_signatures db)"

definition getMultiSettleSignatureByNonce ::
  "database \<Rightarrow> jsstring \<Rightarrow> jsstring \<Rightarrow> MultiSettleSignatureRecord option" where
  "getMultiSettleSignatureByNonce db facilitatorId n =
     find (\<lambda>r. facilitator_id r = facilitatorId \<and> nonce r = n) (multisettle_signatures db)"

text \<open>
  \<open>UPDATE multisettle_signatures SET ... WHERE ...\<close>: the number of rows matched
  (\<open>result.changes\<close>) and the table with every matching row rewritten.
\<close>

definition update_signatures ::
  "(MultiSettleSignatureRecord \<Rightarrow> bool) \<Rightarrow> (MultiSettleSignatureRecord \<Rightarrow> MultiSettleSignatureRecord)
     \<Rightarrow> database \<Rightarrow> nat \<times> database" where
  "update_signatures wh f db =
     (length (filter wh (multisettle_signatures db)),
      db\<lparr>multisettle_signatures := map (\<lambda>r. if wh r then f r else r) (multisettle_signatures db)\<rparr>)"

record signature_data =
  d_facilitator_id :: jsstring
  d_network :: jsstring
  d_asset :: jsstring
  d_from_address :: jsstring
  d_cap_amount :: jsstring
  d_valid_until :: int
  d_nonce :: jsstring
  d_signature :: jsstring
  d_payment_payload :: jsstring

text \<open>
  Modelled from the spec: the schema of \<open>multisettle_signatures\<close> (db/index.ts is not among the
  sources). The id is the row's identity and the nonce is unique per facilitator, so the INSERT
  throws when a row with the same id, or with the same facilitator and nonce, is already there.
\<close>

definition signature_insert_conflict :: "database \<Rightarrow> MultiSettleSignatureRecord \<Rightarrow> bool" where
  "signature_insert_conflict db row \<longleftrightarrow>
     getMultiSettleSignatureById db (sig_id row) \<noteq> None
     \<or> getMultiSettleSignatureByNonce db (facilitator_id row) (nonce row) \<noteq> None"

definition createMultiSettleSignature ::
  "(jsstring \<Rightarrow> jsstring) \<Rightarrow> jsstring \<Rightarrow> signature_data \<Rightarrow> database
     \<Rightarrow> MultiSettleSignatureRecord option \<times> database" where
  "createMultiSettleSignature toLowerCase new_id data db =
     (let row = \<lparr>sig_id = new_id,
                 facilitator_id = d_facilitator_id data,
                 network = d_network data,
                 asset = d_asset data,
                 from_address = toLowerCase (d_from_address data),
                 cap_amount = d_cap_amount data,
                 remaining_amount = d_cap_amount data,
                 valid_until = d_valid_until data,
                 nonce = d_nonce data,
                 signature = d_signature data,
                 payment_payload = d_payment_payload data,
                 status = Active,
                 deposited = 0\<rparr>
      in if signature_insert_conflict db row then (None, db)
         else
           let db' = db\<lparr>multisettle_signatures := multisettle_signatures db @ [row]\<rparr>
           in (getMultiSettleSignatureById db' new_id, db'))"

datatype error = SyntaxError

text \<open>
  \<open>decrementRemainingAmount\<close> runs in one transaction. \<open>BigInt\<close> throws before the first write
  of the branch it is in, so the rollback leaves the database as it was.
\<close>

definition decrementRemainingAmount ::
  "int \<Rightarrow> jsstring \<Rightarrow> jsstring \<Rightarrow> database
     \<Rightarrow> (error + MultiSettleSignatureRecord option) \<times> database" where
  "decrementRemainingAmount now signatureId amnt db =
     (case getMultiSettleSignatureById db signatureId of
        None \<Rightarrow> (Inr None, db)
      | Some sg \<Rightarrow>
          if status sg \<noteq> Active then (Inr None, db)
          else if valid_until sg < now then
            (Inr None,
             snd (update_signatures (\<lambda>r. sig_id r = signatureId) (\<lambda>r. r\<lparr>status := Expired\<rparr>) db))
          else
            (case BigInt (remaining_amount sg) of
               None \<Rightarrow> (Inl SyntaxError, db)
             | Some remainingBigInt \<Rightarrow>
                 (case BigInt amnt of
                    None \<Rightarrow> (Inl SyntaxError, db)
                  | Some amountBigInt \<Rightarrow>
                      if amountBigInt > remainingBigInt then (Inr None, db)
                      else
                        let newRemaining = bigintToString (remainingBigInt - amountBigInt);
                            db1 = snd (update_signatures (\<lambda>r. sig_id r = signatureId)
                                         (\<lambda>r. r\<lparr>remaining_amount := newRemaining\<rparr>) db);
                            db2 = (if newRemaining = str ''0''
                                   then snd (update_signatures (\<lambda>r. sig_id r = signatureId)
                                               (\<lambda>r. r\<lparr>status := Exhausted\<rparr>) db1)
                                   else db1)
                        in (Inr (getMultiSettleSignatureById db2 signatureId), db2))))"

definition revokeMultiSettleSignature :: "jsstring \<Rightarrow> database \<Rightarrow> bool \<times> database" where
  "revokeMultiSettleSignature signatureId db =
     (let (changes, db') =
            update_signatures (\<lambda>r. sig_id r = signatureId \<and> status r = Active)
              (\<lambda>r. r\<lparr>status := Revoked\<rparr>) db
      in (changes > 0, db'))"

definition revokeMultiSettleSignatureByNonce :: "jsstring \<Rightarrow> jsstring \<Rightarrow> database \<Rightarrow> bool \<times> database" where
  "revokeMultiSettleSignatureByNonce facilitatorId n db =
     (let (changes, db') =
            update_signatures (\<lambda>r. facilitator_id r = facilitatorId \<and> nonce r = n \<and> status r = Active)
              (\<lambda>r. r\<lparr>status := Revoked\<rparr>) db
      in (changes > 0, db'))"

definition cleanupExpiredSignatures :: "int \<Rightarrow> database \<Rightarrow> nat \<times> database" where
  "cleanupExpiredSignatures now db =
     update_signatures (\<lambda>r. status r = Active \<and> valid_until r < now) (\<lambda>r. r\<lparr>status := Expired\<rparr>) db"

definition markSignatureDeposited :: "jsstring \<Rightarrow> database \<Rightarrow> bool \<times> database" where
  "markSignatureDeposited signatureId db =
     (let (changes, db') =
            update_signatures (\<lambda>r. sig_id r = signatureId) (\<lambda>r. r\<lparr>deposited := 1\<rparr>) db
      in (changes > 0, db'))"

subsection \<open>Settlement records\<close>

definition getMultiSettleSettlementById :: "database \<Rightarrow> jsstring \<Rightarrow> MultiSettleSettlementRecord option" where
  "getMultiSettleSettlementById db i = find (\<lambda>r. stl_id r = i) (multisettle_settlements db)"

definition getSettlementsBySignatureId :: "database \<Rightarrow> jsstring \<Rightarrow> MultiSettleSettlementRecord list" where
  "getSettlementsBySignatureId db signatureId =
     filter (\<lambda>r. signature_id r = signatureId) (multisettle_settlements db)"

text \<open>\<open>x || null\<close> on an optional string: undefined and the empty string both give null.\<close>

definition or_null :: "jsstring option \<Rightarrow> jsstring option" where
  "or_null x = (case x of None \<Rightarrow> None | Some v \<Rightarrow> if v = [] then None else Some v)"

text \<open>
  Modelled from the spec: the schema of \<open>multisettle_settlements\<close> (db/index.ts is not among
  the sources). The id is the row's identity, so the INSERT throws when the id is taken.
\<close>

definition settlement_insert_conflict :: "database \<Rightarrow> jsstring \<Rightarrow> bool" where
  "settlement_insert_conflict db i \<longleftrightarrow> getMultiSettleSettlementById db i \<noteq> None"

definition createMultiSettleSettlement ::
  "(jsstring \<Rightarrow> jsstring) \<Rightarrow> jsstring \<Rightarrow> jsstring \<Rightarrow> jsstring \<Rightarrow> jsstring \<Rightarrow> jsstring
     \<Rightarrow> jsstring option \<Rightarrow> settlement_status \<Rightarrow> jsstring option \<Rightarrow> database
     \<Rightarrow> MultiSettleSettlementRecord option \<times> database" where
  "createMultiSettleSettlement toLowerCase new_id signatureId facilitatorId payTo amnt transactionHash st
     errorMessage db =
     (if settlement_insert_conflict db new_id then (None, db)
      else
        let row = \<lparr>stl_id = new_id,
                   signature_id = signatureId,
                   stl_facilitator_id = facilitatorId,
                   pay_to = toLowerCase payTo,
                   amount = amnt,
                   transaction_hash = or_null transactionHash,
                   stl_status = st,
                   error_message = or_null errorMessage\<rparr>;
            db' = db\<lparr>multisettle_settlements := multisettle_settlements db @ [row]\<rparr>
        in (getMultiSettleSettlementById db' new_id, db'))"

text \<open>
  \<open>updateMultiSettleSettlementStatus\<close>: the status is always written, the transaction hash and
  the error message only when the argument is not undefined.
\<close>

definition updateMultiSettleSettlementStatus ::
  "jsstring \<Rightarrow> settlement_status \<Rightarrow> jsstring option \<Rightarrow> jsstring option \<Rightarrow> database
     \<Rightarrow> MultiSettleSettlementRecord option \<times> database" where
  "updateMultiSettleSettlementStatus i st transactionHash errorMessage db =
     (let set_fields = (\<lambda>r.
            let r1 = r\<lparr>stl_status := st\<rparr>;
                r2 = (case transactionHash of None \<Rightarrow> r1 | Some h \<Rightarrow> r1\<lparr>transaction_hash := Some h\<rparr>)
            in (case errorMessage of None \<Rightarrow> r2 | Some m \<Rightarrow> r2\<lparr>error_message := Some m\<rparr>));
          changes = length (filter (\<lambda>r. stl_id r = i) (multisettle_settlements db));
          db' = db\<lparr>multisettle_settlements :=
                     map (\<lambda>r. if stl_id r = i then set_fields r else r) (multisettle_settlements db)\<rparr>
      in if changes = 0 then (None, db') else (getMultiSettleSettlementById db' i, db'))"

section \<open>The routes (routes/multisettle.ts)\<close>

text \<open>
  What the routes read from outside the database is an argument: the clock, \<open>nanoid()\<close>,
  \<open>toLowerCase\<close>, the wallet key, the verifier of the core package, the decoder of the payload
  (base64 and JSON) and the chain. A call that can throw has the outcome \<open>Throws m\<close>, where
  \<open>m\<close> is the message of a thrown \<open>Error\<close> and \<open>None\<close> stands for any other thrown value. The
  request bodies are those the zod schemas accept. A handler is one step on the database:
  requests that run between the awaits of another are not modelled, and the database itself
  does not fail except where an INSERT meets a row that is already there.
\<close>

datatype 'a outcome = Returns 'a | Throws "jsstring option"

record facilitator_record =
  fac_id :: jsstring
  encrypted_private_key :: "jsstring option"

text \<open>The fields \<open>extractAuthorizationFromPayload\<close> returns.\<close>

record authorization_details =
  ad_from :: jsstring
  ad_to :: jsstring
  ad_nonce :: jsstring
  ad_value :: jsstring
  ad_signature :: jsstring

text \<open>A template literal prints an undefined value as the word \<open>undefined\<close>.\<close>

definition interpolate :: "jsstring option \<Rightarrow> jsstring" where
  "interpolate x = (case x of None \<Rightarrow> str ''undefined'' | Some s \<Rightarrow> s)"

text \<open>
  \<open>networkToChainId[network]\<close> is a property lookup on an object literal. It gives the number
  of one of the four networks of the table, and for a name that \<open>Object.prototype\<close> defines it
  gives that inherited member (a function, or the prototype itself for \<open>__proto__\<close>), which
  the test \<open>!chainId\<close> lets through like a number. For every other name it gives undefined.
\<close>

datatype chain_id = ChainNumber nat | PrototypeMember jsstring

definition objectPrototypeKeys :: "jsstring list" where
  "objectPrototypeKeys =
     map str [''constructor'', ''__defineGetter__'', ''__defineSetter__'', ''hasOwnProperty'',
              ''__lookupGetter__'', ''__lookupSetter__'', ''isPrototypeOf'', ''propertyIsEnumerable'',
              ''toString'', ''valueOf'', ''__proto__'', ''toLocaleString'']"

definition networkToChainId :: "jsstring \<Rightarrow> chain_id option" where
  "networkToChainId n =
     (case map_of [(str ''base'', 8453), (str ''base-sepolia'', 84532), (str ''ethereum'', 1),
                   (str ''sepolia'', 11155111)] n of
        Some c \<Rightarrow> Some (ChainNumber c)
      | None \<Rightarrow> if n \<in> set objectPrototypeKeys then Some (PrototypeMember n) else None)"

text \<open>
  \<open>chainConfigs[chainId]\<close>: the key is the chain id printed as a string. A number prints as its
  numeral; an inherited member prints as \<open>function toString() { [native code] }\<close> or
  \<open>[object Object]\<close>, which is no key of the table and no name of \<open>Object.prototype\<close>.
\<close>

definition chainIdToString :: "chain_id \<Rightarrow> jsstring" where
  "chainIdToString chainId =
     (case chainId of
        ChainNumber c \<Rightarrow> natToString c
      | PrototypeMember m \<Rightarrow>
          if m = str ''__proto__'' then str ''[object Object]''
          else str ''function '' @ (if m = str ''constructor'' then str ''Object'' else m)
                 @ str ''() { [native code] }'')"

definition chainConfigs :: "chain_id \<Rightarrow> bool" where
  "chainConfigs chainId \<longleftrightarrow>
     (case chainId of
        ChainNumber c \<Rightarrow> c \<in> set [8453, 84532, 1, 11155111]
      | PrototypeMember m \<Rightarrow> False)"

record chain_result =
  cr_success :: bool
  cr_transactionHash :: "jsstring option"
  cr_errorMessage :: "jsstring option"

text \<open>
  \<open>transferTokens\<close>: the chain either gives a receipt (its status and the transaction hash)
  or one of the calls throws; the function catches and reports.
\<close>

datatype transfer_outcome = Receipt bool jsstring | TransferThrows "jsstring option"

definition transferTokens :: "chain_id \<Rightarrow> transfer_outcome \<Rightarrow> chain_result" where
  "transferTokens chainId chain =
     (if \<not> chainConfigs chainId then
        \<lparr>cr_success = False, cr_transactionHash = None,
         cr_errorMessage = Some (str ''Unsupported chain ID: '' @ chainIdToString chainId)\<rparr>
      else
        (case chain of
           Receipt ok hash \<Rightarrow>
             if ok then \<lparr>cr_success = True, cr_transactionHash = Some hash, cr_errorMessage = None\<rparr>
             else \<lparr>cr_success = False, cr_transactionHash = Some hash,
                   cr_errorMessage = Some (str ''Transaction reverted'')\<rparr>
         | TransferThrows m \<Rightarrow>
             \<lparr>cr_success = False, cr_transactionHash = None,
              cr_errorMessage = Some (case m of Some msg \<Rightarrow> msg | None \<Rightarrow> str ''Transfer failed'')\<rparr>))"

text \<open>\<open>checkFacilitatorBalance\<close>: \<open>balanceOf\<close> gives the balance or throws.\<close>

definition checkFacilitatorBalance :: "chain_id \<Rightarrow> jsstring \<Rightarrow> nat outcome \<Rightarrow> bool \<times> jsstring" where
  "checkFacilitatorBalance chainId requiredAmount chain =
     (if \<not> chainConfigs chainId then (False, str ''0'')
      else
        (case chain of
           Throws m \<Rightarrow> (False, str ''0'')
         | Returns balance \<Rightarrow>
             let balanceStr = natToString balance
             in (case BigInt balanceStr of
                   None \<Rightarrow> (False, str ''0'')
                 | Some b \<Rightarrow>
                     (case BigInt requiredAmount of
                        None \<Rightarrow> (False, str ''0'')
                      | Some req \<Rightarrow> (b \<ge> req, balanceStr)))))"

subsection \<open>POST /authorize\<close>

record authorize_request =
  paymentPayload :: jsstring
  req_network :: jsstring
  req_asset :: jsstring
  capAmount :: jsstring
  validUntil :: int

record authorize_env =
  verification :: "(bool \<times> jsstring option) outcome"
  extractAuthorizationFromPayload :: "jsstring \<Rightarrow> authorization_details option"
  auth_now :: int
  auth_new_id :: jsstring
  auth_toLowerCase :: "jsstring \<Rightarrow> jsstring"

datatype authorize_response =
    AuthorizeOk jsstring jsstring jsstring int jsstring bool
  | AuthorizeError nat jsstring

definition authorize ::
  "authorize_env \<Rightarrow> facilitator_record \<Rightarrow> authorize_request \<Rightarrow> database
     \<Rightarrow> authorize_response \<times> database" where
  "authorize env record req db =
     (case verification env of
        Throws m \<Rightarrow> (AuthorizeError 500 (str ''Internal server error''), db)
      | Returns (valid, invalidReason) \<Rightarrow>
          if \<not> valid then
            (AuthorizeError 400
               (case or_null invalidReason of Some r \<Rightarrow> r | None \<Rightarrow> str ''Invalid signature''), db)
          else
            (case extractAuthorizationFromPayload env (paymentPayload req) of
               None \<Rightarrow> (AuthorizeError 400 (str ''Failed to extract authorization from payload''), db)
             | Some authDetails \<Rightarrow>
                 (case getMultiSettleSignatureByNonce db (fac_id record) (ad_nonce authDetails) of
                    Some existingAuth \<Rightarrow>
                      if status existingAuth = Active then
                        (AuthorizeOk (sig_id existingAuth) (cap_amount existingAuth)
                           (remaining_amount existingAuth) (valid_until existingAuth)
                           (nonce existingAuth) (deposited existingAuth = 1), db)
                      else
                        (AuthorizeError 400
                           (str ''Authorization with this nonce already exists and is ''
                              @ status_name (status existingAuth)), db)
                  | None \<Rightarrow>
                      if validUntil req \<le> auth_now env then
                        (AuthorizeError 400 (str ''validUntil must be in the future''), db)
                      else if ad_value authDetails \<noteq> capAmount req then
                        (AuthorizeError 400
                           (str ''Cap amount ('' @ capAmount req
                              @ str '') must match authorization value (''
                              @ ad_value authDetails @ str '')''), db)
                      else
                        (case createMultiSettleSignature (auth_toLowerCase env) (auth_new_id env)
                                \<lparr>d_facilitator_id = fac_id record,
                                 d_network = req_network req,
                                 d_asset = req_asset req,
                                 d_from_address = ad_from authDetails,
                                 d_cap_amount = capAmount req,
                                 d_valid_until = validUntil req,
                                 d_nonce = ad_nonce authDetails,
                                 d_signature = ad_signature authDetails,
                                 d_payment_payload = paymentPayload req\<rparr> db of
                           (None, db') \<Rightarrow> (AuthorizeError 500 (str ''Failed to create authorization''), db')
                         | (Some sg, db') \<Rightarrow>
                             (AuthorizeOk (sig_id sg) (cap_amount sg) (remaining_amount sg)
                                (valid_until sg) (nonce sg) False, db')))))"

subsection \<open>POST /settle\<close>

record settle_env =
  now_route :: int
  now_reserve :: int
  decrypted_key :: "jsstring option"
  account_address :: "jsstring option"
  settlement_id :: jsstring
  settle_toLowerCase :: "jsstring \<Rightarrow> jsstring"
  extractAuthorization :: "jsstring \<Rightarrow> authorization_details option"
  deposit_outcome :: "chain_result outcome"
  balance_outcome :: "nat outcome"
  transfer_outcome :: transfer_outcome

record settle_response =
  res_code :: nat
  res_success :: bool
  res_errorMessage :: "jsstring option"
  res_transactionHash :: "jsstring option"
  res_remainingAmount :: "jsstring option"
  res_network :: "jsstring option"

definition settle_error ::
  "nat \<Rightarrow> jsstring option \<Rightarrow> jsstring option \<Rightarrow> jsstring option \<Rightarrow> settle_response" where
  "settle_error code msg remaining net =
     \<lparr>res_code = code, res_success = False, res_errorMessage = msg, res_transactionHash = None,
      res_remainingAmount = remaining, res_network = net\<rparr>"

text \<open>
  What the handler does besides reading, in the order it does it: the reserve call and whether
  it returned a record, the INSERT of the settlement record and whether it returned one, the
  three chain calls, and the writes that follow them. The handler's log pairs each of these
  with the database as it is when the call returns: for a chain call that is the database
  the call is made in.
\<close>

datatype action =
    Reserve bool
  | CreateSettlement settlement_status bool
  | Deposit
  | MarkDeposited
  | CheckBalance
  | Transfer
  | UpdateSettlement settlement_status

type_synonym log = "(action \<times> database) list"

fun is_chain_call :: "action \<Rightarrow> bool" where
  "is_chain_call Deposit = True"
| "is_chain_call CheckBalance = True"
| "is_chain_call Transfer = True"
| "is_chain_call _ = False"

text \<open>Lines 433 to 538: the checks before the reserve call. They only read.\<close>

definition settle_checks ::
  "settle_env \<Rightarrow> facilitator_record \<Rightarrow> jsstring \<Rightarrow> jsstring \<Rightarrow> database
     \<Rightarrow> settle_response + (MultiSettleSignatureRecord \<times> chain_id \<times> jsstring \<times> jsstring)" where
  "settle_checks env record authorizationId amnt db =
     (case getMultiSettleSignatureById db authorizationId of
        None \<Rightarrow> Inl (settle_error 404 (Some (str ''Authorization not found'')) None None)
      | Some sg \<Rightarrow>
          if facilitator_id sg \<noteq> fac_id record then
            Inl (settle_error 403 (Some (str ''Authorization does not belong to this facilitator''))
                   None None)
          else if status sg \<noteq> Active then
            Inl (settle_error 400 (Some (str ''Authorization is '' @ status_name (status sg)))
                   (Some (remaining_amount sg)) None)
          else if valid_until sg < now_route env then
            Inl (settle_error 400 (Some (str ''Authorization has expired''))
                   (Some (remaining_amount sg)) None)
          else
            (case BigInt (remaining_amount sg) of
               None \<Rightarrow> Inl (settle_error 500 (Some (str ''Internal server error'')) None None)
             | Some remainingBigInt \<Rightarrow>
                 (case BigInt amnt of
                    None \<Rightarrow> Inl (settle_error 500 (Some (str ''Internal server error'')) None None)
                  | Some amountBigInt \<Rightarrow>
                      if amountBigInt > remainingBigInt then
                        Inl (settle_error 400
                               (Some (str ''Amount '' @ amnt @ str '' exceeds remaining balance ''
                                        @ remaining_amount sg))
                               (Some (remaining_amount sg)) None)
                      else if amountBigInt \<le> 0 then
                        Inl (settle_error 400 (Some (str ''Amount must be greater than 0''))
                               (Some (remaining_amount sg)) None)
                      else
                        (case networkToChainId (network sg) of
                           None \<Rightarrow>
                             Inl (settle_error 400
                                    (Some (str ''Unsupported network: '' @ network sg)) None None)
                         | Some chainId \<Rightarrow>
                             if network sg = str ''solana'' \<or> network sg = str ''solana-mainnet''
                                \<or> network sg = str ''solana-devnet'' then
                               Inl (settle_error 400
                                      (Some (str ''Multi-settle for Solana is not yet supported''))
                                      None None)
                             else
                               (case or_null (encrypted_private_key record) of
                                  None \<Rightarrow>
                                    Inl (settle_error 400 (Some (str ''EVM wallet not configured''))
                                           None None)
                                | Some encrypted \<Rightarrow>
                                    (case decrypted_key env of
                                       None \<Rightarrow>
                                         Inl (settle_error 500
                                                (Some (str ''Failed to decrypt wallet'')) None None)
                                     | Some privateKey \<Rightarrow>
                                         (case account_address env of
                                            None \<Rightarrow>
                                              Inl (settle_error 500
                                                     (Some (str ''Internal server error'')) None None)
                                          | Some address \<Rightarrow>
                                              Inr (sg, chainId, privateKey, address))))))))"

text \<open>
  Lines 615 to 667: the balance check and the transfer to \<open>payTo\<close>, in the database \<open>db\<close>.
  \<open>done\<close> is the log so far.
\<close>

definition settle_transfer ::
  "settle_env \<Rightarrow> chain_id \<Rightarrow> MultiSettleSignatureRecord \<Rightarrow> MultiSettleSignatureRecord
     \<Rightarrow> MultiSettleSettlementRecord \<Rightarrow> jsstring \<Rightarrow> log \<Rightarrow> database
     \<Rightarrow> settle_response \<times> database \<times> log" where
  "settle_transfer env chainId sg updatedSignature settlement amnt done db =
     (let balanceCheck = checkFacilitatorBalance chainId amnt (balance_outcome env)
      in if \<not> fst balanceCheck then
           let db' = snd (updateMultiSettleSettlementStatus (stl_id settlement) Failed None
                            (Some (str ''Insufficient facilitator balance: '' @ snd balanceCheck
                                     @ str '' < '' @ amnt)) db)
           in (settle_error 400 (Some (str ''Facilitator has insufficient balance for transfer''))
                 (Some (remaining_amount updatedSignature)) (Some (network sg)),
               db', done @ [(CheckBalance, db), (UpdateSettlement Failed, db')])
         else
           let transferResult = transferTokens chainId (transfer_outcome env)
           in if cr_success transferResult then
                let db' = snd (updateMultiSettleSettlementStatus (stl_id settlement) Success
                                 (cr_transactionHash transferResult) None db)
                in (\<lparr>res_code = 200, res_success = True, res_errorMessage = None,
                     res_transactionHash = cr_transactionHash transferResult,
                     res_remainingAmount = Some (remaining_amount updatedSignature),
                     res_network = Some (network sg)\<rparr>,
                    db', done @ [(CheckBalance, db), (Transfer, db), (UpdateSettlement Success, db')])
              else
                let db' = snd (updateMultiSettleSettlementStatus (stl_id settlement) Failed None
                                 (cr_errorMessage transferResult) db)
                in (settle_error 400 (cr_errorMessage transferResult)
                      (Some (remaining_amount updatedSignature)) (Some (network sg)),
                    db', done @ [(CheckBalance, db), (Transfer, db), (UpdateSettlement Failed, db')]))"

text \<open>
  Lines 570 to 677: the \<open>try\<close> block after the settlement record exists, with its \<open>catch\<close>.
  Of the calls in the block only the deposit of the core package can throw.
\<close>

definition settle_try ::
  "settle_env \<Rightarrow> chain_id \<Rightarrow> MultiSettleSignatureRecord \<Rightarrow> MultiSettleSignatureRecord
     \<Rightarrow> MultiSettleSettlementRecord \<Rightarrow> jsstring \<Rightarrow> jsstring \<Rightarrow> database
     \<Rightarrow> settle_response \<times> database \<times> log" where
  "settle_try env chainId sg updatedSignature settlement authorizationId amnt db =
     (if deposited sg = 0 then
        (case extractAuthorization env (payment_payload sg) of
           None \<Rightarrow>
             let db' = snd (updateMultiSettleSettlementStatus (stl_id settlement) Failed None
                              (Some (str ''Failed to extract authorization'')) db)
             in (settle_error 500 (Some (str ''Failed to extract authorization from stored payload''))
                   None None,
                 db', [(UpdateSettlement Failed, db')])
         | Some authDetails \<Rightarrow>
             (case deposit_outcome env of
                Throws m \<Rightarrow>
                  (let errorMessage =
                         (case m of Some msg \<Rightarrow> msg | None \<Rightarrow> str ''Settlement execution failed'');
                       db' = snd (updateMultiSettleSettlementStatus (stl_id settlement) Failed None
                                    (Some errorMessage) db)
                   in (settle_error 500 (Some errorMessage)
                         (Some (remaining_amount updatedSignature)) (Some (network sg)),
                       db', [(Deposit, db), (UpdateSettlement Failed, db')]))
              | Returns depositResult \<Rightarrow>
                  if \<not> cr_success depositResult then
                    let db' = snd (updateMultiSettleSettlementStatus (stl_id settlement) Failed None
                                     (cr_errorMessage depositResult) db)
                    in (settle_error 400
                          (Some (str ''Failed to deposit funds: ''
                                   @ interpolate (cr_errorMessage depositResult)))
                          (Some (remaining_amount updatedSignature)) (Some (network sg)),
                        db', [(Deposit, db), (UpdateSettlement Failed, db')])
                  else
                    let db' = snd (markSignatureDeposited authorizationId db)
                    in settle_transfer env chainId sg updatedSignature settlement amnt
                         [(Deposit, db), (MarkDeposited, db')] db'))
      else settle_transfer env chainId sg updatedSignature settlement amnt [] db)"

text \<open>The handler: the checks, the reserve call, the pending settlement record, the chain.\<close>

definition settle ::
  "settle_env \<Rightarrow> facilitator_record \<Rightarrow> jsstring \<Rightarrow> jsstring \<Rightarrow> jsstring \<Rightarrow> database
     \<Rightarrow> settle_response \<times> database \<times> log" where
  "settle env record authorizationId payTo amnt db =
     (case settle_checks env record authorizationId amnt db of
        Inl response \<Rightarrow> (response, db, [])
      | Inr (sg, chainId, privateKey, address) \<Rightarrow>
          (case decrementRemainingAmount (now_reserve env) authorizationId amnt db of
             (Inl e, db1) \<Rightarrow>
               (settle_error 500 (Some (str ''Internal server error'')) None None, db1, [])
           | (Inr None, db1) \<Rightarrow>
               (settle_error 400
                  (Some (str ''Failed to reserve amount - insufficient balance or authorization is no longer active''))
                  (Some (remaining_amount sg)) None,
                db1, [(Reserve False, db1)])
           | (Inr (Some updatedSignature), db1) \<Rightarrow>
               (case createMultiSettleSettlement (settle_toLowerCase env) (settlement_id env)
                       authorizationId (fac_id record) payTo amnt None Pending None db1 of
                  (None, db2) \<Rightarrow>
                    (settle_error 500 (Some (str ''Internal error creating settlement record''))
                       None None,
                     db2, [(Reserve True, db1), (CreateSettlement Pending False, db2)])
                | (Some settlement, db2) \<Rightarrow>
                    (case settle_try env chainId sg updatedSignature settlement authorizationId amnt db2 of
                       (response, db3, done) \<Rightarrow>
                         (response, db3,
                          [(Reserve True, db1), (CreateSettlement Pending True, db2)] @ done)))))"

subsection \<open>POST /revoke\<close>

datatype revoke_response = RevokeOk jsstring bool | RevokeError nat jsstring

definition revoke ::
  "facilitator_record \<Rightarrow> jsstring \<Rightarrow> database \<Rightarrow> revoke_response \<times> database" where
  "revoke record authorizationId db =
     (case getMultiSettleSignatureById db authorizationId of
        None \<Rightarrow> (RevokeError 404 (str ''Authorization not found''), db)
      | Some sg \<Rightarrow>
          if facilitator_id sg \<noteq> fac_id record then
            (RevokeError 403 (str ''Authorization does not belong to this facilitator''), db)
          else if status sg \<noteq> Active then
            (RevokeError 400 (str ''Authorization is already '' @ status_name (status sg)), db)
          else
            (case revokeMultiSettleSignature authorizationId db of
               (ok, db') \<Rightarrow>
                 if \<not> ok then (RevokeError 500 (str ''Failed to revoke authorization''), db')
                 else (RevokeOk (remaining_amount sg) (deposited sg = 1), db')))"

section \<open>Sequences of store operations\<close>

datatype store_op =
    OpCreate jsstring signature_data
  | OpReserve int jsstring jsstring
  | OpRevoke jsstring
  | OpRevokeByNonce jsstring jsstring
  | OpMarkDeposited jsstring
  | OpCleanupExpired int

fun apply_op :: "(jsstring \<Rightarrow> jsstring) \<Rightarrow> store_op \<Rightarrow> database \<Rightarrow> database" where
  "apply_op toLowerCase (OpCreate new_id data) db =
     snd (createMultiSettleSignature toLowerCase new_id data db)"
| "apply_op toLowerCase (OpReserve now i amnt) db = snd (decrementRemainingAmount now i amnt db)"
| "apply_op toLowerCase (OpRevoke i) db = snd (revokeMultiSettleSignature i db)"
| "apply_op toLowerCase (OpRevokeByNonce f n) db = snd (revokeMultiSettleSignatureByNonce f n db)"
| "apply_op toLowerCase (OpMarkDeposited i) db = snd (markSignatureDeposited i db)"
| "apply_op toLowerCase (OpCleanupExpired now) db = snd (cleanupExpiredSignatures now db)"

fun run :: "(jsstring \<Rightarrow> jsstring) \<Rightarrow> store_op list \<Rightarrow> database \<Rightarrow> database" where
  "run toLowerCase [] db = db"
| "run toLowerCase (op # ops) db = run toLowerCase ops (apply_op toLowerCase op db)"

text \<open>The amount an operation reserves on authorization \<open>i\<close>: that of a reserve call that
  returned a record, zero for every other operation.\<close>

fun granted :: "jsstring \<Rightarrow> store_op \<Rightarrow> database \<Rightarrow> int" where
  "granted i (OpReserve now j amnt) db =
     (if j = i then
        (case fst (decrementRemainingAmount now j amnt db) of
           Inr (Some updated) \<Rightarrow> (case BigInt amnt of Some n \<Rightarrow> n | None \<Rightarrow> 0)
         | _ \<Rightarrow> 0)
      else 0)"
| "granted i _ db = 0"

fun reserved_total :: "(jsstring \<Rightarrow> jsstring) \<Rightarrow> jsstring \<Rightarrow> store_op list \<Rightarrow> database \<Rightarrow> int" where
  "reserved_total toLowerCase i [] db = 0"
| "reserved_total toLowerCase i (op # ops) db =
     granted i op db + reserved_total toLowerCase i ops (apply_op toLowerCase op db)"

text \<open>The operations the invariant is about: a cap is a numeral that is not negative, and no
  reserve call asks for a negative amount. An amount \<open>BigInt\<close> cannot read makes the reserve
  call throw.\<close>

fun op_ok :: "store_op \<Rightarrow> bool" where
  "op_ok (OpCreate new_id data) = (case BigInt (d_cap_amount data) of Some c \<Rightarrow> 0 \<le> c | None \<Rightarrow> False)"
| "op_ok (OpReserve now i amnt) = (case BigInt amnt of Some n \<Rightarrow> 0 \<le> n | None \<Rightarrow> True)"
| "op_ok _ = True"

section \<open>Auxiliary definitions for the statements and proofs\<close>

definition isDecDigit :: "code_unit \<Rightarrow> bool" where
  "isDecDigit c \<longleftrightarrow> c \<in> set (str ''0123456789'')"

text \<open>The row a granted reservation of \<open>n\<close> out of \<open>r\<close> leaves behind.\<close>

definition reserved_row :: "int \<Rightarrow> int \<Rightarrow> MultiSettleSignatureRecord \<Rightarrow> MultiSettleSignatureRecord" where
  "reserved_row r n row =
     row\<lparr>remaining_amount := bigintToString (r - n),
         status := (if r - n = 0 then Exhausted else status row)\<rparr>"

text \<open>A row is in range when both amounts are numerals and \<open>0 \<le> remaining \<le> cap\<close>.\<close>

definition row_ok :: "MultiSettleSignatureRecord \<Rightarrow> bool" where
  "row_ok r \<longleftrightarrow>
     (case BigInt (remaining_amount r) of
        None \<Rightarrow> False
      | Some m \<Rightarrow> (case BigInt (cap_amount r) of None \<Rightarrow> False | Some c \<Rightarrow> 0 \<le> m \<and> m \<le> c))"

definition db_ok :: "database \<Rightarrow> bool" where
  "db_ok db \<longleftrightarrow>
     distinct (map sig_id (multisettle_signatures db)) \<and> list_all row_ok (multisettle_signatures db)"

text \<open>
  How a row \<open>sg'\<close> relates to the row \<open>sg\<close> it was before operations that reserved \<open>g\<close>
  in all: same cap, the remaining amount \<open>g\<close> less, and nothing reserved from a row that was
  not active.
\<close>

definition follows :: "int \<Rightarrow> MultiSettleSignatureRecord \<Rightarrow> MultiSettleSignatureRecord \<Rightarrow> bool" where
  "follows g sg sg' \<longleftrightarrow>
     cap_amount sg' = cap_amount sg
     \<and> (case BigInt (remaining_amount sg) of
          None \<Rightarrow> False
        | Some m \<Rightarrow> BigInt (remaining_amount sg') = Some (m - g))
     \<and> 0 \<le> g
     \<and> (status sg = Active \<or> (remaining_amount sg' = remaining_amount sg \<and> status sg' \<noteq> Active \<and> g = 0))"

text \<open>What \<open>updateMultiSettleSettlementStatus\<close> writes into a row.\<close>

definition written_settlement ::
  "settlement_status \<Rightarrow> jsstring option \<Rightarrow> jsstring option \<Rightarrow> MultiSettleSettlementRecord
     \<Rightarrow> MultiSettleSettlementRecord" where
  "written_settlement st th em r =
     r\<lparr>stl_status := st,
       transaction_hash := (case th of None \<Rightarrow> transaction_hash r | Some h \<Rightarrow> Some h),
       error_message := (case em of None \<Rightarrow> error_message r | Some m \<Rightarrow> Some m)\<rparr>"

text \<open>The deposit is not needed or has gone through.\<close>

definition deposit_done :: "settle_env \<Rightarrow> MultiSettleSignatureRecord \<Rightarrow> bool" where
  "deposit_done env sg \<longleftrightarrow>
     deposited sg \<noteq> 0
     \<or> (case extractAuthorization env (payment_payload sg) of
          None \<Rightarrow> False
        | Some authDetails \<Rightarrow>
            (case deposit_outcome env of Returns depositResult \<Rightarrow> cr_success depositResult
             | Throws m \<Rightarrow> False))"

text \<open>
  What a failed settlement leaves: a failure response that reports \<open>remaining\<close>, the settlement
  record \<open>sid\<close> failed with the message \<open>msg\<close>, and authorization \<open>i\<close> with \<open>remaining\<close> left.
\<close>

definition reservation_kept ::
  "settle_response \<times> database \<times> log \<Rightarrow> jsstring \<Rightarrow> jsstring \<Rightarrow> jsstring \<Rightarrow> jsstring option \<Rightarrow> bool" where
  "reservation_kept out i sid remaining msg \<longleftrightarrow>
     \<not> res_success (fst out)
     \<and> res_remainingAmount (fst out) = Some remaining
     \<and> map_option stl_status (getMultiSettleSettlementById (fst (snd out)) sid) = Some Failed
     \<and> map_option error_message (getMultiSettleSettlementById (fst (snd out)) sid) = Some msg
     \<and> map_option remaining_amount (getMultiSettleSignatureById (fst (snd out)) i) = Some remaining"

text \<open>
  A database in which the amount is reserved and the settlement is on record as pending:
  authorization \<open>i\<close> is the record \<open>upd\<close> the reserve call returned, but for the flag
  \<open>deposited\<close>, and the settlement record \<open>sid\<close> is the pending record \<open>stl\<close>.
\<close>

definition reserved_and_pending ::
  "database \<Rightarrow> jsstring \<Rightarrow> MultiSettleSignatureRecord \<Rightarrow> jsstring \<Rightarrow> MultiSettleSettlementRecord \<Rightarrow> bool" where
  "reserved_and_pending d i upd sid stl \<longleftrightarrow>
     map_option (\<lambda>r. r\<lparr>deposited := deposited upd\<rparr>) (getMultiSettleSignatureById d i) = Some upd
     \<and> getMultiSettleSettlementById d sid = Some stl
     \<and> stl_status stl = Pending"

text \<open>
  A database in which the settlement has been closed: the authorization is as the reserve call
  left it, but for the flag \<open>deposited\<close>, and the settlement record \<open>sid\<close> is the pending
  record \<open>stl\<close> with a status that is no longer pending written into it.
\<close>

definition settled_with ::
  "database \<Rightarrow> jsstring \<Rightarrow> MultiSettleSignatureRecord \<Rightarrow> jsstring \<Rightarrow> MultiSettleSettlementRecord \<Rightarrow> bool" where
  "settled_with d i upd sid stl \<longleftrightarrow>
     map_option (\<lambda>r. r\<lparr>deposited := deposited upd\<rparr>) (getMultiSettleSignatureById d i) = Some upd
     \<and> (\<exists>st th em. st \<noteq> Pending
           \<and> getMultiSettleSettlementById d sid = Some (written_settlement st th em stl))"

text \<open>The chain calls of a log, each with the database it was made in.\<close>

definition chain_calls :: "log \<Rightarrow> log" where
  "chain_calls l = filter (\<lambda>e. is_chain_call (fst e)) l"

text \<open>
  The shape of the handler's log after the pending record \<open>sid\<close> is inserted, leaving the
  database \<open>db2\<close>: chain calls, each in \<open>db2\<close> or in \<open>db2\<close> with the authorization marked
  deposited, then one write of the record's status, to success or failed, which gives the
  database the handler returns.
\<close>

definition try_log ::
  "jsstring \<Rightarrow> jsstring \<Rightarrow> database \<Rightarrow> settle_response \<times> database \<times> log \<Rightarrow> bool" where
  "try_log i sid db2 out \<longleftrightarrow>
     (\<exists>pre st th em dT.
        snd (snd out) = pre @ [(UpdateSettlement st, fst (snd out))]
      \<and> st \<noteq> Pending
      \<and> fst (snd out) = snd (updateMultiSettleSettlementStatus sid st th em dT)
      \<and> (dT = db2 \<or> dT = snd (markSignatureDeposited i db2))
      \<and> list_all (\<lambda>e. (fst e = Deposit \<or> fst e = action.MarkDeposited \<or> fst e = CheckBalance
                           \<or> fst e = Transfer)
                        \<and> (snd e = db2 \<or> snd e = snd (markSignatureDeposited i db2))) pre)"

section \<open>Concrete data for the worked examples\<close>

definition example_row :: MultiSettleSignatureRecord where
  "example_row =
     \<lparr>sig_id = str ''a1'', facilitator_id = str ''f1'', network = str ''base'', asset = str ''0xA'',
      from_address = str ''0xabc'', cap_amount = str ''100'', remaining_amount = str ''100'',
      valid_until = 1000, nonce = str ''n1'', signature = str ''sig'', payment_payload = str ''pp'',
      status = Active, deposited = 0\<rparr>"

definition example_db :: "MultiSettleSignatureRecord \<Rightarrow> database" where
  "example_db row = \<lparr>multisettle_signatures = [row], multisettle_settlements = []\<rparr>"

definition example_data :: signature_data where
  "example_data =
     \<lparr>d_facilitator_id = str ''f1'', d_network = str ''base'', d_asset = str ''0xA'',
      d_from_address = str ''0xABC'', d_cap_amount = str ''100'', d_valid_until = 1000,
      d_nonce = str ''n1'', d_signature = str ''sig'', d_payment_payload = str ''pp''\<rparr>"

definition example_ops :: "store_op list" where
  "example_ops = [OpCreate (str ''a1'') example_data, OpReserve 10 (str ''a1'') (str ''30'')]"

definition example_later :: "store_op list" where
  "example_later = [OpRevoke (str ''a1''), OpReserve 20 (str ''a1'') (str ''10'')]"

definition negative_ops :: "store_op list" where
  "negative_ops = [OpCreate (str ''a1'') example_data, OpReserve 10 (str ''a1'') (str ''-5'')]"

definition example_facilitator :: facilitator_record where
  "example_facilitator = \<lparr>fac_id = str ''f1'', encrypted_private_key = Some (str ''enc'')\<rparr>"

definition example_details :: authorization_details where
  "example_details =
     \<lparr>ad_from = str ''0xABC'', ad_to = str ''0xFAC'', ad_nonce = str ''n1'', ad_value = str ''100'',
      ad_signature = str ''sig''\<rparr>"

definition example_env :: settle_env where
  "example_env =
     \<lparr>now_route = 10, now_reserve = 10, decrypted_key = Some (str ''key''),
      account_address = Some (str ''0xFAC''), settlement_id = str ''s1'',
      settle_toLowerCase = toLowerCaseASCII,
      extractAuthorization = (\<lambda>p. Some example_details),
      deposit_outcome = Returns \<lparr>cr_success = True, cr_transactionHash = Some (str ''0xdep''),
                                 cr_errorMessage = None\<rparr>,
      balance_outcome = Returns 1000,
      transfer_outcome = Receipt True (str ''0xtx'')\<rparr>"

definition failing_deposit_env :: settle_env where
  "failing_deposit_env =
     example_env\<lparr>deposit_outcome :=
       Returns \<lparr>cr_success = False, cr_transactionHash = None,
                cr_errorMessage = Some (str ''authorization is used or canceled'')\<rparr>\<rparr>"

definition failing_transfer_env :: settle_env where
  "failing_transfer_env = example_env\<lparr>transfer_outcome := Receipt False (str ''0xbad'')\<rparr>"

definition example_settlement :: MultiSettleSettlementRecord where
  "example_settlement =
     \<lparr>stl_id = str ''s1'', signature_id = str ''a1'', stl_facilitator_id = str ''f1'',
      pay_to = str ''0xb0b'', amount = str ''30'', transaction_hash = None, stl_status = Pending,
      error_message = None\<rparr>"

text \<open>The databases the example settlement goes through.\<close>

definition reserved_db :: database where
  "reserved_db = example_db (example_row\<lparr>remaining_amount := str ''70''\<rparr>)"

definition pending_db :: database where
  "pending_db =
     \<lparr>multisettle_signatures = [example_row\<lparr>remaining_amount := str ''70''\<rparr>],
      multisettle_settlements = [example_settlement]\<rparr>"

definition deposited_db :: database where
  "deposited_db =
     \<lparr>multisettle_signatures = [example_row\<lparr>remaining_amount := str ''70'', deposited := 1\<rparr>],
      multisettle_settlements = [example_settlement]\<rparr>"

definition settled_db :: database where
  "settled_db =
     \<lparr>multisettle_signatures = [example_row\<lparr>remaining_amount := str ''70'', deposited := 1\<rparr>],
      multisettle_settlements =
        [example_settlement\<lparr>stl_status := Success, transaction_hash := Some (str ''0xtx'')\<rparr>]\<rparr>"

definition example_request :: authorize_request where
  "example_request =
     \<lparr>paymentPayload = str ''pp'', req_network = str ''base'', req_asset = str ''0xA'',
      capAmount = str ''100'', validUntil = 1000\<rparr>"

definition example_authorize_env :: authorize_env where
  "example_authorize_env =
     \<lparr>verification = Returns (True, None),
      extractAuthorizationFromPayload = (\<lambda>p. Some example_details),
      auth_now = 10, auth_new_id = str ''a1'', auth_toLowerCase = toLowerCaseASCII\<rparr>"

text \<open>An authorization whose network is a name of \<open>Object.prototype\<close>, already deposited.\<close>

definition inherited_row :: MultiSettleSignatureRecord where
  "inherited_row = example_row\<lparr>network := str ''toString'', deposited := 1\<rparr>"

section \<open>Literals and code units\<close>

lemma unat_charCode: "unat (charCode c) = of_char c"
proof -
  have "charCode c = of_nat (of_char c)"
    by (simp only: charCode_def of_nat_of_char)
  hence "unat (charCode c) = (of_char c :: nat) mod 2 ^ 16"
    by (simp add: unat_of_nat)
  moreover have "(of_char c :: nat) < 2 ^ 16"
    by (rule less_trans [OF nat_of_char_less_256]) simp
  ultimately show ?thesis by simp
qed

lemma charCode_inject [simp]: "charCode a = charCode b \<longleftrightarrow> a = b"
proof
  assume "charCode a = charCode b"
  hence "unat (charCode a) = unat (charCode b)" by simp
  hence "(of_char a :: nat) = of_char b" by (simp only: unat_charCode)
  thus "a = b" by simp
qed simp

lemma str_inject [simp]: "str a = str b \<longleftrightarrow> a = b"
  unfolding str_def by (simp add: inj_on_def)

lemma str_Nil [simp]: "str [] = []"
  by (simp add: str_def)

lemma str_Cons: "str (c # cs) = charCode c # str cs"
  by (simp add: str_def)

lemma str_eq_Nil [simp]: "str s = [] \<longleftrightarrow> s = []" "[] = str s \<longleftrightarrow> s = []"
  by (auto simp: str_def)

lemma str_append: "str (x @ y) = str x @ str y"
  by (simp add: str_def)

lemma str_fold [simp]: "str x @ str y = str (x @ y)" "str x @ str y @ z = str (x @ y) @ z"
  by (simp_all add: str_def)

lemma lower_examples:
  "toLowerCaseASCII (str ''0xABC'') = str ''0xabc''"
  "toLowerCaseASCII (str ''0xB0B'') = str ''0xb0b''"
  by (simp_all add: toLowerCaseASCII_def str_def)

section \<open>Reading back what \<open>toString\<close> wrote\<close>

lemma digit_cases:
  "d < 10 \<Longrightarrow> d = 0 \<or> d = 1 \<or> d = 2 \<or> d = 3 \<or> d = 4 \<or> d = 5 \<or> d = 6 \<or> d = 7 \<or> d = 8 \<or> d = (9::nat)"
  by arith

lemma digitValue_digitChar: "d < 10 \<Longrightarrow> digitValue (digitChar d) = Some d"
  by (drule digit_cases) (elim disjE; simp add: digitValue_def digitChar_def str_def)

lemma isDecDigit_digitChar: "d < 10 \<Longrightarrow> isDecDigit (digitChar d)"
  by (drule digit_cases) (elim disjE; simp add: isDecDigit_def digitChar_def str_def)

lemma isDecDigit_not_ws: "isDecDigit c \<Longrightarrow> \<not> isStrWhiteSpaceChar c"
  by (auto simp: isDecDigit_def isStrWhiteSpaceChar_def str_def charCode_def)

lemma isDecDigit_not_special:
  "isDecDigit c \<Longrightarrow> c \<noteq> charCode CHR ''-'' \<and> c \<noteq> charCode CHR ''+'' \<and> c \<noteq> charCode CHR ''x'' \<and> c \<noteq> charCode CHR ''X''
     \<and> c \<noteq> charCode CHR ''o'' \<and> c \<noteq> charCode CHR ''O'' \<and> c \<noteq> charCode CHR ''b'' \<and> c \<noteq> charCode CHR ''B''"
  by (auto simp: isDecDigit_def str_def)

lemma natToString_small: "n < 10 \<Longrightarrow> natToString n = [digitChar n]"
  by (subst natToString.simps) simp

lemma natToString_large:
  "\<not> n < 10 \<Longrightarrow> natToString n = natToString (n div 10) @ [digitChar (n mod 10)]"
  by (subst natToString.simps) simp

lemma natToString_digits: "c \<in> set (natToString n) \<Longrightarrow> isDecDigit c"
proof (induction n arbitrary: c rule: natToString.induct)
  case (1 n)
  show ?case
  proof (cases "n < 10")
    case True
    with "1.prems" show ?thesis by (simp add: natToString_small isDecDigit_digitChar)
  next
    case False
    with "1.prems" "1.IH" show ?thesis
      by (auto simp: natToString_large isDecDigit_digitChar)
  qed
qed

lemma natToString_nonempty: "natToString n \<noteq> []"
  by (cases "n < 10") (simp_all add: natToString_small natToString_large)

lemma digitsToNat_snoc:
  "digitsToNat r acc (xs @ [c]) =
     (case digitsToNat r acc xs of
        None \<Rightarrow> None
      | Some m \<Rightarrow> (case digitValue c of None \<Rightarrow> None
                   | Some d \<Rightarrow> if d < r then Some (m * r + d) else None))"
  by (induction xs arbitrary: acc) (auto split: option.splits)

lemma digitsToNat_natToString: "digitsToNat 10 0 (natToString n) = Some n"
proof (induction n rule: natToString.induct)
  case (1 n)
  show ?case
  proof (cases "n < 10")
    case True
    then show ?thesis by (simp add: natToString_small digitValue_digitChar)
  next
    case False
    with "1.IH" show ?thesis
      by (simp add: natToString_large digitsToNat_snoc digitValue_digitChar)
  qed
qed

lemma parseDigits_natToString: "parseDigits 10 (natToString n) = Some n"
  by (simp add: parseDigits_def natToString_nonempty digitsToNat_natToString)

lemma dropWhile_hd: "xs \<noteq> [] \<Longrightarrow> \<not> P (hd xs) \<Longrightarrow> dropWhile P xs = xs"
  by (cases xs) auto

lemma trimString_id:
  assumes "xs \<noteq> []" "\<not> isStrWhiteSpaceChar (hd xs)" "\<not> isStrWhiteSpaceChar (last xs)"
  shows "trimString xs = xs"
proof -
  have "dropWhile isStrWhiteSpaceChar xs = xs" using assms by (simp add: dropWhile_hd)
  moreover have "dropWhile isStrWhiteSpaceChar (rev xs) = rev xs"
    using assms by (intro dropWhile_hd) (simp_all add: hd_rev)
  ultimately show ?thesis by (simp add: trimString_def)
qed

lemma natToString_ends:
  "\<not> isStrWhiteSpaceChar (hd (natToString n))" "\<not> isStrWhiteSpaceChar (last (natToString n))"
proof -
  have "hd (natToString n) \<in> set (natToString n)" by (simp add: natToString_nonempty)
  then show "\<not> isStrWhiteSpaceChar (hd (natToString n))"
    by (blast dest: natToString_digits isDecDigit_not_ws)
  have "last (natToString n) \<in> set (natToString n)" by (simp add: natToString_nonempty)
  then show "\<not> isStrWhiteSpaceChar (last (natToString n))"
    by (blast dest: natToString_digits isDecDigit_not_ws)
qed

lemma trimString_natToString: "trimString (natToString n) = natToString n"
  by (rule trimString_id) (simp_all add: natToString_nonempty natToString_ends)

lemma trimString_minus: "trimString (charCode CHR ''-'' # natToString n) = charCode CHR ''-'' # natToString n"
proof (rule trimString_id)
  show "charCode CHR ''-'' # natToString n \<noteq> []" by simp
  show "\<not> isStrWhiteSpaceChar (hd (charCode CHR ''-'' # natToString n))"
    by (simp add: isStrWhiteSpaceChar_def charCode_def)
  show "\<not> isStrWhiteSpaceChar (last (charCode CHR ''-'' # natToString n))"
    by (simp add: natToString_nonempty natToString_ends)
qed

lemma BigInt_natToString: "BigInt (natToString n) = Some (int n)"
proof -
  obtain c rest where cr: "natToString n = c # rest"
    using natToString_nonempty by (cases "natToString n") auto
  have t: "trimString (c # rest) = c # rest"
    using trimString_natToString [of n] by (simp add: cr)
  have "isDecDigit c" using cr natToString_digits [of c n] by simp
  then have c: "c \<noteq> charCode CHR ''-''" "c \<noteq> charCode CHR ''+''"
    by (simp_all add: isDecDigit_not_special)
  have r: "hd rest \<noteq> charCode CHR ''x'' \<and> hd rest \<noteq> charCode CHR ''X'' \<and> hd rest \<noteq> charCode CHR ''o''
      \<and> hd rest \<noteq> charCode CHR ''O'' \<and> hd rest \<noteq> charCode CHR ''b'' \<and> hd rest \<noteq> charCode CHR ''B''" if "rest \<noteq> []"
  proof -
    have "hd rest \<in> set (natToString n)" using that by (simp add: cr)
    then have "isDecDigit (hd rest)" by (rule natToString_digits)
    then show ?thesis by (simp add: isDecDigit_not_special)
  qed
  have "BigInt (c # rest) = map_option int (parseDigits 10 (c # rest))"
  proof (cases "rest = []")
    case True
    with t have "trimString [c] = [c]" by simp
    with True show ?thesis using c by (simp add: BigInt_def)
  next
    case False
    then show ?thesis using c r [OF False] by (simp add: BigInt_def t)
  qed
  then show ?thesis
    using parseDigits_natToString [of n] by (simp add: cr)
qed

lemma BigInt_bigintToString: "BigInt (bigintToString i) = Some i"
proof (cases "i < 0")
  case True
  then show ?thesis
    by (simp add: bigintToString_def BigInt_def trimString_minus parseDigits_natToString)
next
  case False
  then show ?thesis by (simp add: bigintToString_def BigInt_natToString)
qed

lemma BigInt_literal_0: "BigInt (str ''0'') = Some 0"
  by (simp add: BigInt_def trimString_def isStrWhiteSpaceChar_def parseDigits_def digitValue_def
      str_def charCode_def)

lemma bigintToString_zero: "bigintToString i = str ''0'' \<longleftrightarrow> i = 0"
proof
  assume "bigintToString i = str ''0''"
  then have "BigInt (bigintToString i) = BigInt (str ''0'')" by simp
  then show "i = 0" by (simp add: BigInt_bigintToString BigInt_literal_0)
next
  assume "i = 0"
  then show "bigintToString i = str ''0''"
    by (simp add: bigintToString_def natToString_small digitChar_def str_def)
qed

section \<open>Rows after an UPDATE\<close>

lemma find_map_update:
  assumes "\<And>r. sig_id (f r) = sig_id r"
  shows "find (\<lambda>r. sig_id r = j) (map (\<lambda>r. if wh r then f r else r) rows) =
         map_option (\<lambda>r. if wh r then f r else r) (find (\<lambda>r. sig_id r = j) rows)"
  using assms by (induction rows) auto

lemma getById_update_signatures:
  assumes "\<And>r. sig_id (f r) = sig_id r"
  shows "getMultiSettleSignatureById (snd (update_signatures wh f db)) j =
         map_option (\<lambda>r. if wh r then f r else r) (getMultiSettleSignatureById db j)"
  using assms by (simp add: getMultiSettleSignatureById_def update_signatures_def find_map_update)

lemma getById_sig_id: "getMultiSettleSignatureById db i = Some sg \<Longrightarrow> sig_id sg = i"
  by (auto simp: getMultiSettleSignatureById_def find_Some_iff)

lemma update_signatures_twice:
  "snd (update_signatures wh g (snd (update_signatures wh f db))) =
   snd (update_signatures wh (g \<circ> f) db)" if "\<And>r. wh (f r) = wh r"
  using that by (simp add: update_signatures_def comp_def)

section \<open>The reserve operation\<close>

lemma decrement_missing:
  "getMultiSettleSignatureById db i = None \<Longrightarrow> decrementRemainingAmount now i a db = (Inr None, db)"
  by (simp add: decrementRemainingAmount_def)

lemma decrement_inactive:
  "getMultiSettleSignatureById db i = Some sg \<Longrightarrow> status sg \<noteq> Active \<Longrightarrow>
   decrementRemainingAmount now i a db = (Inr None, db)"
  by (simp add: decrementRemainingAmount_def)

lemma decrement_expired:
  "getMultiSettleSignatureById db i = Some sg \<Longrightarrow> status sg = Active \<Longrightarrow> valid_until sg < now \<Longrightarrow>
   decrementRemainingAmount now i a db =
     (Inr None, snd (update_signatures (\<lambda>r. sig_id r = i) (\<lambda>r. r\<lparr>status := Expired\<rparr>) db))"
  by (simp add: decrementRemainingAmount_def)

lemma decrement_throws:
  "getMultiSettleSignatureById db i = Some sg \<Longrightarrow> status sg = Active \<Longrightarrow> \<not> valid_until sg < now \<Longrightarrow>
   BigInt (remaining_amount sg) = None \<or> BigInt a = None \<Longrightarrow>
   decrementRemainingAmount now i a db = (Inl SyntaxError, db)"
  by (auto simp: decrementRemainingAmount_def split: option.splits)

lemma decrement_exceeds:
  "getMultiSettleSignatureById db i = Some sg \<Longrightarrow> status sg = Active \<Longrightarrow> \<not> valid_until sg < now \<Longrightarrow>
   BigInt (remaining_amount sg) = Some r \<Longrightarrow> BigInt a = Some n \<Longrightarrow> n > r \<Longrightarrow>
   decrementRemainingAmount now i a db = (Inr None, db)"
  by (simp add: decrementRemainingAmount_def)

lemma decrement_db:
  assumes "getMultiSettleSignatureById db i = Some sg" "status sg = Active" "\<not> valid_until sg < now"
    "BigInt (remaining_amount sg) = Some r" "BigInt a = Some n" "n \<le> r"
  shows "snd (decrementRemainingAmount now i a db) =
           snd (update_signatures (\<lambda>r. sig_id r = i) (reserved_row r n) db)"
proof (cases "r - n = 0")
  case True
  then show ?thesis using assms
    by (simp add: decrementRemainingAmount_def Let_def bigintToString_zero update_signatures_twice)
       (simp add: update_signatures_def reserved_row_def comp_def)
next
  case False
  then show ?thesis using assms
    by (simp add: decrementRemainingAmount_def Let_def bigintToString_zero)
       (simp add: update_signatures_def reserved_row_def)
qed

lemma decrement_result:
  assumes "getMultiSettleSignatureById db i = Some sg" "status sg = Active" "\<not> valid_until sg < now"
    "BigInt (remaining_amount sg) = Some r" "BigInt a = Some n" "n \<le> r"
  shows "fst (decrementRemainingAmount now i a db) =
           Inr (getMultiSettleSignatureById (snd (decrementRemainingAmount now i a db)) i)"
  using assms by (simp add: decrementRemainingAmount_def Let_def)

lemma decrement_granted:
  assumes "getMultiSettleSignatureById db i = Some sg" "status sg = Active" "\<not> valid_until sg < now"
    "BigInt (remaining_amount sg) = Some r" "BigInt a = Some n" "n \<le> r"
  shows "decrementRemainingAmount now i a db =
           (Inr (Some (reserved_row r n sg)),
            snd (update_signatures (\<lambda>r. sig_id r = i) (reserved_row r n) db))"
proof -
  have "getMultiSettleSignatureById (snd (update_signatures (\<lambda>r. sig_id r = i) (reserved_row r n) db)) i
          = Some (reserved_row r n sg)"
    using assms(1) getById_sig_id [OF assms(1)]
    by (subst getById_update_signatures) (simp_all add: reserved_row_def)
  then show ?thesis
    using decrement_db [OF assms] decrement_result [OF assms]
    by (simp add: prod_eq_iff)
qed

section \<open>C1: the reserve operation, case by case\<close>

lemma BigInt_examples:
  "BigInt (str ''100'') = Some 100" "BigInt (str ''30'') = Some 30" "BigInt (str ''0'') = Some 0"
  "BigInt (str ''-5'') = Some (- 5)" "BigInt (str ''10'') = Some 10"
  "BigInt (str ''70'') = Some 70" "BigInt (str ''105'') = Some 105"
  "BigInt (0x00A0 # str ''30'') = Some 30" "BigInt (0x00A0 # str ''-5'') = Some (- 5)"
  "BigInt (str ''0x1e'' @ [0x2028]) = Some 30" "BigInt (str ''3 0'') = None"
  by (simp_all add: BigInt_def trimString_def isStrWhiteSpaceChar_def parseDigits_def digitValue_def
      str_def charCode_def)

lemma bigintToString_examples:
  "bigintToString 70 = str ''70''" "bigintToString 105 = str ''105''" "bigintToString 0 = str ''0''"
  "bigintToString 100 = str ''100''"
  by (simp_all add: bigintToString_def natToString.simps digitChar_def str_def)

text \<open>
  C1 (amended). The reserve operation, in one transaction: no record with the id gives null and
  changes nothing; a record that is not active gives null and changes nothing, also when its
  \<open>valid_until\<close> has passed (the status check comes first); an active record whose
  \<open>valid_until\<close> has passed is set to expired and the result is null; otherwise, when
  \<open>BigInt\<close> reads both amounts, an amount above the remaining gives null and changes nothing,
  and any other amount is subtracted, the status becomes exhausted exactly when the new
  remaining is zero, and the updated record is returned. An amount \<open>BigInt\<close> cannot read
  throws and changes nothing.
\<close>

theorem decrementRemainingAmount_spec:
  "(getMultiSettleSignatureById db i = None \<longrightarrow>
      decrementRemainingAmount now i a db = (Inr None, db))
   \<and> (\<forall>sg. getMultiSettleSignatureById db i = Some sg \<longrightarrow>
        (status sg \<noteq> Active \<longrightarrow> decrementRemainingAmount now i a db = (Inr None, db))
      \<and> (status sg = Active \<and> valid_until sg < now \<longrightarrow>
            decrementRemainingAmount now i a db =
              (Inr None,
               snd (update_signatures (\<lambda>r. sig_id r = i) (\<lambda>r. r\<lparr>status := Expired\<rparr>) db))
          \<and> getMultiSettleSignatureById (snd (decrementRemainingAmount now i a db)) i =
              Some (sg\<lparr>status := Expired\<rparr>))
      \<and> (status sg = Active \<and> \<not> valid_until sg < now \<longrightarrow>
            (BigInt (remaining_amount sg) = None \<or> BigInt a = None \<longrightarrow>
               decrementRemainingAmount now i a db = (Inl SyntaxError, db))
          \<and> (\<forall>r n. BigInt (remaining_amount sg) = Some r \<and> BigInt a = Some n \<longrightarrow>
               (n > r \<longrightarrow> decrementRemainingAmount now i a db = (Inr None, db))
             \<and> (n \<le> r \<longrightarrow>
                  decrementRemainingAmount now i a db =
                    (Inr (Some (sg\<lparr>remaining_amount := bigintToString (r - n),
                                   status := (if r - n = 0 then Exhausted else Active)\<rparr>)),
                     snd (update_signatures (\<lambda>x. sig_id x = i)
                            (\<lambda>x. x\<lparr>remaining_amount := bigintToString (r - n),
                                    status := (if r - n = 0 then Exhausted else status x)\<rparr>) db))
                \<and> getMultiSettleSignatureById (snd (decrementRemainingAmount now i a db)) i =
                    Some (sg\<lparr>remaining_amount := bigintToString (r - n),
                             status := (if r - n = 0 then Exhausted else Active)\<rparr>)
                \<and> BigInt (bigintToString (r - n)) = Some (r - n)))))"
proof (intro conjI allI impI; (elim conjE)?)
  fix sg
  assume g: "getMultiSettleSignatureById db i = Some sg" and "status sg = Active" "valid_until sg < now"
  then show "getMultiSettleSignatureById (snd (decrementRemainingAmount now i a db)) i =
              Some (sg\<lparr>status := Expired\<rparr>)"
    using getById_sig_id [OF g]
    by (simp add: decrement_expired getById_update_signatures)
next
  fix sg r n
  assume h: "getMultiSettleSignatureById db i = Some sg" "status sg = Active" "\<not> valid_until sg < now"
    "BigInt (remaining_amount sg) = Some r" "BigInt a = Some n" "n \<le> r"
  have fold: "reserved_row r n = (\<lambda>x. x\<lparr>remaining_amount := bigintToString (r - n),
                                    status := (if r - n = 0 then Exhausted else status x)\<rparr>)"
    by (simp add: reserved_row_def fun_eq_iff)
  show "decrementRemainingAmount now i a db =
         (Inr (Some (sg\<lparr>remaining_amount := bigintToString (r - n),
                        status := (if r - n = 0 then Exhausted else Active)\<rparr>)),
          snd (update_signatures (\<lambda>x. sig_id x = i)
                            (\<lambda>x. x\<lparr>remaining_amount := bigintToString (r - n),
                                    status := (if r - n = 0 then Exhausted else status x)\<rparr>) db))"
    using decrement_granted [OF h] h(2) by (simp add: fold)
  then show "getMultiSettleSignatureById (snd (decrementRemainingAmount now i a db)) i =
                    Some (sg\<lparr>remaining_amount := bigintToString (r - n),
                             status := (if r - n = 0 then Exhausted else Active)\<rparr>)"
    using h(1,2) getById_sig_id [OF h(1)] by (simp add: getById_update_signatures)
qed (simp_all add: decrement_missing decrement_inactive decrement_expired decrement_throws
       decrement_exceeds BigInt_bigintToString)

lemma example_lookup: "getMultiSettleSignatureById (example_db row) (sig_id row) = Some row"
  by (simp add: example_db_def getMultiSettleSignatureById_def)

theorem decrementRemainingAmount_spec_witness:
  "getMultiSettleSignatureById (example_db example_row) (str ''a1'') = Some example_row
   \<and> status example_row = Active \<and> \<not> valid_until example_row < 10
   \<and> BigInt (remaining_amount example_row) = Some 100 \<and> BigInt (str ''30'') = Some 30
   \<and> decrementRemainingAmount 10 (str ''a1'') (str ''30'') (example_db example_row) =
        (Inr (Some (example_row\<lparr>remaining_amount := str ''70''\<rparr>)),
         example_db (example_row\<lparr>remaining_amount := str ''70''\<rparr>))
   \<and> decrementRemainingAmount 2000 (str ''a1'') (str ''30'') (example_db example_row) =
        (Inr None, example_db (example_row\<lparr>status := Expired\<rparr>))
   \<and> BigInt (0x00A0 # str ''30'') = Some 30
   \<and> decrementRemainingAmount 10 (str ''a1'') (0x00A0 # str ''30'') (example_db example_row) =
        (Inr (Some (example_row\<lparr>remaining_amount := str ''70''\<rparr>)),
         example_db (example_row\<lparr>remaining_amount := str ''70''\<rparr>))"
proof -
  have g: "getMultiSettleSignatureById (example_db example_row) (str ''a1'') = Some example_row"
    using example_lookup [of example_row] by (simp add: example_row_def)
  have h: "status example_row = Active" "\<not> valid_until example_row < 10"
    "valid_until example_row < 2000"
    "BigInt (remaining_amount example_row) = Some 100" "BigInt (str ''30'') = Some 30"
    by (simp_all add: example_row_def BigInt_examples)
  note spec = decrementRemainingAmount_spec [of "example_db example_row" "str ''a1''" _ "str ''30''"]
  have "decrementRemainingAmount 10 (str ''a1'') (str ''30'') (example_db example_row) =
          (Inr (Some (example_row\<lparr>remaining_amount := bigintToString (100 - 30),
                                   status := (if (100::int) - 30 = 0 then Exhausted else Active)\<rparr>)),
           snd (update_signatures (\<lambda>x. sig_id x = str ''a1'')
                  (\<lambda>x. x\<lparr>remaining_amount := bigintToString (100 - 30),
                          status := (if (100::int) - 30 = 0 then Exhausted else status x)\<rparr>)
                  (example_db example_row)))"
    using spec [of 10] g h by force
  then have 1: "decrementRemainingAmount 10 (str ''a1'') (str ''30'') (example_db example_row) =
        (Inr (Some (example_row\<lparr>remaining_amount := str ''70''\<rparr>)),
         example_db (example_row\<lparr>remaining_amount := str ''70''\<rparr>))"
    by (simp add: bigintToString_examples update_signatures_def example_db_def example_row_def)
  have "decrementRemainingAmount 2000 (str ''a1'') (str ''30'') (example_db example_row) =
          (Inr None, snd (update_signatures (\<lambda>r. sig_id r = str ''a1'') (\<lambda>r. r\<lparr>status := Expired\<rparr>)
                            (example_db example_row)))"
    using spec [of 2000] g h by force
  then have 2: "decrementRemainingAmount 2000 (str ''a1'') (str ''30'') (example_db example_row) =
        (Inr None, example_db (example_row\<lparr>status := Expired\<rparr>))"
    by (simp add: update_signatures_def example_db_def example_row_def)
  have nb: "BigInt (0x00A0 # str ''30'') = Some 30"
    by (simp add: BigInt_examples)
  have "decrementRemainingAmount 10 (str ''a1'') (0x00A0 # str ''30'') (example_db example_row) =
          (Inr (Some (example_row\<lparr>remaining_amount := bigintToString (100 - 30),
                                   status := (if (100::int) - 30 = 0 then Exhausted else Active)\<rparr>)),
           snd (update_signatures (\<lambda>x. sig_id x = str ''a1'')
                  (\<lambda>x. x\<lparr>remaining_amount := bigintToString (100 - 30),
                          status := (if (100::int) - 30 = 0 then Exhausted else status x)\<rparr>)
                  (example_db example_row)))"
    using decrementRemainingAmount_spec
            [of "example_db example_row" "str ''a1''" 10 "0x00A0 # str ''30''"] g h nb
    by force
  then have 3: "decrementRemainingAmount 10 (str ''a1'') (0x00A0 # str ''30'') (example_db example_row) =
        (Inr (Some (example_row\<lparr>remaining_amount := str ''70''\<rparr>)),
         example_db (example_row\<lparr>remaining_amount := str ''70''\<rparr>))"
    by (simp add: bigintToString_examples update_signatures_def example_db_def example_row_def)
  show ?thesis using g h 1 2 nb 3 by simp
qed

text \<open>
  C1 as stated fails on a revoked record whose \<open>valid_until\<close> has passed: the result is null
  but the status stays revoked.
\<close>

theorem decrement_expiry_of_revoked_counterexample:
  "valid_until (example_row\<lparr>status := Revoked\<rparr>) < 2000
   \<and> decrementRemainingAmount 2000 (str ''a1'') (str ''30'') (example_db (example_row\<lparr>status := Revoked\<rparr>)) =
        (Inr None, example_db (example_row\<lparr>status := Revoked\<rparr>))
   \<and> map_option status
         (getMultiSettleSignatureById
            (snd (decrementRemainingAmount 2000 (str ''a1'') (str ''30'')
                    (example_db (example_row\<lparr>status := Revoked\<rparr>)))) (str ''a1'')) = Some Revoked"
  by (simp add: decrementRemainingAmount_def getMultiSettleSignatureById_def example_db_def
        example_row_def)

section \<open>The invariant of the signatures table\<close>

lemma db_ok_empty: "db_ok empty_database"
  by (simp add: db_ok_def empty_database_def)

lemma getById_None_iff:
  "getMultiSettleSignatureById db i = None \<longleftrightarrow> i \<notin> sig_id ` set (multisettle_signatures db)"
  by (auto simp: getMultiSettleSignatureById_def find_None_iff)

lemma getById_mem:
  "getMultiSettleSignatureById db i = Some sg \<Longrightarrow> sg \<in> set (multisettle_signatures db)"
  by (auto simp: getMultiSettleSignatureById_def find_Some_iff)

lemma find_distinct:
  "distinct (map sig_id rows) \<Longrightarrow> r \<in> set rows \<Longrightarrow> find (\<lambda>x. sig_id x = sig_id r) rows = Some r"
  by (induction rows) (auto simp: image_iff)

lemma getById_distinct:
  "db_ok db \<Longrightarrow> r \<in> set (multisettle_signatures db) \<Longrightarrow>
   getMultiSettleSignatureById db (sig_id r) = Some r"
  by (simp add: db_ok_def getMultiSettleSignatureById_def find_distinct)

lemma row_ok_getById:
  "db_ok db \<Longrightarrow> getMultiSettleSignatureById db i = Some sg \<Longrightarrow> row_ok sg"
  by (auto simp: db_ok_def list_all_iff dest: getById_mem)

lemma db_ok_update:
  assumes "db_ok db" "\<And>r. sig_id (f r) = sig_id r"
    "\<And>r. r \<in> set (multisettle_signatures db) \<Longrightarrow> wh r \<Longrightarrow> row_ok (f r)"
  shows "db_ok (snd (update_signatures wh f db))"
proof -
  let ?g = "\<lambda>r. if wh r then f r else r"
  have ids: "map sig_id (map ?g rows) = map sig_id rows" for rows
    by (auto simp: assms(2))
  have "list_all row_ok (map ?g (multisettle_signatures db))"
    using assms(1,3) by (auto simp: db_ok_def list_all_iff)
  moreover have "distinct (map sig_id (map ?g (multisettle_signatures db)))"
    using assms(1) by (simp only: ids db_ok_def)
  ultimately show ?thesis
    by (simp add: db_ok_def update_signatures_def del: map_map)
qed

lemma row_ok_status: "row_ok (r\<lparr>status := s\<rparr>) = row_ok r"
  by (simp add: row_ok_def split: option.splits)

lemma row_ok_deposited: "row_ok (r\<lparr>deposited := d\<rparr>) = row_ok r"
  by (simp add: row_ok_def split: option.splits)

lemma db_ok_status_update:
  "db_ok db \<Longrightarrow> db_ok (snd (update_signatures wh (\<lambda>r. r\<lparr>status := s\<rparr>) db))"
  by (rule db_ok_update) (auto simp: row_ok_status db_ok_def list_all_iff)

lemma db_ok_create:
  assumes "db_ok db" "BigInt (d_cap_amount data) = Some c" "0 \<le> c"
  shows "db_ok (snd (createMultiSettleSignature toLowerCase new_id data db))"
proof (cases "getMultiSettleSignatureById db new_id = None")
  case True
  then have "new_id \<notin> sig_id ` set (multisettle_signatures db)" by (simp add: getById_None_iff)
  then show ?thesis using assms
    by (auto simp: createMultiSettleSignature_def Let_def db_ok_def row_ok_def
        signature_insert_conflict_def)
next
  case False
  then show ?thesis using assms(1)
    by (simp add: createMultiSettleSignature_def Let_def signature_insert_conflict_def)
qed

lemma db_ok_decrement:
  assumes "db_ok db" "case BigInt a of Some n \<Rightarrow> 0 \<le> n | None \<Rightarrow> True"
  shows "db_ok (snd (decrementRemainingAmount now i a db))"
proof (cases "getMultiSettleSignatureById db i")
  case None
  then show ?thesis using assms(1) by (simp add: decrement_missing)
next
  case (Some sg)
  have ok: "row_ok sg" using assms(1) Some by (rule row_ok_getById)
  then obtain m c where mc: "BigInt (remaining_amount sg) = Some m" "BigInt (cap_amount sg) = Some c"
    "0 \<le> m" "m \<le> c"
    by (auto simp: row_ok_def split: option.splits)
  show ?thesis
  proof (cases "status sg = Active")
    case False
    then show ?thesis using assms(1) Some by (simp add: decrement_inactive)
  next
    case act: True
    show ?thesis
    proof (cases "valid_until sg < now")
      case True
      then show ?thesis using assms(1) Some act
        by (simp add: decrement_expired db_ok_status_update)
    next
      case notexp: False
      show ?thesis
      proof (cases "BigInt a")
        case None
        then show ?thesis using assms(1) Some act notexp by (simp add: decrement_throws)
      next
        case (Some n)
        note n = this
        show ?thesis
        proof (cases "n \<le> m")
          case False
          then show ?thesis using assms(1) \<open>getMultiSettleSignatureById db i = Some sg\<close> act notexp mc n
            by (simp add: decrement_exceeds)
        next
          case True
          have nn: "0 \<le> n" using assms(2) n by simp
          have "db_ok (snd (update_signatures (\<lambda>r. sig_id r = i) (reserved_row m n) db))"
          proof (rule db_ok_update [OF assms(1)])
            fix r show "sig_id (reserved_row m n r) = sig_id r" by (simp add: reserved_row_def)
          next
            fix r assume r: "r \<in> set (multisettle_signatures db)" "sig_id r = i"
            from getById_distinct [OF assms(1) r(1)] r(2) \<open>getMultiSettleSignatureById db i = Some sg\<close>
            have "r = sg" by simp
            then show "row_ok (reserved_row m n r)"
              using mc nn True by (simp add: row_ok_def reserved_row_def BigInt_bigintToString)
          qed
          then show ?thesis
            using decrement_db [OF \<open>getMultiSettleSignatureById db i = Some sg\<close> act notexp mc(1) n True]
            by simp
        qed
      qed
    qed
  qed
qed

lemma db_ok_apply_op: "db_ok db \<Longrightarrow> op_ok op \<Longrightarrow> db_ok (apply_op toLowerCase op db)"
proof (cases op)
  case (OpCreate new_id data)
  assume "db_ok db" "op_ok op"
  then show ?thesis using OpCreate
    by (auto split: option.splits intro: db_ok_create)
next
  case (OpReserve now i a)
  assume "db_ok db" "op_ok op"
  then show ?thesis using OpReserve by (simp add: db_ok_decrement)
next
  case (OpRevoke i)
  assume "db_ok db" "op_ok op"
  then show ?thesis using OpRevoke db_ok_status_update [of db "\<lambda>r. sig_id r = i \<and> status r = Active" Revoked]
    by (simp add: revokeMultiSettleSignature_def split_beta)
next
  case (OpRevokeByNonce f n)
  assume "db_ok db" "op_ok op"
  then show ?thesis using OpRevokeByNonce
      db_ok_status_update [of db "\<lambda>r. facilitator_id r = f \<and> nonce r = n \<and> status r = Active" Revoked]
    by (simp add: revokeMultiSettleSignatureByNonce_def split_beta)
next
  case (OpMarkDeposited i)
  assume "db_ok db" "op_ok op"
  then have "db_ok (snd (update_signatures (\<lambda>r. sig_id r = i) (\<lambda>r. r\<lparr>deposited := 1\<rparr>) db))"
    by (intro db_ok_update) (auto simp: row_ok_deposited db_ok_def list_all_iff)
  then show ?thesis using OpMarkDeposited by (simp add: markSignatureDeposited_def split_beta)
next
  case (OpCleanupExpired now)
  assume "db_ok db" "op_ok op"
  then show ?thesis using OpCleanupExpired by (simp add: cleanupExpiredSignatures_def db_ok_status_update)
qed

lemma db_ok_run: "db_ok db \<Longrightarrow> list_all op_ok ops \<Longrightarrow> db_ok (run toLowerCase ops db)"
  by (induction ops arbitrary: db) (auto intro: db_ok_apply_op)


section \<open>One authorization along a sequence of operations\<close>

lemma follows_refl: "BigInt (remaining_amount sg) = Some m \<Longrightarrow> follows 0 sg sg"
  by (simp add: follows_def)

lemma follows_trans: "follows g1 a b \<Longrightarrow> follows g2 b c \<Longrightarrow> follows (g1 + g2) a c"
  by (auto simp: follows_def algebra_simps split: option.splits)

lemma row_ok_remaining: "row_ok sg \<Longrightarrow> \<exists>m. BigInt (remaining_amount sg) = Some m"
  by (auto simp: row_ok_def split: option.splits)

lemma follows_update:
  assumes "getMultiSettleSignatureById db i = Some sg" "row_ok sg"
    "\<And>r. sig_id (f r) = sig_id r" "\<And>r. cap_amount (f r) = cap_amount r"
    "\<And>r. remaining_amount (f r) = remaining_amount r"
    "\<And>r. status r \<noteq> Active \<Longrightarrow> status (f r) \<noteq> Active"
  shows "\<exists>sg'. getMultiSettleSignatureById (snd (update_signatures wh f db)) i = Some sg'
               \<and> follows 0 sg sg'"
proof -
  obtain m where "BigInt (remaining_amount sg) = Some m"
    using row_ok_remaining [OF assms(2)] by blast
  then have "follows 0 sg (if wh sg then f sg else sg)"
    using assms(4,5,6) by (auto simp: follows_def)
  then show ?thesis
    using assms(1,3) by (simp add: getById_update_signatures)
qed

lemma find_append_first: "find P xs = Some x \<Longrightarrow> find P (xs @ ys) = Some x"
  by (induction xs) (auto split: if_splits)

lemma find_append_none: "find P xs = None \<Longrightarrow> find P (xs @ ys) = find P ys"
  by (induction xs) (auto split: if_splits)

lemma getById_append:
  "getMultiSettleSignatureById db i = Some sg \<Longrightarrow>
   getMultiSettleSignatureById (db\<lparr>multisettle_signatures := multisettle_signatures db @ rows\<rparr>) i = Some sg"
  by (simp add: getMultiSettleSignatureById_def find_append_first)

lemma getById_create_other:
  "getMultiSettleSignatureById db i = Some sg \<Longrightarrow>
   getMultiSettleSignatureById (snd (createMultiSettleSignature toLowerCase new_id data db)) i = Some sg"
  by (simp add: createMultiSettleSignature_def Let_def getById_append)

lemma getById_decrement_other:
  "i \<noteq> j \<Longrightarrow> getMultiSettleSignatureById (snd (decrementRemainingAmount now j a db)) i =
     getMultiSettleSignatureById db i"
proof (cases "getMultiSettleSignatureById db i")
  case None
  assume "i \<noteq> j"
  show ?thesis using None
    by (auto simp: decrementRemainingAmount_def Let_def getById_update_signatures
        split: option.splits)
next
  case (Some sg)
  assume "i \<noteq> j"
  then have "sig_id sg \<noteq> j" using getById_sig_id [OF Some] by simp
  then show ?thesis using Some
    by (auto simp: decrementRemainingAmount_def Let_def getById_update_signatures
        split: option.splits)
qed

lemma granted_reserve:
  "granted i (OpReserve now i a) db =
     (case fst (decrementRemainingAmount now i a db) of
        Inr (Some updated) \<Rightarrow> (case BigInt a of Some n \<Rightarrow> n | None \<Rightarrow> 0)
      | _ \<Rightarrow> 0)"
  by simp

lemma follows_decrement:
  assumes "db_ok db" "case BigInt a of Some n \<Rightarrow> 0 \<le> n | None \<Rightarrow> True"
    "getMultiSettleSignatureById db i = Some sg"
  shows "\<exists>sg'. getMultiSettleSignatureById (snd (decrementRemainingAmount now i a db)) i = Some sg'
               \<and> follows (granted i (OpReserve now i a) db) sg sg'"
proof -
  have ok: "row_ok sg" using assms(1,3) by (rule row_ok_getById)
  then obtain m where m: "BigInt (remaining_amount sg) = Some m"
    using row_ok_remaining by blast
  show ?thesis
  proof (cases "status sg = Active")
    case False
    then have "decrementRemainingAmount now i a db = (Inr None, db)"
      using assms(3) by (simp add: decrement_inactive)
    then show ?thesis using assms(3) m False by (simp add: follows_def)
  next
    case act: True
    show ?thesis
    proof (cases "valid_until sg < now")
      case True
      then have d: "decrementRemainingAmount now i a db =
          (Inr None, snd (update_signatures (\<lambda>r. sig_id r = i) (\<lambda>r. r\<lparr>status := Expired\<rparr>) db))"
        using assms(3) act by (simp add: decrement_expired)
      have "\<exists>sg'. getMultiSettleSignatureById
               (snd (update_signatures (\<lambda>r. sig_id r = i) (\<lambda>r. r\<lparr>status := Expired\<rparr>) db)) i = Some sg'
               \<and> follows 0 sg sg'"
        by (rule follows_update [OF assms(3) ok]) simp_all
      then show ?thesis using d by simp
    next
      case notexp: False
      show ?thesis
      proof (cases "BigInt a")
        case None
        then have "decrementRemainingAmount now i a db = (Inl SyntaxError, db)"
          using assms(3) act notexp by (simp add: decrement_throws)
        then show ?thesis using assms(3) m by (simp add: follows_def)
      next
        case (Some n)
        show ?thesis
        proof (cases "n \<le> m")
          case False
          then have "decrementRemainingAmount now i a db = (Inr None, db)"
            using assms(3) act notexp m Some by (simp add: decrement_exceeds)
          then show ?thesis using assms(3) m by (simp add: follows_def)
        next
          case True
          have nn: "0 \<le> n" using assms(2) Some by simp
          have d: "decrementRemainingAmount now i a db =
              (Inr (Some (reserved_row m n sg)),
               snd (update_signatures (\<lambda>r. sig_id r = i) (reserved_row m n) db))"
            using decrement_granted [OF assms(3) act notexp m Some True] .
          have g: "getMultiSettleSignatureById
                 (snd (update_signatures (\<lambda>r. sig_id r = i) (reserved_row m n) db)) i
                = Some (reserved_row m n sg)"
            using assms(3) getById_sig_id [OF assms(3)]
            by (subst getById_update_signatures) (simp_all add: reserved_row_def)
          have "follows n sg (reserved_row m n sg)"
            using m nn act by (simp add: follows_def reserved_row_def BigInt_bigintToString)
          then show ?thesis using d g Some by simp
        qed
      qed
    qed
  qed
qed

lemma follows_apply_op:
  assumes "db_ok db" "op_ok op" "getMultiSettleSignatureById db i = Some sg"
  shows "\<exists>sg'. getMultiSettleSignatureById (apply_op toLowerCase op db) i = Some sg'
               \<and> follows (granted i op db) sg sg'"
proof -
  have ok: "row_ok sg" using assms(1,3) by (rule row_ok_getById)
  then obtain m where m: "BigInt (remaining_amount sg) = Some m"
    using row_ok_remaining by blast
  note upd = follows_update [OF assms(3) ok]
  show ?thesis
  proof (cases op)
    case (OpCreate new_id data)
    then show ?thesis
      using getById_create_other [OF assms(3)] follows_refl [OF m] by simp
  next
    case (OpReserve now j a)
    show ?thesis
    proof (cases "j = i")
      case True
      then show ?thesis using OpReserve follows_decrement [OF assms(1) _ assms(3), of a now] assms(2)
        by simp
    next
      case False
      then show ?thesis using OpReserve assms(3) follows_refl [OF m]
        by (simp add: getById_decrement_other)
    qed
  next
    case (OpRevoke j)
    then show ?thesis
      using upd [of "\<lambda>r. r\<lparr>status := Revoked\<rparr>" "\<lambda>r. sig_id r = j \<and> status r = Active"]
      by (simp add: revokeMultiSettleSignature_def split_beta)
  next
    case (OpRevokeByNonce f n)
    then show ?thesis
      using upd [of "\<lambda>r. r\<lparr>status := Revoked\<rparr>"
          "\<lambda>r. facilitator_id r = f \<and> nonce r = n \<and> status r = Active"]
      by (simp add: revokeMultiSettleSignatureByNonce_def split_beta)
  next
    case (OpMarkDeposited j)
    then show ?thesis
      using upd [of "\<lambda>r. r\<lparr>deposited := 1\<rparr>" "\<lambda>r. sig_id r = j"]
      by (simp add: markSignatureDeposited_def split_beta)
  next
    case (OpCleanupExpired now)
    then show ?thesis
      using upd [of "\<lambda>r. r\<lparr>status := Expired\<rparr>" "\<lambda>r. status r = Active \<and> valid_until r < now"]
      by (simp add: cleanupExpiredSignatures_def)
  qed
qed

lemma follows_run:
  "db_ok db \<Longrightarrow> list_all op_ok ops \<Longrightarrow> getMultiSettleSignatureById db i = Some sg \<Longrightarrow>
   \<exists>sg'. getMultiSettleSignatureById (run toLowerCase ops db) i = Some sg'
         \<and> follows (reserved_total toLowerCase i ops db) sg sg'"
proof (induction ops arbitrary: db sg)
  case Nil
  then obtain m where "BigInt (remaining_amount sg) = Some m"
    using row_ok_remaining [OF row_ok_getById] by blast
  then show ?case using Nil by (simp add: follows_refl)
next
  case (Cons op ops)
  then have ok: "op_ok op" "list_all op_ok ops" by simp_all
  obtain sg1 where sg1: "getMultiSettleSignatureById (apply_op toLowerCase op db) i = Some sg1"
    "follows (granted i op db) sg sg1"
    using follows_apply_op [OF Cons.prems(1) ok(1) Cons.prems(3)] by blast
  obtain sg2 where sg2: "getMultiSettleSignatureById (run toLowerCase ops (apply_op toLowerCase op db)) i = Some sg2"
    "follows (reserved_total toLowerCase i ops (apply_op toLowerCase op db)) sg1 sg2"
    using Cons.IH [OF db_ok_apply_op [OF Cons.prems(1) ok(1)] ok(2) sg1(1)] by blast
  show ?case using sg2(1) follows_trans [OF sg1(2) sg2(2)] by simp
qed


lemma missing_apply_op:
  assumes "getMultiSettleSignatureById db i = None"
  shows "granted i op db = 0"
    and "getMultiSettleSignatureById (apply_op toLowerCase op db) i = Some sg1 \<Longrightarrow>
         remaining_amount sg1 = cap_amount sg1"
proof -
  show "granted i op db = 0"
    using assms by (cases op) (simp_all add: decrement_missing)
  assume sg1: "getMultiSettleSignatureById (apply_op toLowerCase op db) i = Some sg1"
  show "remaining_amount sg1 = cap_amount sg1"
  proof (cases op)
    case (OpCreate new_id data)
    with sg1 assms show ?thesis
      by (auto simp: createMultiSettleSignature_def Let_def getMultiSettleSignatureById_def
          find_append_none split: if_splits)
  next
    case (OpReserve now j a)
    with sg1 assms show ?thesis
      by (cases "i = j") (simp_all add: getById_decrement_other decrement_missing)
  next
    case (OpRevoke j)
    with sg1 assms show ?thesis
      by (simp add: revokeMultiSettleSignature_def split_beta getById_update_signatures)
  next
    case (OpRevokeByNonce f n)
    with sg1 assms show ?thesis
      by (simp add: revokeMultiSettleSignatureByNonce_def split_beta getById_update_signatures)
  next
    case (OpMarkDeposited j)
    with sg1 assms show ?thesis
      by (simp add: markSignatureDeposited_def split_beta getById_update_signatures)
  next
    case (OpCleanupExpired now)
    with sg1 assms show ?thesis
      by (simp add: cleanupExpiredSignatures_def getById_update_signatures)
  qed
qed

lemma total_from_missing:
  "db_ok db \<Longrightarrow> list_all op_ok ops \<Longrightarrow> getMultiSettleSignatureById db i = None \<Longrightarrow>
   getMultiSettleSignatureById (run toLowerCase ops db) i = Some sg \<Longrightarrow>
   \<exists>c m. BigInt (cap_amount sg) = Some c \<and> BigInt (remaining_amount sg) = Some m
         \<and> reserved_total toLowerCase i ops db = c - m"
proof (induction ops arbitrary: db)
  case Nil
  then show ?case by simp
next
  case (Cons op ops)
  then have ok: "op_ok op" "list_all op_ok ops" by simp_all
  have ok1: "db_ok (apply_op toLowerCase op db)" using Cons.prems(1) ok(1) by (rule db_ok_apply_op)
  have g0: "granted i op db = 0" using Cons.prems(3) by (rule missing_apply_op)
  show ?case
  proof (cases "getMultiSettleSignatureById (apply_op toLowerCase op db) i")
    case None
    then show ?thesis using Cons.IH [OF ok1 ok(2) None] Cons.prems(4) g0 by simp
  next
    case (Some sg1)
    have eq: "remaining_amount sg1 = cap_amount sg1"
      using Cons.prems(3) Some by (rule missing_apply_op)
    obtain sg2 where sg2: "getMultiSettleSignatureById (run toLowerCase ops (apply_op toLowerCase op db)) i = Some sg2"
      "follows (reserved_total toLowerCase i ops (apply_op toLowerCase op db)) sg1 sg2"
      using follows_run [OF ok1 ok(2) Some] by blast
    then have "sg2 = sg" using Cons.prems(4) by simp
    then show ?thesis using sg2(2) eq g0
      by (auto simp: follows_def split: option.splits)
  qed
qed

lemma run_append: "run toLowerCase (xs @ ys) db = run toLowerCase ys (run toLowerCase xs db)"
  by (induction xs arbitrary: db) simp_all

lemma reserved_total_append:
  "reserved_total toLowerCase i (xs @ ys) db = reserved_total toLowerCase i xs db + reserved_total toLowerCase i ys (run toLowerCase xs db)"
  by (induction xs arbitrary: db) simp_all

lemma getById_empty: "getMultiSettleSignatureById empty_database i = None"
  by (simp add: getMultiSettleSignatureById_def empty_database_def)

lemma op_ok_examples:
  "op_ok (OpReserve 10 (str ''a1'') (str ''30''))"
  "\<not> op_ok (OpReserve 10 (str ''a1'') (str ''-5''))"
  "\<not> op_ok (OpReserve 10 (str ''a1'') (0x00A0 # str ''-5''))"
  "op_ok (OpReserve 10 (str ''a1'') (str ''3 0''))"
  by (simp_all add: BigInt_examples)

text \<open>
  C2 (amended). Start from the empty database and run store operations (create, reserve, revoke,
  revoke by nonce, mark deposited, the expiry sweep) in which every cap is a numeral that is
  not negative and no reserve call asks for a negative amount. Then every authorization has
  \<open>0 \<le> remaining \<le> cap\<close>; the amounts of the reserve calls that returned a record add up to
  \<open>cap - remaining\<close>, so never to more than the cap; after any further such operations the cap
  is the same and the remaining is not larger; and once the status is not active the remaining
  amount no longer changes.
\<close>

theorem remaining_invariant:
  assumes "list_all op_ok ops" and "list_all op_ok later"
    and "getMultiSettleSignatureById (run toLowerCase ops empty_database) i = Some sg"
  shows "\<exists>c m sg' m'.
           BigInt (cap_amount sg) = Some c \<and> BigInt (remaining_amount sg) = Some m
           \<and> 0 \<le> m \<and> m \<le> c
           \<and> reserved_total toLowerCase i ops empty_database = c - m
           \<and> reserved_total toLowerCase i ops empty_database \<le> c
           \<and> getMultiSettleSignatureById (run toLowerCase (ops @ later) empty_database) i = Some sg'
           \<and> cap_amount sg' = cap_amount sg
           \<and> BigInt (remaining_amount sg') = Some m' \<and> 0 \<le> m' \<and> m' \<le> m
           \<and> reserved_total toLowerCase i (ops @ later) empty_database = c - m'
           \<and> (status sg \<noteq> Active \<longrightarrow> remaining_amount sg' = remaining_amount sg)"
proof -
  let ?db = "run toLowerCase ops empty_database"
  have ok: "db_ok ?db" using db_ok_empty assms(1) by (rule db_ok_run)
  obtain c m where cm: "BigInt (cap_amount sg) = Some c" "BigInt (remaining_amount sg) = Some m"
    "reserved_total toLowerCase i ops empty_database = c - m"
    using total_from_missing [OF db_ok_empty assms(1) getById_empty assms(3)] by blast
  have "row_ok sg" using ok assms(3) by (rule row_ok_getById)
  then have range: "0 \<le> m" "m \<le> c" using cm by (simp_all add: row_ok_def)
  obtain sg' where sg': "getMultiSettleSignatureById (run toLowerCase later ?db) i = Some sg'"
    "follows (reserved_total toLowerCase i later ?db) sg sg'"
    using follows_run [OF ok assms(2,3)] by blast
  have "db_ok (run toLowerCase later ?db)" using ok assms(2) by (rule db_ok_run)
  then have "row_ok sg'" using sg'(1) by (rule row_ok_getById)
  then obtain m' where m': "BigInt (remaining_amount sg') = Some m'" "0 \<le> m'"
    by (auto simp: row_ok_def split: option.splits)
  have f: "cap_amount sg' = cap_amount sg" "m' = m - reserved_total toLowerCase i later ?db"
    "0 \<le> reserved_total toLowerCase i later ?db"
    "status sg \<noteq> Active \<longrightarrow> remaining_amount sg' = remaining_amount sg"
    using sg'(2) cm(2) m'(1) by (auto simp: follows_def)
  show ?thesis
    using cm range sg'(1) m' f by (simp add: run_append reserved_total_append)
qed


lemma example_create:
  "createMultiSettleSignature toLowerCaseASCII (str ''a1'') example_data empty_database =
     (Some example_row, example_db example_row)"
  by (simp add: createMultiSettleSignature_def example_data_def empty_database_def Let_def
      signature_insert_conflict_def getMultiSettleSignatureById_def
      getMultiSettleSignatureByNonce_def example_row_def example_db_def lower_examples)

lemma example_reserve_30:
  "decrementRemainingAmount 10 (str ''a1'') (str ''30'') (example_db example_row) =
     (Inr (Some (example_row\<lparr>remaining_amount := str ''70''\<rparr>)),
      example_db (example_row\<lparr>remaining_amount := str ''70''\<rparr>))"
  by (simp add: decrementRemainingAmount_def getMultiSettleSignatureById_def example_db_def
      example_row_def BigInt_examples bigintToString_examples update_signatures_def Let_def)

lemma example_ops_run:
  "run toLowerCaseASCII example_ops empty_database = example_db (example_row\<lparr>remaining_amount := str ''70''\<rparr>)"
  by (simp add: example_ops_def example_create example_reserve_30)

lemma example_later_run:
  "run toLowerCaseASCII (example_ops @ example_later) empty_database =
     example_db (example_row\<lparr>remaining_amount := str ''70'', status := Revoked\<rparr>)"
  by (simp add: run_append example_ops_run)
     (simp add: example_later_def revokeMultiSettleSignature_def update_signatures_def
       decrementRemainingAmount_def getMultiSettleSignatureById_def example_db_def example_row_def)

theorem remaining_invariant_witness:
  "list_all op_ok example_ops \<and> list_all op_ok example_later
   \<and> getMultiSettleSignatureById (run toLowerCaseASCII example_ops empty_database) (str ''a1'') =
       Some (example_row\<lparr>remaining_amount := str ''70''\<rparr>)
   \<and> BigInt (str ''100'') = Some 100 \<and> BigInt (str ''70'') = Some 70
   \<and> reserved_total toLowerCaseASCII (str ''a1'') example_ops empty_database = 100 - 70
   \<and> getMultiSettleSignatureById (run toLowerCaseASCII (example_ops @ example_later) empty_database) (str ''a1'') =
       Some (example_row\<lparr>remaining_amount := str ''70'', status := Revoked\<rparr>)
   \<and> reserved_total toLowerCaseASCII (str ''a1'') (example_ops @ example_later) empty_database = 100 - 70"
proof -
  have h1: "list_all op_ok example_ops"
    by (simp add: example_ops_def example_data_def BigInt_examples)
  have h2: "list_all op_ok example_later"
    by (simp add: example_later_def BigInt_examples)
  have h3: "getMultiSettleSignatureById (run toLowerCaseASCII example_ops empty_database) (str ''a1'') =
       Some (example_row\<lparr>remaining_amount := str ''70''\<rparr>)"
    by (simp add: example_ops_run) (simp add: getMultiSettleSignatureById_def example_db_def example_row_def)
  have h4: "getMultiSettleSignatureById (run toLowerCaseASCII (example_ops @ example_later) empty_database) (str ''a1'') =
       Some (example_row\<lparr>remaining_amount := str ''70'', status := Revoked\<rparr>)"
    by (simp add: example_later_run) (simp add: getMultiSettleSignatureById_def example_db_def example_row_def)
  have n: "BigInt (str ''100'') = Some 100" "BigInt (str ''70'') = Some 70"
    by (simp_all add: BigInt_examples)
  from remaining_invariant [OF h1 h2 h3]
  have "reserved_total toLowerCaseASCII (str ''a1'') example_ops empty_database = 100 - 70
      \<and> reserved_total toLowerCaseASCII (str ''a1'') (example_ops @ example_later) empty_database = 100 - 70"
    using n by (auto simp: h4 example_row_def)
  then show ?thesis using h1 h2 h3 h4 n by simp
qed

text \<open>
  C2 as stated fails when a reserve call asks for a negative amount: after creating a cap of
  100 and reserving \<open>-5\<close> the remaining amount is 105, above the cap and above what it was.
\<close>

theorem negative_reserve_counterexample:
  "map_option remaining_amount (getMultiSettleSignatureById (run toLowerCaseASCII negative_ops empty_database) (str ''a1''))
     = Some (str ''105'')
   \<and> map_option cap_amount (getMultiSettleSignatureById (run toLowerCaseASCII negative_ops empty_database) (str ''a1''))
     = Some (str ''100'')
   \<and> BigInt (str ''105'') = Some 105 \<and> BigInt (str ''100'') = Some 100 \<and> \<not> (105 \<le> (100::int))"
  by (simp add: negative_ops_def example_create)
     (simp add: decrementRemainingAmount_def getMultiSettleSignatureById_def example_db_def
       example_row_def BigInt_examples bigintToString_examples update_signatures_def Let_def)

section \<open>The checks of the settle route\<close>

lemma settle_error_failure [simp]: "\<not> res_success (settle_error code msg remaining net)"
  by (simp add: settle_error_def)

lemma settle_checks_Inr:
  assumes "settle_checks env fac i a db = Inr (sg, chainId, privateKey, address)"
  shows "getMultiSettleSignatureById db i = Some sg"
    and "facilitator_id sg = fac_id fac"
    and "status sg = Active"
    and "\<not> valid_until sg < now_route env"
    and "\<exists>r n. BigInt (remaining_amount sg) = Some r \<and> BigInt a = Some n \<and> 0 < n \<and> n \<le> r"
    and "networkToChainId (network sg) = Some chainId"
  using assms
  by (auto simp: settle_checks_def split: option.splits if_splits)

lemma settle_checks_Inl:
  "settle_checks env fac i a db = Inl res \<Longrightarrow> \<not> res_success res"
  by (auto simp: settle_checks_def split: option.splits if_splits)

lemma settle_checks_nonpositive:
  assumes "BigInt a = Some n" "n \<le> 0"
  shows "\<exists>res. settle_checks env fac i a db = Inl res"
proof (cases "settle_checks env fac i a db")
  case (Inl res)
  then show ?thesis by simp
next
  case (Inr t)
  obtain sg chainId privateKey address where "t = (sg, chainId, privateKey, address)"
    by (cases t) auto
  with Inr settle_checks_Inr(5) [of env fac i a db sg chainId privateKey address] assms
  show ?thesis by auto
qed

lemma settle_rejected:
  "settle_checks env fac i a db = Inl res \<Longrightarrow> settle env fac i payTo a db = (res, db, [])"
  by (simp add: settle_def)


section \<open>C10: amounts that are not positive\<close>

text \<open>
  C10 (amended). \<open>decrementRemainingAmount\<close> does not itself ask for a positive amount. On an
  active, unexpired authorization whose remaining amount is positive, a reserve of \<open>0\<close>
  returns the record with the same remaining amount, still active (the jsstring is rewritten
  as the canonical numeral). When the remaining amount is not negative, a reserve of a negative
  amount returns the record with a larger remaining amount, still active. The settle route
  refuses an amount that is not positive before the reserve call: it answers with a failure,
  writes nothing and does not call reserve.
\<close>

theorem reserve_without_positive_check:
  "(getMultiSettleSignatureById db i = Some sg \<and> status sg = Active \<and> \<not> valid_until sg < now
      \<and> BigInt (remaining_amount sg) = Some r \<and> 0 < r \<longrightarrow>
      fst (decrementRemainingAmount now i (str ''0'') db) =
        Inr (Some (sg\<lparr>remaining_amount := bigintToString r\<rparr>))
      \<and> getMultiSettleSignatureById (snd (decrementRemainingAmount now i (str ''0'') db)) i =
        Some (sg\<lparr>remaining_amount := bigintToString r\<rparr>)
      \<and> BigInt (bigintToString r) = Some r
      \<and> status (sg\<lparr>remaining_amount := bigintToString r\<rparr>) = Active)
   \<and> (getMultiSettleSignatureById db i = Some sg \<and> status sg = Active \<and> \<not> valid_until sg < now
      \<and> BigInt (remaining_amount sg) = Some r \<and> 0 \<le> r \<and> BigInt a = Some n \<and> n < 0 \<longrightarrow>
      fst (decrementRemainingAmount now i a db) =
        Inr (Some (sg\<lparr>remaining_amount := bigintToString (r - n)\<rparr>))
      \<and> getMultiSettleSignatureById (snd (decrementRemainingAmount now i a db)) i =
        Some (sg\<lparr>remaining_amount := bigintToString (r - n)\<rparr>)
      \<and> BigInt (bigintToString (r - n)) = Some (r - n) \<and> r < r - n)
   \<and> (BigInt a = Some n \<and> n \<le> 0 \<longrightarrow>
      snd (settle env fac i payTo a db) = (db, [])
      \<and> \<not> res_success (fst (settle env fac i payTo a db)))
   \<and> (getMultiSettleSignatureById db i = Some sg \<and> facilitator_id sg = fac_id fac
      \<and> status sg = Active \<and> \<not> valid_until sg < now_route env
      \<and> BigInt (remaining_amount sg) = Some r \<and> BigInt a = Some n \<and> n \<le> 0 \<and> n \<le> r \<longrightarrow>
      settle env fac i payTo a db =
        (settle_error 400 (Some (str ''Amount must be greater than 0'')) (Some (remaining_amount sg)) None,
         db, []))"
proof (intro conjI impI; (elim conjE)?)
  assume h: "getMultiSettleSignatureById db i = Some sg" "status sg = Active" "\<not> valid_until sg < now"
    "BigInt (remaining_amount sg) = Some r" "0 < r"
  have z: "BigInt (str ''0'') = Some 0" by (rule BigInt_literal_0)
  have le: "(0::int) \<le> r" using h(5) by simp
  have row: "reserved_row r 0 sg = sg\<lparr>remaining_amount := bigintToString r\<rparr>"
    using h(5) by (simp add: reserved_row_def)
  note d = decrement_granted [OF h(1,2,3,4) z le]
  show "fst (decrementRemainingAmount now i (str ''0'') db) =
        Inr (Some (sg\<lparr>remaining_amount := bigintToString r\<rparr>))"
    using d row by simp
  show "getMultiSettleSignatureById (snd (decrementRemainingAmount now i (str ''0'') db)) i =
        Some (sg\<lparr>remaining_amount := bigintToString r\<rparr>)"
    using decrement_result [OF h(1,2,3,4) z le] d row by simp
  show "status (sg\<lparr>remaining_amount := bigintToString r\<rparr>) = Active" using h(2) by simp
next
  assume h: "getMultiSettleSignatureById db i = Some sg" "status sg = Active" "\<not> valid_until sg < now"
    "BigInt (remaining_amount sg) = Some r" "0 \<le> r" "BigInt a = Some n" "n < 0"
  have le: "n \<le> r" using h(5,7) by simp
  have row: "reserved_row r n sg = sg\<lparr>remaining_amount := bigintToString (r - n)\<rparr>"
    using h(5,7) by (simp add: reserved_row_def)
  note d = decrement_granted [OF h(1,2,3,4) h(6) le]
  show "fst (decrementRemainingAmount now i a db) =
        Inr (Some (sg\<lparr>remaining_amount := bigintToString (r - n)\<rparr>))"
    using d row by simp
  show "getMultiSettleSignatureById (snd (decrementRemainingAmount now i a db)) i =
        Some (sg\<lparr>remaining_amount := bigintToString (r - n)\<rparr>)"
    using decrement_result [OF h(1,2,3,4) h(6) le] d row by simp
  show "r < r - n" using h(7) by simp
next
  assume h: "BigInt a = Some n" "n \<le> 0"
  then obtain res where res: "settle_checks env fac i a db = Inl res"
    using settle_checks_nonpositive by blast
  show "snd (settle env fac i payTo a db) = (db, [])"
    using settle_rejected [OF res] by simp
  show "\<not> res_success (fst (settle env fac i payTo a db))"
    using settle_rejected [OF res] settle_checks_Inl [OF res] by simp
next
  assume "getMultiSettleSignatureById db i = Some sg" "facilitator_id sg = fac_id fac"
    "status sg = Active" "\<not> valid_until sg < now_route env"
    "BigInt (remaining_amount sg) = Some r" "BigInt a = Some n" "n \<le> 0" "n \<le> r"
  then have "settle_checks env fac i a db =
      Inl (settle_error 400 (Some (str ''Amount must be greater than 0'')) (Some (remaining_amount sg)) None)"
    by (simp add: settle_checks_def)
  then show "settle env fac i payTo a db =
        (settle_error 400 (Some (str ''Amount must be greater than 0'')) (Some (remaining_amount sg)) None,
         db, [])"
    by (rule settle_rejected)
qed (simp_all add: BigInt_bigintToString)

theorem reserve_without_positive_check_witness:
  "getMultiSettleSignatureById (example_db example_row) (str ''a1'') = Some example_row
   \<and> facilitator_id example_row = fac_id example_facilitator
   \<and> status example_row = Active \<and> \<not> valid_until example_row < 10
   \<and> BigInt (remaining_amount example_row) = Some 100
   \<and> BigInt (str ''0'') = Some 0 \<and> BigInt (str ''-5'') = Some (- 5)
   \<and> fst (decrementRemainingAmount 10 (str ''a1'') (str ''0'') (example_db example_row)) =
        Inr (Some example_row)
   \<and> fst (decrementRemainingAmount 10 (str ''a1'') (str ''-5'') (example_db example_row)) =
        Inr (Some (example_row\<lparr>remaining_amount := str ''105''\<rparr>))
   \<and> settle example_env example_facilitator (str ''a1'') (str ''0xB0B'') (str ''-5'') (example_db example_row) =
        (settle_error 400 (Some (str ''Amount must be greater than 0'')) (Some (str ''100'')) None,
         example_db example_row, [])"
proof -
  have g: "getMultiSettleSignatureById (example_db example_row) (str ''a1'') = Some example_row"
    using example_lookup [of example_row] by (simp add: example_row_def)
  have h: "facilitator_id example_row = fac_id example_facilitator"
    "status example_row = Active" "\<not> valid_until example_row < 10"
    "\<not> valid_until example_row < now_route example_env"
    "BigInt (remaining_amount example_row) = Some 100" "BigInt (str ''0'') = Some 0"
    "BigInt (str ''-5'') = Some (- 5)"
    by (simp_all add: example_row_def example_facilitator_def example_env_def BigInt_examples)
  note t = reserve_without_positive_check [of "example_db example_row" "str ''a1''" example_row 10 100
      "str ''-5''" "- 5" example_env example_facilitator "str ''0xB0B''"]
  have 1: "fst (decrementRemainingAmount 10 (str ''a1'') (str ''0'') (example_db example_row)) =
        Inr (Some (example_row\<lparr>remaining_amount := bigintToString 100\<rparr>))"
    using t g h by simp
  have 2: "fst (decrementRemainingAmount 10 (str ''a1'') (str ''-5'') (example_db example_row)) =
        Inr (Some (example_row\<lparr>remaining_amount := bigintToString (100 - (- 5))\<rparr>))"
    using t g h by simp
  have 3: "settle example_env example_facilitator (str ''a1'') (str ''0xB0B'') (str ''-5'') (example_db example_row) =
        (settle_error 400 (Some (str ''Amount must be greater than 0''))
           (Some (remaining_amount example_row)) None, example_db example_row, [])"
    using t g h by simp
  show ?thesis
    using g h 1 2 3 by (simp add: bigintToString_examples) (simp add: example_row_def)
qed

text \<open>
  C10 as stated fails on an active, unexpired authorization whose remaining amount is zero
  (one created with the cap \<open>0\<close>): the reserve of \<open>0\<close> returns the record, but exhausted.
\<close>

theorem reserve_zero_of_zero_counterexample:
  "createMultiSettleSignature toLowerCaseASCII (str ''a1'') (example_data\<lparr>d_cap_amount := str ''0''\<rparr>) empty_database =
     (Some (example_row\<lparr>cap_amount := str ''0'', remaining_amount := str ''0''\<rparr>),
      example_db (example_row\<lparr>cap_amount := str ''0'', remaining_amount := str ''0''\<rparr>))
   \<and> status (example_row\<lparr>cap_amount := str ''0'', remaining_amount := str ''0''\<rparr>) = Active
   \<and> \<not> valid_until (example_row\<lparr>cap_amount := str ''0'', remaining_amount := str ''0''\<rparr>) < 10
   \<and> fst (decrementRemainingAmount 10 (str ''a1'') (str ''0'')
            (example_db (example_row\<lparr>cap_amount := str ''0'', remaining_amount := str ''0''\<rparr>))) =
       Inr (Some (example_row\<lparr>cap_amount := str ''0'', remaining_amount := str ''0'', status := Exhausted\<rparr>))"
  by (simp add: createMultiSettleSignature_def example_data_def empty_database_def Let_def
      signature_insert_conflict_def getMultiSettleSignatureById_def
      getMultiSettleSignatureByNonce_def example_row_def example_db_def lower_examples
      decrementRemainingAmount_def BigInt_examples bigintToString_examples update_signatures_def)

section \<open>C4: settling after \<open>valid_until\<close>\<close>

lemma settle_expired_route:
  assumes "getMultiSettleSignatureById db i = Some sg" "facilitator_id sg = fac_id fac"
    "status sg = Active" "valid_until sg < now_route env"
  shows "settle env fac i payTo a db =
           (settle_error 400 (Some (str ''Authorization has expired'')) (Some (remaining_amount sg)) None,
            db, [])"
proof -
  have "settle_checks env fac i a db =
      Inl (settle_error 400 (Some (str ''Authorization has expired'')) (Some (remaining_amount sg)) None)"
    using assms by (simp add: settle_checks_def)
  then show ?thesis by (rule settle_rejected)
qed

lemma reserve_expired_store:
  assumes "getMultiSettleSignatureById db i = Some sg" "status sg = Active" "valid_until sg < now"
  shows "fst (decrementRemainingAmount now i a db) = Inr None"
    and "getMultiSettleSignatureById (snd (decrementRemainingAmount now i a db)) i =
           Some (sg\<lparr>status := Expired\<rparr>)"
  using assms getById_sig_id [OF assms(1)]
  by (simp_all add: decrement_expired getById_update_signatures)

text \<open>
  C4. The settle route tests \<open>valid_until\<close> itself (lines 462 to 471) and returns there, before
  the reserve call. \<open>decrementRemainingAmount\<close>, which on the same observation marks the record
  expired (lines 139 to 148), is not reached. On the example authorization (active, 100
  remaining, valid until 1000) a settle call of its owner at time 2000 is answered with the
  failure that the authorization has expired and nothing is written: the stored status is
  still active. The reserve operation, called on that database at that time, returns null
  and leaves the record expired.
\<close>

theorem settle_expired_status_unchanged:
  "settle (example_env\<lparr>now_route := 2000, now_reserve := 2000\<rparr>) example_facilitator
      (str ''a1'') (str ''0xB0B'') (str ''30'') (example_db example_row) =
     (settle_error 400 (Some (str ''Authorization has expired'')) (Some (str ''100'')) None,
      example_db example_row, [])
   \<and> valid_until example_row < now_route (example_env\<lparr>now_route := 2000, now_reserve := 2000\<rparr>)
   \<and> map_option status
        (getMultiSettleSignatureById
           (fst (snd (settle (example_env\<lparr>now_route := 2000, now_reserve := 2000\<rparr>)
                        example_facilitator (str ''a1'') (str ''0xB0B'') (str ''30'')
                        (example_db example_row)))) (str ''a1''))
      = Some Active
   \<and> decrementRemainingAmount 2000 (str ''a1'') (str ''30'') (example_db example_row) =
       (Inr None, example_db (example_row\<lparr>status := Expired\<rparr>))"
  by (simp add: settle_def settle_checks_def example_env_def example_facilitator_def example_db_def
      example_row_def getMultiSettleSignatureById_def decrementRemainingAmount_def
      update_signatures_def)

section \<open>The settle route after the checks\<close>

lemma decrement_Some:
  assumes "decrementRemainingAmount now i a db = (Inr (Some upd), db1)"
  shows "\<exists>sg r n. getMultiSettleSignatureById db i = Some sg \<and> status sg = Active
           \<and> \<not> valid_until sg < now
           \<and> BigInt (remaining_amount sg) = Some r \<and> BigInt a = Some n \<and> n \<le> r
           \<and> upd = reserved_row r n sg
           \<and> db1 = snd (update_signatures (\<lambda>x. sig_id x = i) (reserved_row r n) db)"
proof (cases "getMultiSettleSignatureById db i")
  case None
  then show ?thesis using assms by (simp add: decrement_missing)
next
  case (Some sg)
  show ?thesis
  proof (cases "status sg = Active")
    case False
    then show ?thesis using assms Some by (simp add: decrement_inactive)
  next
    case act: True
    show ?thesis
    proof (cases "valid_until sg < now")
      case True
      then show ?thesis using assms Some act by (simp add: decrement_expired)
    next
      case notexp: False
      show ?thesis
      proof (cases "BigInt (remaining_amount sg) = None \<or> BigInt a = None")
        case True
        then show ?thesis using assms decrement_throws [OF Some act notexp True] by simp
      next
        case False
        then obtain r n where rn: "BigInt (remaining_amount sg) = Some r" "BigInt a = Some n"
          by auto
        show ?thesis
        proof (cases "n \<le> r")
          case False
          then show ?thesis using assms decrement_exceeds [OF Some act notexp rn] by simp
        next
          case True
          show ?thesis
            using assms decrement_granted [OF Some act notexp rn True] Some act notexp rn True
            by auto
        qed
      qed
    qed
  qed
qed

lemma decrement_Some_lookup:
  assumes "decrementRemainingAmount now i a db = (Inr (Some upd), db1)"
  shows "getMultiSettleSignatureById db1 i = Some upd"
    and "multisettle_settlements db1 = multisettle_settlements db"
proof -
  obtain sg r n where f: "getMultiSettleSignatureById db i = Some sg"
    "upd = reserved_row r n sg"
    "db1 = snd (update_signatures (\<lambda>x. sig_id x = i) (reserved_row r n) db)"
    using decrement_Some [OF assms] by blast
  show "getMultiSettleSignatureById db1 i = Some upd"
    using f getById_sig_id [OF f(1)]
    by (simp add: getById_update_signatures reserved_row_def)
  show "multisettle_settlements db1 = multisettle_settlements db"
    using f(3) by (simp add: update_signatures_def)
qed

lemma find_snoc_new: "find P xs = None \<Longrightarrow> P x \<Longrightarrow> find P (xs @ [x]) = Some x"
  by (simp add: find_append_none)

lemma create_settlement_Some:
  assumes "createMultiSettleSettlement toLowerCase new_id sid fid payTo a th st em db = (Some stl, db2)"
  shows "stl = \<lparr>stl_id = new_id, signature_id = sid, stl_facilitator_id = fid,
                pay_to = toLowerCase payTo, amount = a, transaction_hash = or_null th,
                stl_status = st, error_message = or_null em\<rparr>"
    and "getMultiSettleSettlementById db new_id = None"
    and "db2 = db\<lparr>multisettle_settlements := multisettle_settlements db @ [stl]\<rparr>"
    and "getMultiSettleSettlementById db2 new_id = Some stl"
proof -
  have n: "getMultiSettleSettlementById db new_id = None"
    using assms
    by (cases "getMultiSettleSettlementById db new_id")
       (simp_all add: createMultiSettleSettlement_def settlement_insert_conflict_def)
  let ?row = "\<lparr>stl_id = new_id, signature_id = sid, stl_facilitator_id = fid,
                pay_to = toLowerCase payTo, amount = a, transaction_hash = or_null th,
                stl_status = st, error_message = or_null em\<rparr>"
  have look: "getMultiSettleSettlementById
      (db\<lparr>multisettle_settlements := multisettle_settlements db @ [?row]\<rparr>) new_id = Some ?row"
    using n by (simp add: getMultiSettleSettlementById_def find_snoc_new)
  have c: "createMultiSettleSettlement toLowerCase new_id sid fid payTo a th st em db =
      (Some ?row, db\<lparr>multisettle_settlements := multisettle_settlements db @ [?row]\<rparr>)"
    using n look by (simp add: createMultiSettleSettlement_def settlement_insert_conflict_def Let_def)
  have "(Some stl, db2) =
      (Some ?row, db\<lparr>multisettle_settlements := multisettle_settlements db @ [?row]\<rparr>)"
    by (rule trans [OF assms [symmetric] c])
  then have e: "stl = ?row" "db2 = db\<lparr>multisettle_settlements := multisettle_settlements db @ [?row]\<rparr>"
    by (metis prod.inject option.inject)+
  show "stl = ?row" by (rule e)
  show "db2 = db\<lparr>multisettle_settlements := multisettle_settlements db @ [stl]\<rparr>"
    unfolding e by (rule refl)
  show "getMultiSettleSettlementById db new_id = None" by (rule n)
  show "getMultiSettleSettlementById db2 new_id = Some stl" unfolding e by (rule look)
qed


lemma find_map_update_settlement:
  assumes "\<And>r. stl_id (f r) = stl_id r"
  shows "find (\<lambda>r. stl_id r = j) (map (\<lambda>r. if stl_id r = i then f r else r) rows) =
         map_option (\<lambda>r. if stl_id r = i then f r else r) (find (\<lambda>r. stl_id r = j) rows)"
  using assms by (induction rows) auto

lemma find_None_filter: "find P xs = None \<longleftrightarrow> filter P xs = []"
  by (induction xs) auto

lemma update_settlement_db:
  "snd (updateMultiSettleSettlementStatus i st th em db) =
     db\<lparr>multisettle_settlements :=
          map (\<lambda>r. if stl_id r = i then written_settlement st th em r else r)
            (multisettle_settlements db)\<rparr>"
  by (cases th; cases em)
     (simp_all add: updateMultiSettleSettlementStatus_def Let_def written_settlement_def)

lemma update_settlement_lookup:
  "getMultiSettleSettlementById (snd (updateMultiSettleSettlementStatus i st th em db)) j =
     map_option (\<lambda>r. if stl_id r = i then written_settlement st th em r else r)
       (getMultiSettleSettlementById db j)"
  by (simp add: update_settlement_db getMultiSettleSettlementById_def)
     (rule find_map_update_settlement, simp add: written_settlement_def)

lemma update_settlement_signatures:
  "getMultiSettleSignatureById (snd (updateMultiSettleSettlementStatus i st th em db)) j =
     getMultiSettleSignatureById db j"
  by (simp add: update_settlement_db getMultiSettleSignatureById_def)

lemma update_settlement_result:
  "fst (updateMultiSettleSettlementStatus i st th em db) =
     map_option (written_settlement st th em) (getMultiSettleSettlementById db i)"
proof (cases "getMultiSettleSettlementById db i")
  case None
  then have "filter (\<lambda>r. stl_id r = i) (multisettle_settlements db) = []"
    by (simp add: getMultiSettleSettlementById_def find_None_filter)
  then show ?thesis using None
    by (simp add: updateMultiSettleSettlementStatus_def Let_def)
next
  case (Some stl)
  then have ne: "filter (\<lambda>r. stl_id r = i) (multisettle_settlements db) \<noteq> []"
    by (auto simp: getMultiSettleSettlementById_def find_None_filter [symmetric])
  have id: "stl_id stl = i"
    using Some by (auto simp: getMultiSettleSettlementById_def find_Some_iff)
  have "fst (updateMultiSettleSettlementStatus i st th em db) =
      getMultiSettleSettlementById (snd (updateMultiSettleSettlementStatus i st th em db)) i"
    using ne by (simp add: updateMultiSettleSettlementStatus_def Let_def)
  then show ?thesis using Some id by (simp add: update_settlement_lookup)
qed

lemma mark_deposited_lookup:
  "getMultiSettleSignatureById db j = Some sg \<Longrightarrow>
   getMultiSettleSignatureById (snd (markSignatureDeposited i db)) j =
     Some (if sig_id sg = i then sg\<lparr>deposited := 1\<rparr> else sg)"
  by (simp add: markSignatureDeposited_def split_beta getById_update_signatures)

lemma mark_deposited_settlements:
  "getMultiSettleSettlementById (snd (markSignatureDeposited i db)) j =
     getMultiSettleSettlementById db j"
  by (simp add: markSignatureDeposited_def split_beta update_signatures_def
      getMultiSettleSettlementById_def)

lemma settle_reserved:
  assumes "settle_checks env fac i a db = Inr (sg, chainId, privateKey, address)"
    "decrementRemainingAmount (now_reserve env) i a db = (Inr (Some upd), db1)"
    "createMultiSettleSettlement (settle_toLowerCase env) (settlement_id env) i (fac_id fac) payTo a
       None Pending None db1 = (Some stl, db2)"
  shows "settle env fac i payTo a db =
           (fst (settle_try env chainId sg upd stl i a db2),
            fst (snd (settle_try env chainId sg upd stl i a db2)),
            [(Reserve True, db1), (CreateSettlement Pending True, db2)]
              @ snd (snd (settle_try env chainId sg upd stl i a db2)))"
  using assms by (simp add: settle_def split_beta)

lemma settle_throws:
  "settle_checks env fac i a db = Inr (sg, chainId, privateKey, address) \<Longrightarrow>
   decrementRemainingAmount (now_reserve env) i a db = (Inl e, db1) \<Longrightarrow>
   settle env fac i payTo a db =
     (settle_error 500 (Some (str ''Internal server error'')) None None, db1, [])"
  by (simp add: settle_def)

lemma settle_not_reserved:
  "settle_checks env fac i a db = Inr (sg, chainId, privateKey, address) \<Longrightarrow>
   decrementRemainingAmount (now_reserve env) i a db = (Inr None, db1) \<Longrightarrow>
   settle env fac i payTo a db =
     (settle_error 400
        (Some (str ''Failed to reserve amount - insufficient balance or authorization is no longer active''))
        (Some (remaining_amount sg)) None, db1, [(Reserve False, db1)])"
  by (simp add: settle_def)

lemma settle_not_created:
  "settle_checks env fac i a db = Inr (sg, chainId, privateKey, address) \<Longrightarrow>
   decrementRemainingAmount (now_reserve env) i a db = (Inr (Some upd), db1) \<Longrightarrow>
   createMultiSettleSettlement (settle_toLowerCase env) (settlement_id env) i (fac_id fac) payTo a
     None Pending None db1 = (None, db2) \<Longrightarrow>
   settle env fac i payTo a db =
     (settle_error 500 (Some (str ''Internal error creating settlement record'')) None None, db2,
      [(Reserve True, db1), (CreateSettlement Pending False, db2)])"
  by (simp add: settle_def)

lemma create_settlement_None:
  assumes "createMultiSettleSettlement toLowerCase new_id sid fid payTo a th st em db = (None, db2)"
  shows "db2 = db"
proof (cases "getMultiSettleSettlementById db new_id")
  case None
  let ?row = "\<lparr>stl_id = new_id, signature_id = sid, stl_facilitator_id = fid,
                pay_to = toLowerCase payTo, amount = a, transaction_hash = or_null th,
                stl_status = st, error_message = or_null em\<rparr>"
  have "getMultiSettleSettlementById
      (db\<lparr>multisettle_settlements := multisettle_settlements db @ [?row]\<rparr>) new_id = Some ?row"
    using None by (simp add: getMultiSettleSettlementById_def find_snoc_new)
  then show ?thesis
    using assms None
    by (simp add: createMultiSettleSettlement_def settlement_insert_conflict_def Let_def)
next
  case (Some r)
  then show ?thesis
    using assms by (simp add: createMultiSettleSettlement_def settlement_insert_conflict_def)
qed

lemma decrement_settlements:
  "multisettle_settlements (snd (decrementRemainingAmount now i a db)) = multisettle_settlements db"
  by (auto simp: decrementRemainingAmount_def Let_def update_signatures_def
      split: option.splits if_splits)

lemma settlement_lookup_same_table:
  "multisettle_settlements db2 = multisettle_settlements db \<Longrightarrow>
   getMultiSettleSettlementById db2 j = getMultiSettleSettlementById db j"
  by (simp add: getMultiSettleSettlementById_def)

subsection \<open>The log of the handler\<close>

text \<open>
  After the pending record is inserted the handler's log is a run of chain calls, each made
  in the database \<open>db2\<close> the insertion left or in that database with the authorization marked
  deposited, and then one write of the settlement's status, to success or failed, which gives
  the database the handler returns.
\<close>

lemma settle_transfer_log:
  "\<exists>pre st th em.
      snd (snd (settle_transfer env chainId sg upd stl a acts db)) =
        acts @ pre @ [(UpdateSettlement st, fst (snd (settle_transfer env chainId sg upd stl a acts db)))]
    \<and> st \<noteq> Pending
    \<and> fst (snd (settle_transfer env chainId sg upd stl a acts db)) =
        snd (updateMultiSettleSettlementStatus (stl_id stl) st th em db)
    \<and> list_all (\<lambda>e. (fst e = CheckBalance \<or> fst e = Transfer) \<and> snd e = db) pre"
proof (cases "fst (checkFacilitatorBalance chainId a (balance_outcome env))")
  case False
  then show ?thesis
    by (intro exI [of _ "[(CheckBalance, db)]"] exI [of _ Failed] exI [of _ None]
        exI [of _ "Some (str ''Insufficient facilitator balance: ''
                     @ snd (checkFacilitatorBalance chainId a (balance_outcome env))
                     @ str '' < '' @ a)"])
       (simp add: settle_transfer_def Let_def)
next
  case bal: True
  show ?thesis
  proof (cases "cr_success (transferTokens chainId (transfer_outcome env))")
    case True
    then show ?thesis using bal
      by (intro exI [of _ "[(CheckBalance, db), (Transfer, db)]"] exI [of _ Success]
          exI [of _ "cr_transactionHash (transferTokens chainId (transfer_outcome env))"]
          exI [of _ None])
         (simp add: settle_transfer_def Let_def)
  next
    case False
    then show ?thesis using bal
      by (intro exI [of _ "[(CheckBalance, db), (Transfer, db)]"] exI [of _ Failed]
          exI [of _ None]
          exI [of _ "cr_errorMessage (transferTokens chainId (transfer_outcome env))"])
         (simp add: settle_transfer_def Let_def)
  qed
qed

lemma settle_try_log: "try_log i (stl_id stl) db2 (settle_try env chainId sg upd stl i a db2)"
proof -
  let ?dM = "snd (markSignatureDeposited i db2)"
  let ?sid = "stl_id stl"
  let ?Q = "\<lambda>e. (fst e = Deposit \<or> fst e = action.MarkDeposited \<or> fst e = CheckBalance
                  \<or> fst e = Transfer)
               \<and> (snd e = db2 \<or> snd e = ?dM)"
  have direct: "try_log i ?sid db2 (res, snd (updateMultiSettleSettlementStatus ?sid Failed None em db2),
      pre @ [(UpdateSettlement Failed, snd (updateMultiSettleSettlementStatus ?sid Failed None em db2))])"
    if "pre = [] \<or> pre = [(Deposit, db2)]" for res em pre
    unfolding try_log_def
    by (rule exI [of _ pre], rule exI [of _ Failed], rule exI [of _ None], rule exI [of _ em],
        rule exI [of _ db2])
       (use that in \<open>elim disjE; simp\<close>)
  have tr: "try_log i ?sid db2 (settle_transfer env chainId sg upd stl a acts dT)"
    if dT: "dT = db2 \<or> dT = ?dM" and acts: "list_all ?Q acts" for acts dT
  proof -
    obtain pre st th em where p:
      "snd (snd (settle_transfer env chainId sg upd stl a acts dT)) =
         acts @ pre @ [(UpdateSettlement st, fst (snd (settle_transfer env chainId sg upd stl a acts dT)))]"
      "st \<noteq> Pending"
      "fst (snd (settle_transfer env chainId sg upd stl a acts dT)) =
         snd (updateMultiSettleSettlementStatus ?sid st th em dT)"
      "list_all (\<lambda>e. (fst e = CheckBalance \<or> fst e = Transfer) \<and> snd e = dT) pre"
      using settle_transfer_log by blast
    have "list_all ?Q pre"
      using p(4) dT unfolding list_all_iff by blast
    then have all: "list_all ?Q (acts @ pre)" using acts by simp
    show ?thesis unfolding try_log_def
      by (rule exI [of _ "acts @ pre"], rule exI [of _ st], rule exI [of _ th], rule exI [of _ em],
          rule exI [of _ dT])
         (intro conjI, simp add: p(1), rule p(2), rule p(3), rule dT, rule all)
  qed
  show ?thesis
  proof (cases "deposited sg = 0")
    case False
    then show ?thesis using tr [of db2 "[]"] by (simp add: settle_try_def)
  next
    case dep: True
    show ?thesis
    proof (cases "extractAuthorization env (payment_payload sg)")
      case None
      then show ?thesis using dep direct [of "[]"] by (simp add: settle_try_def Let_def)
    next
      case (Some authDetails)
      show ?thesis
      proof (cases "deposit_outcome env")
        case (Throws m)
        then show ?thesis using dep Some direct [of "[(Deposit, db2)]"]
          by (simp add: settle_try_def Let_def)
      next
        case (Returns depositResult)
        show ?thesis
        proof (cases "cr_success depositResult")
          case False
          then show ?thesis using dep Some Returns direct [of "[(Deposit, db2)]"]
            by (simp add: settle_try_def Let_def)
        next
          case True
          then show ?thesis
            using dep Some Returns tr [of ?dM "[(Deposit, db2), (action.MarkDeposited, ?dM)]"]
            by (simp add: settle_try_def Let_def)
        qed
      qed
    qed
  qed
qed

text \<open>The same for the whole handler: the four shapes its log can have.\<close>

lemma settle_log_shape:
  "settle env fac i payTo a db = (res, dbF, l) \<Longrightarrow>
   (l = [] \<and> \<not> res_success res
      \<and> (dbF = db \<or> dbF = snd (decrementRemainingAmount (now_reserve env) i a db)))
   \<or> (l = [(Reserve False, dbF)] \<and> \<not> res_success res
        \<and> decrementRemainingAmount (now_reserve env) i a db = (Inr None, dbF))
   \<or> (\<exists>upd db1. l = [(Reserve True, db1), (CreateSettlement Pending False, dbF)] \<and> dbF = db1
          \<and> \<not> res_success res
          \<and> decrementRemainingAmount (now_reserve env) i a db = (Inr (Some upd), db1))
   \<or> (\<exists>sg chainId privateKey address upd db1 stl db2.
          settle_checks env fac i a db = Inr (sg, chainId, privateKey, address)
        \<and> decrementRemainingAmount (now_reserve env) i a db = (Inr (Some upd), db1)
        \<and> createMultiSettleSettlement (settle_toLowerCase env) (settlement_id env) i (fac_id fac)
            payTo a None Pending None db1 = (Some stl, db2)
        \<and> (res, dbF, l) =
            (fst (settle_try env chainId sg upd stl i a db2),
             fst (snd (settle_try env chainId sg upd stl i a db2)),
             [(Reserve True, db1), (CreateSettlement Pending True, db2)]
               @ snd (snd (settle_try env chainId sg upd stl i a db2))))"
proof (cases "settle_checks env fac i a db")
  case (Inl r)
  assume "settle env fac i payTo a db = (res, dbF, l)"
  then show ?thesis using settle_rejected [OF Inl, of payTo] settle_checks_Inl [OF Inl] by auto
next
  case (Inr t)
  assume s: "settle env fac i payTo a db = (res, dbF, l)"
  obtain sg chainId privateKey address where t: "t = (sg, chainId, privateKey, address)"
    by (cases t) auto
  note c = Inr [unfolded t]
  obtain r db1 where d: "decrementRemainingAmount (now_reserve env) i a db = (r, db1)"
    by (cases "decrementRemainingAmount (now_reserve env) i a db") auto
  show ?thesis
  proof (cases r)
    case (Inl e)
    then show ?thesis using settle_throws [OF c, of e db1 payTo] d s by simp
  next
    case (Inr opt)
    show ?thesis
    proof (cases opt)
      case None
      then show ?thesis using settle_not_reserved [OF c, of db1 payTo] d Inr s by simp
    next
      case (Some upd)
      note d' = d [unfolded Inr Some]
      obtain x db2 where cr: "createMultiSettleSettlement (settle_toLowerCase env) (settlement_id env)
          i (fac_id fac) payTo a None Pending None db1 = (x, db2)"
        by (cases "createMultiSettleSettlement (settle_toLowerCase env) (settlement_id env)
          i (fac_id fac) payTo a None Pending None db1") auto
      show ?thesis
      proof (cases x)
        case None
        then have "db2 = db1" using cr create_settlement_None by blast
        then show ?thesis using settle_not_created [OF c d' cr [unfolded None]] d' s by simp
      next
        case (Some stl)
        note cr' = cr [unfolded Some]
        have "\<exists>sg chainId privateKey address upd db1 stl db2.
          settle_checks env fac i a db = Inr (sg, chainId, privateKey, address)
        \<and> decrementRemainingAmount (now_reserve env) i a db = (Inr (Some upd), db1)
        \<and> createMultiSettleSettlement (settle_toLowerCase env) (settlement_id env) i (fac_id fac)
            payTo a None Pending None db1 = (Some stl, db2)
        \<and> (res, dbF, l) =
            (fst (settle_try env chainId sg upd stl i a db2),
             fst (snd (settle_try env chainId sg upd stl i a db2)),
             [(Reserve True, db1), (CreateSettlement Pending True, db2)]
               @ snd (snd (settle_try env chainId sg upd stl i a db2)))"
          using c d' cr' settle_reserved [OF c d' cr'] s
          by (intro exI [of _ sg] exI [of _ chainId] exI [of _ privateKey] exI [of _ address]
              exI [of _ upd] exI [of _ db1] exI [of _ stl] exI [of _ db2]) simp
        then show ?thesis by blast
      qed
    qed
  qed
qed

lemma after_create:
  assumes d: "decrementRemainingAmount now i a db = (Inr (Some upd), db1)"
    and cr: "createMultiSettleSettlement toLowerCase sid i fid payTo a None Pending None db1 = (Some stl, db2)"
  shows "getMultiSettleSignatureById db1 i = Some upd"
    and "getMultiSettleSettlementById db sid = None"
    and "getMultiSettleSettlementById db1 sid = None"
    and "stl_id stl = sid" and "signature_id stl = i" and "amount stl = a"
    and "stl_status stl = Pending" and "error_message stl = None"
    and "reserved_and_pending db2 i upd sid stl"
    and "reserved_and_pending (snd (markSignatureDeposited i db2)) i upd sid stl"
proof -
  note look = decrement_Some_lookup [OF d]
  note st = create_settlement_Some [OF cr]
  show 1: "getMultiSettleSignatureById db1 i = Some upd" by (rule look(1))
  show "getMultiSettleSettlementById db1 sid = None" by (rule st(2))
  then show "getMultiSettleSettlementById db sid = None"
    using settlement_lookup_same_table [OF look(2)] by simp
  show f: "stl_id stl = sid" "signature_id stl = i" "amount stl = a" "stl_status stl = Pending"
    "error_message stl = None"
    using st(1) by (simp_all add: or_null_def)
  have 2: "getMultiSettleSignatureById db2 i = Some upd"
    using 1 st(3) by (simp add: getMultiSettleSignatureById_def)
  have id: "sig_id upd = i" using 1 by (rule getById_sig_id)
  show "reserved_and_pending db2 i upd sid stl"
    using 2 st(4) f(4) by (simp add: reserved_and_pending_def)
  show "reserved_and_pending (snd (markSignatureDeposited i db2)) i upd sid stl"
    using mark_deposited_lookup [OF 2, of i] id st(4) f(4)
    by (simp add: reserved_and_pending_def mark_deposited_settlements)
qed

lemma after_update:
  assumes "reserved_and_pending dT i upd sid stl" "stl_id stl = sid" "st \<noteq> Pending"
  shows "settled_with (snd (updateMultiSettleSettlementStatus sid st th em dT)) i upd sid stl"
  unfolding settled_with_def
proof (intro conjI)
  show "map_option (\<lambda>r. r\<lparr>deposited := deposited upd\<rparr>)
          (getMultiSettleSignatureById (snd (updateMultiSettleSettlementStatus sid st th em dT)) i)
        = Some upd"
    using assms(1) by (simp add: reserved_and_pending_def update_settlement_signatures)
  have "getMultiSettleSettlementById (snd (updateMultiSettleSettlementStatus sid st th em dT)) sid
          = Some (written_settlement st th em stl)"
    using assms(1,2) by (simp add: reserved_and_pending_def update_settlement_lookup)
  then show "\<exists>st' th' em'. st' \<noteq> Pending
      \<and> getMultiSettleSettlementById (snd (updateMultiSettleSettlementStatus sid st th em dT)) sid
          = Some (written_settlement st' th' em' stl)"
    using assms(3) by blast
qed

lemma chain_calls_simps [simp]:
  "chain_calls [] = []"
  "chain_calls ((Reserve b, d) # l) = chain_calls l"
  "chain_calls ((CreateSettlement st b, d) # l) = chain_calls l"
  "chain_calls ((UpdateSettlement st, d) # l) = chain_calls l"
  "chain_calls ((action.MarkDeposited, d) # l) = chain_calls l"
  "chain_calls ((Deposit, d) # l) = (Deposit, d) # chain_calls l"
  "chain_calls ((CheckBalance, d) # l) = (CheckBalance, d) # chain_calls l"
  "chain_calls ((Transfer, d) # l) = (Transfer, d) # chain_calls l"
  "chain_calls (l @ l') = chain_calls l @ chain_calls l'"
  by (simp_all add: chain_calls_def)

lemma chain_calls_subset: "set (chain_calls l) \<subseteq> set l"
  by (simp add: chain_calls_def)

text \<open>What the log of the \<open>try\<close> block says of the databases in it.\<close>

lemma try_log_databases:
  assumes t: "try_log i sid db2 out"
    and p: "reserved_and_pending db2 i upd sid stl"
      "reserved_and_pending (snd (markSignatureDeposited i db2)) i upd sid stl"
    and id: "stl_id stl = sid"
  shows "list_all (\<lambda>e. reserved_and_pending (snd e) i upd sid stl) (chain_calls (snd (snd out)))"
    and "settled_with (fst (snd out)) i upd sid stl"
proof -
  let ?dM = "snd (markSignatureDeposited i db2)"
  obtain pre st th em dT where l:
    "snd (snd out) = pre @ [(UpdateSettlement st, fst (snd out))]" "st \<noteq> Pending"
    "fst (snd out) = snd (updateMultiSettleSettlementStatus sid st th em dT)"
    "dT = db2 \<or> dT = ?dM"
    "list_all (\<lambda>e. (fst e = Deposit \<or> fst e = action.MarkDeposited \<or> fst e = CheckBalance
                       \<or> fst e = Transfer)
                    \<and> (snd e = db2 \<or> snd e = ?dM)) pre"
    using t unfolding try_log_def by blast
  have "\<forall>e\<in>set pre. reserved_and_pending (snd e) i upd sid stl"
    using l(5) p unfolding list_all_iff by metis
  then have "\<forall>e\<in>set (chain_calls pre). reserved_and_pending (snd e) i upd sid stl"
    using chain_calls_subset [of pre] by blast
  then show "list_all (\<lambda>e. reserved_and_pending (snd e) i upd sid stl) (chain_calls (snd (snd out)))"
    by (simp add: l(1) list_all_iff)
  have "reserved_and_pending dT i upd sid stl" using l(4) p by blast
  then show "settled_with (fst (snd out)) i upd sid stl"
    unfolding l(3) using id l(2) by (rule after_update)
qed

section \<open>C3: the reservation comes first\<close>

text \<open>
  C3. In every execution of the settle handler, with the response, the database and the log
  it returns: if the reserve operation returns null on the database the handler starts from,
  the request fails, the log holds no deposit, balance check or transfer, no settlement
  record is written and the database returned is the one the handler started from or the one
  the reserve call left. If the log holds a reserve call that returned null, that call is
  all of the log. And if the log holds a chain call, then the checks passed; the reserve call
  returned the updated record and is the first entry of the log, in a database where the
  authorization is that record (the remaining amount less by the amount asked) and the
  settlement record does not exist; the insertion of the pending settlement record is the
  second entry; every chain call was made in a database that holds the reservation and the
  pending record; and the database returned holds the reservation and the record with a
  status that is no longer pending.
\<close>

theorem reserve_before_chain_calls:
  assumes "settle env fac i payTo a db = (res, dbF, l)"
  shows "(fst (decrementRemainingAmount (now_reserve env) i a db) = Inr None \<longrightarrow>
            \<not> res_success res \<and> chain_calls l = []
          \<and> multisettle_settlements dbF = multisettle_settlements db
          \<and> (dbF = db \<or> dbF = snd (decrementRemainingAmount (now_reserve env) i a db)))
    \<and> ((Reserve False, d) \<in> set l \<longrightarrow>
            \<not> res_success res \<and> l = [(Reserve False, dbF)] \<and> d = dbF
          \<and> decrementRemainingAmount (now_reserve env) i a db = (Inr None, dbF))
    \<and> (chain_calls l \<noteq> [] \<longrightarrow>
          (\<exists>sg chainId privateKey address r n upd db1 stl db2 rest.
              settle_checks env fac i a db = Inr (sg, chainId, privateKey, address)
            \<and> getMultiSettleSignatureById db i = Some sg
            \<and> BigInt (remaining_amount sg) = Some r \<and> BigInt a = Some n \<and> 0 < n \<and> n \<le> r
            \<and> upd = reserved_row r n sg
            \<and> decrementRemainingAmount (now_reserve env) i a db = (Inr (Some upd), db1)
            \<and> createMultiSettleSettlement (settle_toLowerCase env) (settlement_id env) i (fac_id fac)
                payTo a None Pending None db1 = (Some stl, db2)
            \<and> l = (Reserve True, db1) # (CreateSettlement Pending True, db2) # rest
            \<and> getMultiSettleSignatureById db1 i = Some upd
            \<and> getMultiSettleSettlementById db (settlement_id env) = None
            \<and> getMultiSettleSettlementById db1 (settlement_id env) = None
            \<and> signature_id stl = i \<and> amount stl = a
            \<and> reserved_and_pending db2 i upd (settlement_id env) stl
            \<and> list_all (\<lambda>e. reserved_and_pending (snd e) i upd (settlement_id env) stl)
                 (chain_calls rest)
            \<and> settled_with dbF i upd (settlement_id env) stl))"
proof -
  let ?sid = "settlement_id env"
  note shape = settle_log_shape [OF assms]
  let ?A = "l = [] \<and> \<not> res_success res
      \<and> (dbF = db \<or> dbF = snd (decrementRemainingAmount (now_reserve env) i a db))"
  let ?B = "l = [(Reserve False, dbF)] \<and> \<not> res_success res
        \<and> decrementRemainingAmount (now_reserve env) i a db = (Inr None, dbF)"
  let ?C = "\<exists>upd db1. l = [(Reserve True, db1), (CreateSettlement Pending False, dbF)] \<and> dbF = db1
          \<and> \<not> res_success res
          \<and> decrementRemainingAmount (now_reserve env) i a db = (Inr (Some upd), db1)"
  let ?D = "\<exists>sg chainId privateKey address upd db1 stl db2.
          settle_checks env fac i a db = Inr (sg, chainId, privateKey, address)
        \<and> decrementRemainingAmount (now_reserve env) i a db = (Inr (Some upd), db1)
        \<and> createMultiSettleSettlement (settle_toLowerCase env) (settlement_id env) i (fac_id fac)
            payTo a None Pending None db1 = (Some stl, db2)
        \<and> (res, dbF, l) =
            (fst (settle_try env chainId sg upd stl i a db2),
             fst (snd (settle_try env chainId sg upd stl i a db2)),
             [(Reserve True, db1), (CreateSettlement Pending True, db2)]
               @ snd (snd (settle_try env chainId sg upd stl i a db2)))"
  from shape consider (A) ?A | (B) ?B | (C) ?C | (D) ?D by blast
  then show ?thesis
  proof cases
    case A
    then show ?thesis using decrement_settlements [of "now_reserve env" i a db] by auto
  next
    case B
    then show ?thesis using decrement_settlements [of "now_reserve env" i a db] by auto
  next
    case C
    then show ?thesis by auto
  next
    case D
    then obtain sg chainId privateKey address upd db1 stl db2 where
      c: "settle_checks env fac i a db = Inr (sg, chainId, privateKey, address)"
      and d: "decrementRemainingAmount (now_reserve env) i a db = (Inr (Some upd), db1)"
      and cr: "createMultiSettleSettlement (settle_toLowerCase env) ?sid i (fac_id fac)
            payTo a None Pending None db1 = (Some stl, db2)"
      and out: "res = fst (settle_try env chainId sg upd stl i a db2)"
        "dbF = fst (snd (settle_try env chainId sg upd stl i a db2))"
        "l = (Reserve True, db1) # (CreateSettlement Pending True, db2)
               # snd (snd (settle_try env chainId sg upd stl i a db2))"
      by auto
    note f = settle_checks_Inr [OF c]
    note ac = after_create [OF d cr]
    have tl: "try_log i ?sid db2 (settle_try env chainId sg upd stl i a db2)"
      using settle_try_log [of i stl db2 env chainId sg upd a] ac(4) by simp
    note dbs = try_log_databases [OF tl ac(9,10,4)]
    obtain sg' r n where rn: "getMultiSettleSignatureById db i = Some sg'"
      "BigInt (remaining_amount sg') = Some r" "BigInt a = Some n" "n \<le> r"
      "upd = reserved_row r n sg'"
      using decrement_Some [OF d] by blast
    have same: "sg' = sg" using rn(1) f(1) by simp
    have pos: "0 < n" using f(5) rn(3) by auto
    have 1: "fst (decrementRemainingAmount (now_reserve env) i a db) \<noteq> Inr None"
      using d by simp
    have 2: "(Reserve False, d) \<notin> set l" for d
    proof -
      obtain pre st where "snd (snd (settle_try env chainId sg upd stl i a db2)) =
          pre @ [(UpdateSettlement st, fst (snd (settle_try env chainId sg upd stl i a db2)))]"
        "list_all (\<lambda>e. (fst e = Deposit \<or> fst e = action.MarkDeposited \<or> fst e = CheckBalance
                       \<or> fst e = Transfer)
                    \<and> (snd e = db2 \<or> snd e = snd (markSignatureDeposited i db2))) pre"
        using tl unfolding try_log_def by auto
      then show ?thesis unfolding out(3) list_all_iff by auto
    qed
    have 3: "\<exists>sg chainId privateKey address r n upd db1 stl db2 rest.
              settle_checks env fac i a db = Inr (sg, chainId, privateKey, address)
            \<and> getMultiSettleSignatureById db i = Some sg
            \<and> BigInt (remaining_amount sg) = Some r \<and> BigInt a = Some n \<and> 0 < n \<and> n \<le> r
            \<and> upd = reserved_row r n sg
            \<and> decrementRemainingAmount (now_reserve env) i a db = (Inr (Some upd), db1)
            \<and> createMultiSettleSettlement (settle_toLowerCase env) (settlement_id env) i (fac_id fac)
                payTo a None Pending None db1 = (Some stl, db2)
            \<and> l = (Reserve True, db1) # (CreateSettlement Pending True, db2) # rest
            \<and> getMultiSettleSignatureById db1 i = Some upd
            \<and> getMultiSettleSettlementById db (settlement_id env) = None
            \<and> getMultiSettleSettlementById db1 (settlement_id env) = None
            \<and> signature_id stl = i \<and> amount stl = a
            \<and> reserved_and_pending db2 i upd (settlement_id env) stl
            \<and> list_all (\<lambda>e. reserved_and_pending (snd e) i upd (settlement_id env) stl)
                 (chain_calls rest)
            \<and> settled_with dbF i upd (settlement_id env) stl"
      by (rule exI [of _ sg], rule exI [of _ chainId], rule exI [of _ privateKey],
          rule exI [of _ address], rule exI [of _ r], rule exI [of _ n], rule exI [of _ upd],
          rule exI [of _ db1], rule exI [of _ stl], rule exI [of _ db2],
          rule exI [of _ "snd (snd (settle_try env chainId sg upd stl i a db2))"])
         (use c f(1) rn(2,3,4,5) same pos d cr out(3) ac(1,2,3,5,6,9) dbs out(2) in simp)
    show ?thesis using 1 2 3 by blast
  qed
qed

lemma example_checks_pass:
  "now_route env \<le> 1000 \<Longrightarrow> decrypted_key env = Some k \<Longrightarrow> account_address env = Some ad \<Longrightarrow>
   settle_checks env example_facilitator (str ''a1'') (str ''30'') (example_db example_row) =
     Inr (example_row, ChainNumber 8453, k, ad)"
  by (simp add: settle_checks_def example_facilitator_def example_db_def
      example_row_def getMultiSettleSignatureById_def BigInt_examples networkToChainId_def
      or_null_def)

lemma example_pending:
  "createMultiSettleSettlement toLowerCaseASCII (str ''s1'') (str ''a1'') (str ''f1'') (str ''0xB0B'')
     (str ''30'') None Pending None (example_db row) =
     (Some example_settlement,
      \<lparr>multisettle_signatures = [row], multisettle_settlements = [example_settlement]\<rparr>)"
  by (simp add: createMultiSettleSettlement_def settlement_insert_conflict_def
      getMultiSettleSettlementById_def example_db_def example_settlement_def lower_examples
      or_null_def Let_def)

lemma example_balance:
  "checkFacilitatorBalance (ChainNumber 8453) (str ''30'') (Returns 1000) = (True, natToString 1000)"
  by (simp add: checkFacilitatorBalance_def chainConfigs_def BigInt_natToString BigInt_examples)

lemma example_settle_try:
  "settle_try example_env (ChainNumber 8453) example_row (example_row\<lparr>remaining_amount := str ''70''\<rparr>)
     example_settlement (str ''a1'') (str ''30'') pending_db =
   (\<lparr>res_code = 200, res_success = True, res_errorMessage = None,
      res_transactionHash = Some (str ''0xtx''), res_remainingAmount = Some (str ''70''),
      res_network = Some (str ''base'')\<rparr>,
    settled_db,
    [(Deposit, pending_db), (action.MarkDeposited, deposited_db), (CheckBalance, deposited_db),
     (Transfer, deposited_db), (UpdateSettlement Success, settled_db)])"
  by (simp add: settle_try_def settle_transfer_def example_env_def example_row_def
      example_balance transferTokens_def chainConfigs_def markSignatureDeposited_def
      update_signatures_def updateMultiSettleSettlementStatus_def example_settlement_def Let_def
      pending_db_def deposited_db_def settled_db_def)

lemma example_settle:
  "settle example_env example_facilitator (str ''a1'') (str ''0xB0B'') (str ''30'')
     (example_db example_row) =
   (\<lparr>res_code = 200, res_success = True, res_errorMessage = None,
      res_transactionHash = Some (str ''0xtx''), res_remainingAmount = Some (str ''70''),
      res_network = Some (str ''base'')\<rparr>,
    settled_db,
    [(Reserve True, reserved_db), (CreateSettlement Pending True, pending_db),
     (Deposit, pending_db), (action.MarkDeposited, deposited_db), (CheckBalance, deposited_db),
     (Transfer, deposited_db), (UpdateSettlement Success, settled_db)])"
proof -
  have c: "settle_checks example_env example_facilitator (str ''a1'') (str ''30'')
      (example_db example_row) = Inr (example_row, ChainNumber 8453, str ''key'', str ''0xFAC'')"
    by (rule example_checks_pass) (simp_all add: example_env_def)
  have d: "decrementRemainingAmount (now_reserve example_env) (str ''a1'') (str ''30'')
      (example_db example_row) =
       (Inr (Some (example_row\<lparr>remaining_amount := str ''70''\<rparr>)), reserved_db)"
    using example_reserve_30 by (simp add: example_env_def reserved_db_def)
  have p: "createMultiSettleSettlement (settle_toLowerCase example_env) (settlement_id example_env)
        (str ''a1'') (fac_id example_facilitator) (str ''0xB0B'') (str ''30'') None Pending None
        reserved_db = (Some example_settlement, pending_db)"
    using example_pending [of "example_row\<lparr>remaining_amount := str ''70''\<rparr>"]
    by (simp add: example_env_def example_facilitator_def reserved_db_def pending_db_def)
  show ?thesis
    using settle_reserved [OF c d p] by (simp add: example_settle_try)
qed

lemma example_late_settle:
  "settle (example_env\<lparr>now_reserve := 1001\<rparr>) example_facilitator (str ''a1'') (str ''0xB0B'')
     (str ''30'') (example_db example_row) =
   (settle_error 400
      (Some (str ''Failed to reserve amount - insufficient balance or authorization is no longer active''))
      (Some (str ''100'')) None,
    example_db (example_row\<lparr>status := Expired\<rparr>),
    [(Reserve False, example_db (example_row\<lparr>status := Expired\<rparr>))])"
proof -
  have c: "settle_checks (example_env\<lparr>now_reserve := 1001\<rparr>) example_facilitator (str ''a1'')
      (str ''30'') (example_db example_row) =
      Inr (example_row, ChainNumber 8453, str ''key'', str ''0xFAC'')"
    by (rule example_checks_pass) (simp_all add: example_env_def)
  have d: "decrementRemainingAmount (now_reserve (example_env\<lparr>now_reserve := 1001\<rparr>)) (str ''a1'')
      (str ''30'') (example_db example_row) =
      (Inr None, example_db (example_row\<lparr>status := Expired\<rparr>))"
    by (simp add: decrementRemainingAmount_def getMultiSettleSignatureById_def example_db_def
        example_row_def update_signatures_def)
  show ?thesis
    using settle_not_reserved [OF c d] by (simp add: example_row_def)
qed

theorem reserve_before_chain_calls_witness:
  "settle example_env example_facilitator (str ''a1'') (str ''0xB0B'') (str ''30'')
     (example_db example_row) =
   (\<lparr>res_code = 200, res_success = True, res_errorMessage = None,
      res_transactionHash = Some (str ''0xtx''), res_remainingAmount = Some (str ''70''),
      res_network = Some (str ''base'')\<rparr>,
    settled_db,
    [(Reserve True, reserved_db), (CreateSettlement Pending True, pending_db),
     (Deposit, pending_db), (action.MarkDeposited, deposited_db), (CheckBalance, deposited_db),
     (Transfer, deposited_db), (UpdateSettlement Success, settled_db)])
   \<and> getMultiSettleSettlementById reserved_db (str ''s1'') = None
   \<and> reserved_and_pending pending_db (str ''a1'') (example_row\<lparr>remaining_amount := str ''70''\<rparr>)
        (str ''s1'') example_settlement
   \<and> reserved_and_pending deposited_db (str ''a1'') (example_row\<lparr>remaining_amount := str ''70''\<rparr>)
        (str ''s1'') example_settlement
   \<and> settled_with settled_db (str ''a1'') (example_row\<lparr>remaining_amount := str ''70''\<rparr>)
        (str ''s1'') example_settlement
   \<and> fst (decrementRemainingAmount 1001 (str ''a1'') (str ''30'') (example_db example_row)) = Inr None
   \<and> settle (example_env\<lparr>now_reserve := 1001\<rparr>) example_facilitator (str ''a1'') (str ''0xB0B'')
        (str ''30'') (example_db example_row) =
      (settle_error 400
         (Some (str ''Failed to reserve amount - insufficient balance or authorization is no longer active''))
         (Some (str ''100'')) None,
       example_db (example_row\<lparr>status := Expired\<rparr>),
       [(Reserve False, example_db (example_row\<lparr>status := Expired\<rparr>))])
   \<and> multisettle_settlements (example_db (example_row\<lparr>status := Expired\<rparr>)) =
       multisettle_settlements (example_db example_row)"
proof -
  let ?db = "example_db example_row"
  let ?upd = "example_row\<lparr>remaining_amount := str ''70''\<rparr>"
  let ?late = "example_env\<lparr>now_reserve := 1001\<rparr>"
  have d: "decrementRemainingAmount (now_reserve example_env) (str ''a1'') (str ''30'') ?db =
       (Inr (Some ?upd), reserved_db)"
    using example_reserve_30 by (simp add: example_env_def reserved_db_def)
  have p: "createMultiSettleSettlement (settle_toLowerCase example_env) (settlement_id example_env)
        (str ''a1'') (fac_id example_facilitator) (str ''0xB0B'') (str ''30'') None Pending None
        reserved_db = (Some example_settlement, pending_db)"
    using example_pending [of ?upd]
    by (simp add: example_env_def example_facilitator_def reserved_db_def pending_db_def)
  have sid: "settlement_id example_env = str ''s1''" by (simp add: example_env_def)
  note t1 = reserve_before_chain_calls [OF example_settle, of reserved_db]
  have "\<exists>upd db1 stl db2.
      decrementRemainingAmount (now_reserve example_env) (str ''a1'') (str ''30'') ?db =
        (Inr (Some upd), db1)
    \<and> createMultiSettleSettlement (settle_toLowerCase example_env) (settlement_id example_env)
        (str ''a1'') (fac_id example_facilitator) (str ''0xB0B'') (str ''30'') None Pending None db1 =
        (Some stl, db2)
    \<and> getMultiSettleSettlementById db1 (settlement_id example_env) = None
    \<and> reserved_and_pending db2 (str ''a1'') upd (settlement_id example_env) stl
    \<and> list_all (\<lambda>e. reserved_and_pending (snd e) (str ''a1'') upd (settlement_id example_env) stl)
         [(Deposit, pending_db), (CheckBalance, deposited_db), (Transfer, deposited_db)]
    \<and> settled_with settled_db (str ''a1'') upd (settlement_id example_env) stl"
    using t1 by auto
  then obtain upd db1 stl db2 where o:
    "decrementRemainingAmount (now_reserve example_env) (str ''a1'') (str ''30'') ?db =
        (Inr (Some upd), db1)"
    "createMultiSettleSettlement (settle_toLowerCase example_env) (settlement_id example_env)
        (str ''a1'') (fac_id example_facilitator) (str ''0xB0B'') (str ''30'') None Pending None db1 =
        (Some stl, db2)"
    "getMultiSettleSettlementById db1 (settlement_id example_env) = None"
    "reserved_and_pending db2 (str ''a1'') upd (settlement_id example_env) stl"
    "list_all (\<lambda>e. reserved_and_pending (snd e) (str ''a1'') upd (settlement_id example_env) stl)
         [(Deposit, pending_db), (CheckBalance, deposited_db), (Transfer, deposited_db)]"
    "settled_with settled_db (str ''a1'') upd (settlement_id example_env) stl"
    by blast
  have u: "upd = ?upd" "db1 = reserved_db" using o(1) d by simp_all
  have v: "stl = example_settlement" "db2 = pending_db" using o(2) p unfolding u by simp_all
  have main: "getMultiSettleSettlementById reserved_db (str ''s1'') = None
    \<and> reserved_and_pending pending_db (str ''a1'') ?upd (str ''s1'') example_settlement
    \<and> reserved_and_pending deposited_db (str ''a1'') ?upd (str ''s1'') example_settlement
    \<and> settled_with settled_db (str ''a1'') ?upd (str ''s1'') example_settlement"
    using o(3,4,5,6) unfolding u v sid by simp
  have e: "fst (decrementRemainingAmount (now_reserve ?late) (str ''a1'') (str ''30'') ?db) = Inr None"
    by (simp add: decrementRemainingAmount_def getMultiSettleSignatureById_def example_db_def
        example_row_def)
  note t2 = reserve_before_chain_calls [OF example_late_settle, of reserved_db]
  from t2 e have late: "multisettle_settlements (example_db (example_row\<lparr>status := Expired\<rparr>)) =
       multisettle_settlements ?db"
    by blast
  show ?thesis using example_settle example_late_settle main e late by simp
qed

section \<open>C5: a chain failure after the reservation\<close>

lemma kept_after_update:
  assumes "getMultiSettleSettlementById dbT sid = Some stl" "stl_id stl = sid"
    "error_message stl = None" "getMultiSettleSignatureById dbT i = Some u"
    "remaining_amount u = rem"
  shows "reservation_kept
           (settle_error code m (Some rem) net,
            snd (updateMultiSettleSettlementStatus sid Failed None em dbT), tr) i sid rem em"
  using assms
  by (cases em)
     (simp_all add: reservation_kept_def settle_error_def update_settlement_lookup
       update_settlement_signatures written_settlement_def)

lemma settle_try_deposited:
  "deposit_done env sg \<Longrightarrow>
   settle_try env chainId sg upd stl i a db2 =
     settle_transfer env chainId sg upd stl a
       (if deposited sg = 0
        then [(Deposit, db2), (action.MarkDeposited, snd (markSignatureDeposited i db2))] else [])
       (if deposited sg = 0 then snd (markSignatureDeposited i db2) else db2)"
  by (auto simp: settle_try_def deposit_done_def Let_def split: option.splits outcome.splits)

lemma reservation_kept_log:
  "reservation_kept (res, d, l) i sid rem msg \<Longrightarrow> reservation_kept (res, d, l') i sid rem msg"
  by (simp add: reservation_kept_def)

text \<open>
  C5. After a successful reservation (the checks passed, the reserve call returned the
  updated record, the pending settlement record was inserted): if the deposit returns a
  failure or throws, or the balance check reports too little, or the transfer fails, then
  the settlement record is failed with the error message of that step, the authorization still
  has the decremented remaining amount, and the failure response reports that amount.
\<close>

theorem failure_keeps_reservation:
  assumes "settle_checks env fac i a db = Inr (sg, chainId, privateKey, address)"
    and "decrementRemainingAmount (now_reserve env) i a db = (Inr (Some upd), db1)"
    and "createMultiSettleSettlement (settle_toLowerCase env) (settlement_id env) i (fac_id fac)
           payTo a None Pending None db1 = (Some stl, db2)"
  shows "(\<exists>r n. BigInt (remaining_amount sg) = Some r \<and> BigInt a = Some n \<and> 0 < n
            \<and> BigInt (remaining_amount upd) = Some (r - n))
    \<and> (deposited sg = 0 \<and> extractAuthorization env (payment_payload sg) = Some authDetails
        \<and> deposit_outcome env = Returns depositResult \<and> \<not> cr_success depositResult \<longrightarrow>
        reservation_kept (settle env fac i payTo a db) i (settlement_id env)
          (remaining_amount upd) (cr_errorMessage depositResult))
    \<and> (deposited sg = 0 \<and> extractAuthorization env (payment_payload sg) = Some authDetails
        \<and> deposit_outcome env = Throws m \<longrightarrow>
        reservation_kept (settle env fac i payTo a db) i (settlement_id env)
          (remaining_amount upd)
          (Some (case m of Some msg \<Rightarrow> msg | None \<Rightarrow> str ''Settlement execution failed'')))
    \<and> (deposit_done env sg \<and> \<not> fst (checkFacilitatorBalance chainId a (balance_outcome env)) \<longrightarrow>
        reservation_kept (settle env fac i payTo a db) i (settlement_id env)
          (remaining_amount upd)
          (Some (str ''Insufficient facilitator balance: ''
                   @ snd (checkFacilitatorBalance chainId a (balance_outcome env))
                   @ str '' < '' @ a)))
    \<and> (deposit_done env sg \<and> fst (checkFacilitatorBalance chainId a (balance_outcome env))
        \<and> \<not> cr_success (transferTokens chainId (transfer_outcome env)) \<longrightarrow>
        reservation_kept (settle env fac i payTo a db) i (settlement_id env)
          (remaining_amount upd) (cr_errorMessage (transferTokens chainId (transfer_outcome env))))"
proof -
  note c = settle_checks_Inr [OF assms(1)]
  note s = settle_reserved [OF assms]
  note st = create_settlement_Some [OF assms(3)]
  note look = decrement_Some_lookup [OF assms(2)]
  let ?sid = "settlement_id env"
  let ?block = "settle_try env chainId sg upd stl i a db2"
  have stl: "stl_id stl = ?sid" "error_message stl = None"
    using st(1) by (simp_all add: or_null_def)
  have sg2: "getMultiSettleSignatureById db2 i = Some upd"
    using look(1) st(3) by (simp add: getMultiSettleSignatureById_def)
  have stl2: "getMultiSettleSettlementById db2 ?sid = Some stl" by (rule st(4))
  let ?dbT = "if deposited sg = 0 then snd (markSignatureDeposited i db2) else db2"
  have sgT: "\<exists>u. getMultiSettleSignatureById ?dbT i = Some u \<and> remaining_amount u = remaining_amount upd"
    using sg2 by (simp add: mark_deposited_lookup)
  have stlT: "getMultiSettleSettlementById ?dbT ?sid = Some stl"
    using stl2 by (simp add: mark_deposited_settlements)
  have whole: "reservation_kept (settle env fac i payTo a db) i ?sid rem msg"
    if "fst ?block = r" "fst (snd ?block) = d" "reservation_kept (r, d, l') i ?sid rem msg"
    for r d rem msg l'
    unfolding s that(1,2) using that(3) by (rule reservation_kept_log)
  have amounts: "\<exists>r n. BigInt (remaining_amount sg) = Some r \<and> BigInt a = Some n \<and> 0 < n
            \<and> BigInt (remaining_amount upd) = Some (r - n)"
  proof -
    obtain sg' r n where d: "getMultiSettleSignatureById db i = Some sg'"
      "BigInt (remaining_amount sg') = Some r" "BigInt a = Some n" "upd = reserved_row r n sg'"
      using decrement_Some [OF assms(2)] by blast
    have "sg' = sg" using d(1) c(1) by simp
    moreover have "0 < n" using c(5) d(3) by auto
    ultimately show ?thesis using d by (auto simp: reserved_row_def BigInt_bigintToString)
  qed
  have A: "reservation_kept (settle env fac i payTo a db) i ?sid (remaining_amount upd)
          (cr_errorMessage depositResult)"
    if "deposited sg = 0" "extractAuthorization env (payment_payload sg) = Some authDetails"
      "deposit_outcome env = Returns depositResult" "\<not> cr_success depositResult"
  proof -
    have e: "fst ?block = settle_error 400
           (Some (str ''Failed to deposit funds: '' @ interpolate (cr_errorMessage depositResult)))
           (Some (remaining_amount upd)) (Some (network sg))"
      "fst (snd ?block) = snd (updateMultiSettleSettlementStatus ?sid Failed None
             (cr_errorMessage depositResult) db2)"
      using that by (simp_all add: settle_try_def Let_def stl)
    show ?thesis
      by (rule whole [OF e kept_after_update [OF stl2 stl sg2 refl]])
  qed
  have A': "reservation_kept (settle env fac i payTo a db) i ?sid (remaining_amount upd)
          (Some (case m of Some msg \<Rightarrow> msg | None \<Rightarrow> str ''Settlement execution failed''))"
    if "deposited sg = 0" "extractAuthorization env (payment_payload sg) = Some authDetails"
      "deposit_outcome env = Throws m"
  proof -
    have e: "fst ?block = settle_error 500
           (Some (case m of Some msg \<Rightarrow> msg | None \<Rightarrow> str ''Settlement execution failed''))
           (Some (remaining_amount upd)) (Some (network sg))"
      "fst (snd ?block) = snd (updateMultiSettleSettlementStatus ?sid Failed None
             (Some (case m of Some msg \<Rightarrow> msg | None \<Rightarrow> str ''Settlement execution failed'')) db2)"
      using that by (simp_all add: settle_try_def Let_def stl)
    show ?thesis
      by (rule whole [OF e kept_after_update [OF stl2 stl sg2 refl]])
  qed
  obtain u where u: "getMultiSettleSignatureById ?dbT i = Some u"
    "remaining_amount u = remaining_amount upd"
    using sgT by blast
  have B: "reservation_kept (settle env fac i payTo a db) i ?sid (remaining_amount upd)
          (Some (str ''Insufficient facilitator balance: ''
                   @ snd (checkFacilitatorBalance chainId a (balance_outcome env))
                   @ str '' < '' @ a))"
    if "deposit_done env sg" "\<not> fst (checkFacilitatorBalance chainId a (balance_outcome env))"
  proof -
    have e: "fst ?block = settle_error 400 (Some (str ''Facilitator has insufficient balance for transfer''))
           (Some (remaining_amount upd)) (Some (network sg))"
      "fst (snd ?block) = snd (updateMultiSettleSettlementStatus ?sid Failed None
                (Some (str ''Insufficient facilitator balance: ''
                   @ snd (checkFacilitatorBalance chainId a (balance_outcome env))
                   @ str '' < '' @ a)) ?dbT)"
      using that by (simp_all add: settle_try_deposited settle_transfer_def Let_def stl)
    show ?thesis
      by (rule whole [OF e kept_after_update [OF stlT stl u]])
  qed
  have C: "reservation_kept (settle env fac i payTo a db) i ?sid (remaining_amount upd)
          (cr_errorMessage (transferTokens chainId (transfer_outcome env)))"
    if "deposit_done env sg" "fst (checkFacilitatorBalance chainId a (balance_outcome env))"
      "\<not> cr_success (transferTokens chainId (transfer_outcome env))"
  proof -
    have e: "fst ?block = settle_error 400 (cr_errorMessage (transferTokens chainId (transfer_outcome env)))
           (Some (remaining_amount upd)) (Some (network sg))"
      "fst (snd ?block) = snd (updateMultiSettleSettlementStatus ?sid Failed None
                (cr_errorMessage (transferTokens chainId (transfer_outcome env))) ?dbT)"
      using that by (simp_all add: settle_try_deposited settle_transfer_def Let_def stl)
    show ?thesis
      by (rule whole [OF e kept_after_update [OF stlT stl u]])
  qed
  show ?thesis using amounts A A' B C by blast
qed

lemma example_inherited_checks:
  "settle_checks example_env example_facilitator (str ''a1'') (str ''30'') (example_db inherited_row) =
     Inr (inherited_row, PrototypeMember (str ''toString''), str ''key'', str ''0xFAC'')"
  by (simp add: settle_checks_def example_facilitator_def example_db_def inherited_row_def
      example_row_def getMultiSettleSignatureById_def BigInt_examples networkToChainId_def
      objectPrototypeKeys_def or_null_def example_env_def)

lemma example_inherited_reserve:
  "decrementRemainingAmount 10 (str ''a1'') (str ''30'') (example_db inherited_row) =
     (Inr (Some (inherited_row\<lparr>remaining_amount := str ''70''\<rparr>)),
      example_db (inherited_row\<lparr>remaining_amount := str ''70''\<rparr>))"
  by (simp add: decrementRemainingAmount_def getMultiSettleSignatureById_def example_db_def
      inherited_row_def example_row_def BigInt_examples bigintToString_examples
      update_signatures_def Let_def)

theorem failure_keeps_reservation_witness:
  "settle_checks failing_deposit_env example_facilitator (str ''a1'') (str ''30'')
      (example_db example_row) = Inr (example_row, ChainNumber 8453, str ''key'', str ''0xFAC'')
   \<and> decrementRemainingAmount (now_reserve failing_deposit_env) (str ''a1'') (str ''30'')
        (example_db example_row) =
       (Inr (Some (example_row\<lparr>remaining_amount := str ''70''\<rparr>)), reserved_db)
   \<and> createMultiSettleSettlement (settle_toLowerCase failing_deposit_env)
        (settlement_id failing_deposit_env) (str ''a1'') (fac_id example_facilitator)
        (str ''0xB0B'') (str ''30'') None Pending None reserved_db =
       (Some example_settlement, pending_db)
   \<and> deposited example_row = 0
   \<and> extractAuthorization failing_deposit_env (payment_payload example_row) = Some example_details
   \<and> deposit_outcome failing_deposit_env =
       Returns \<lparr>cr_success = False, cr_transactionHash = None,
                cr_errorMessage = Some (str ''authorization is used or canceled'')\<rparr>
   \<and> reservation_kept
        (settle failing_deposit_env example_facilitator (str ''a1'') (str ''0xB0B'') (str ''30'')
           (example_db example_row))
        (str ''a1'') (str ''s1'') (str ''70'') (Some (str ''authorization is used or canceled''))
   \<and> deposit_done failing_transfer_env example_row
   \<and> fst (checkFacilitatorBalance (ChainNumber 8453) (str ''30'') (balance_outcome failing_transfer_env))
   \<and> \<not> cr_success (transferTokens (ChainNumber 8453) (transfer_outcome failing_transfer_env))
   \<and> reservation_kept
        (settle failing_transfer_env example_facilitator (str ''a1'') (str ''0xB0B'') (str ''30'')
           (example_db example_row))
        (str ''a1'') (str ''s1'') (str ''70'') (Some (str ''Transaction reverted''))
   \<and> settle_checks example_env example_facilitator (str ''a1'') (str ''30'')
        (example_db inherited_row) =
       Inr (inherited_row, PrototypeMember (str ''toString''), str ''key'', str ''0xFAC'')
   \<and> deposit_done example_env inherited_row
   \<and> checkFacilitatorBalance (PrototypeMember (str ''toString'')) (str ''30'')
        (balance_outcome example_env) = (False, str ''0'')
   \<and> reservation_kept
        (settle example_env example_facilitator (str ''a1'') (str ''0xB0B'') (str ''30'')
           (example_db inherited_row))
        (str ''a1'') (str ''s1'') (str ''70'')
        (Some (str ''Insufficient facilitator balance: '' @ str ''0'' @ str '' < '' @ str ''30''))"
proof -
  let ?db = "example_db example_row"
  have c: "settle_checks env example_facilitator (str ''a1'') (str ''30'') ?db =
      Inr (example_row, ChainNumber 8453, str ''key'', str ''0xFAC'')"
    if "env = failing_deposit_env \<or> env = failing_transfer_env" for env
    using that
    by (intro example_checks_pass)
       (auto simp: failing_deposit_env_def failing_transfer_env_def example_env_def)
  have d: "decrementRemainingAmount (now_reserve env) (str ''a1'') (str ''30'') ?db =
       (Inr (Some (example_row\<lparr>remaining_amount := str ''70''\<rparr>)), reserved_db)"
    if "env = failing_deposit_env \<or> env = failing_transfer_env" for env
    using that example_reserve_30
    by (auto simp: failing_deposit_env_def failing_transfer_env_def example_env_def reserved_db_def)
  have p: "createMultiSettleSettlement (settle_toLowerCase env) (settlement_id env) (str ''a1'')
        (fac_id example_facilitator) (str ''0xB0B'') (str ''30'') None Pending None reserved_db =
       (Some example_settlement, pending_db)"
    if "env = failing_deposit_env \<or> env = failing_transfer_env \<or> env = example_env" for env
    using that example_pending [of "example_row\<lparr>remaining_amount := str ''70''\<rparr>"]
    by (auto simp: failing_deposit_env_def failing_transfer_env_def example_env_def
        example_facilitator_def reserved_db_def pending_db_def)
  have h1: "deposited example_row = 0"
    "extractAuthorization failing_deposit_env (payment_payload example_row) = Some example_details"
    "deposit_outcome failing_deposit_env =
       Returns \<lparr>cr_success = False, cr_transactionHash = None,
                cr_errorMessage = Some (str ''authorization is used or canceled'')\<rparr>"
    by (simp_all add: example_row_def failing_deposit_env_def example_env_def)
  have h2: "deposit_done failing_transfer_env example_row"
    "fst (checkFacilitatorBalance (ChainNumber 8453) (str ''30'') (balance_outcome failing_transfer_env))"
    "\<not> cr_success (transferTokens (ChainNumber 8453) (transfer_outcome failing_transfer_env))"
    "cr_errorMessage (transferTokens (ChainNumber 8453) (transfer_outcome failing_transfer_env)) =
       Some (str ''Transaction reverted'')"
    by (simp_all add: deposit_done_def failing_transfer_env_def example_env_def example_balance
        transferTokens_def chainConfigs_def)
  have h3: "deposit_done example_env inherited_row"
    "checkFacilitatorBalance (PrototypeMember (str ''toString'')) (str ''30'')
        (balance_outcome example_env) = (False, str ''0'')"
    by (simp_all add: deposit_done_def inherited_row_def checkFacilitatorBalance_def chainConfigs_def)
  have d3: "decrementRemainingAmount (now_reserve example_env) (str ''a1'') (str ''30'')
      (example_db inherited_row) =
     (Inr (Some (inherited_row\<lparr>remaining_amount := str ''70''\<rparr>)),
      example_db (inherited_row\<lparr>remaining_amount := str ''70''\<rparr>))"
    using example_inherited_reserve by (simp add: example_env_def)
  have p3: "createMultiSettleSettlement (settle_toLowerCase example_env) (settlement_id example_env)
        (str ''a1'') (fac_id example_facilitator) (str ''0xB0B'') (str ''30'') None Pending None
        (example_db (inherited_row\<lparr>remaining_amount := str ''70''\<rparr>)) =
       (Some example_settlement,
        \<lparr>multisettle_signatures = [inherited_row\<lparr>remaining_amount := str ''70''\<rparr>],
         multisettle_settlements = [example_settlement]\<rparr>)"
    using example_pending [of "inherited_row\<lparr>remaining_amount := str ''70''\<rparr>"]
    by (simp add: example_env_def example_facilitator_def)
  have 1: "reservation_kept
        (settle failing_deposit_env example_facilitator (str ''a1'') (str ''0xB0B'') (str ''30'') ?db)
        (str ''a1'') (str ''s1'') (str ''70'') (Some (str ''authorization is used or canceled''))"
    using failure_keeps_reservation [OF c [OF disjI1 [OF refl]] d [OF disjI1 [OF refl]]
        p [OF disjI1 [OF refl]], where authDetails = example_details
        and depositResult = "\<lparr>cr_success = False, cr_transactionHash = None,
          cr_errorMessage = Some (str ''authorization is used or canceled'')\<rparr>"] h1
    by (simp add: failing_deposit_env_def example_env_def)
  have 2: "reservation_kept
        (settle failing_transfer_env example_facilitator (str ''a1'') (str ''0xB0B'') (str ''30'') ?db)
        (str ''a1'') (str ''s1'') (str ''70'') (Some (str ''Transaction reverted''))"
    using failure_keeps_reservation [OF c [OF disjI2 [OF refl]] d [OF disjI2 [OF refl]]
        p [OF disjI2 [OF disjI1 [OF refl]]]] h2
    by (simp add: failing_transfer_env_def example_env_def)
  have 3: "reservation_kept
        (settle example_env example_facilitator (str ''a1'') (str ''0xB0B'') (str ''30'')
           (example_db inherited_row))
        (str ''a1'') (str ''s1'') (str ''70'')
        (Some (str ''Insufficient facilitator balance: '' @ str ''0'' @ str '' < '' @ str ''30''))"
    using failure_keeps_reservation [OF example_inherited_checks d3 p3] h3
    by (simp add: example_env_def)
  show ?thesis
    using c [OF disjI1 [OF refl]] d [OF disjI1 [OF refl]] p [OF disjI1 [OF refl]] h1 h2 h3
      example_inherited_checks 1 2 3
    by simp
qed

section \<open>C6: the life of a settlement record\<close>

lemma settlement_lookup_other:
  "j \<noteq> i \<Longrightarrow>
   getMultiSettleSettlementById (snd (updateMultiSettleSettlementStatus i st th em db)) j =
     getMultiSettleSettlementById db j"
proof (cases "getMultiSettleSettlementById db j")
  case None
  then show ?thesis by (simp add: update_settlement_lookup)
next
  case (Some stl)
  assume "j \<noteq> i"
  moreover have "stl_id stl = j"
    using Some by (auto simp: getMultiSettleSettlementById_def find_Some_iff)
  ultimately show ?thesis using Some by (simp add: update_settlement_lookup)
qed

lemma settle_frame:
  assumes s: "settle env fac i payTo a db = (res, dbF, l)"
    and old: "getMultiSettleSettlementById db j = Some old"
  shows "getMultiSettleSettlementById dbF j = Some old"
proof -
  let ?sid = "settlement_id env"
  have dec: "getMultiSettleSettlementById (snd (decrementRemainingAmount (now_reserve env) i a db)) j
      = Some old"
    using old settlement_lookup_same_table [OF decrement_settlements] by simp
  note shape = settle_log_shape [OF s]
  let ?D = "\<exists>sg chainId privateKey address upd db1 stl db2.
          settle_checks env fac i a db = Inr (sg, chainId, privateKey, address)
        \<and> decrementRemainingAmount (now_reserve env) i a db = (Inr (Some upd), db1)
        \<and> createMultiSettleSettlement (settle_toLowerCase env) (settlement_id env) i (fac_id fac)
            payTo a None Pending None db1 = (Some stl, db2)
        \<and> (res, dbF, l) =
            (fst (settle_try env chainId sg upd stl i a db2),
             fst (snd (settle_try env chainId sg upd stl i a db2)),
             [(Reserve True, db1), (CreateSettlement Pending True, db2)]
               @ snd (snd (settle_try env chainId sg upd stl i a db2)))"
  show ?thesis
  proof (cases ?D)
    case False
    then have "dbF = db \<or> dbF = snd (decrementRemainingAmount (now_reserve env) i a db)"
      using shape by auto
    then show ?thesis using old dec by auto
  next
    case True
    then obtain sg chainId privateKey address upd db1 stl db2 where
      d: "decrementRemainingAmount (now_reserve env) i a db = (Inr (Some upd), db1)"
      and cr: "createMultiSettleSettlement (settle_toLowerCase env) ?sid i (fac_id fac)
            payTo a None Pending None db1 = (Some stl, db2)"
      and out: "dbF = fst (snd (settle_try env chainId sg upd stl i a db2))"
      by auto
    note ac = after_create [OF d cr]
    note st = create_settlement_Some [OF cr]
    have ne: "j \<noteq> ?sid" using old ac(2) by auto
    have old1: "getMultiSettleSettlementById db1 j = Some old" using dec d by simp
    have old2: "getMultiSettleSettlementById db2 j = Some old"
      using old1 st(3) by (simp add: getMultiSettleSettlementById_def find_append_first)
    have tl: "try_log i ?sid db2 (settle_try env chainId sg upd stl i a db2)"
      using settle_try_log [of i stl db2 env chainId sg upd a] ac(4) by simp
    then obtain st' th em dT where f:
      "dbF = snd (updateMultiSettleSettlementStatus ?sid st' th em dT)"
      "dT = db2 \<or> dT = snd (markSignatureDeposited i db2)"
      unfolding try_log_def out by blast
    have "getMultiSettleSettlementById dT j = Some old"
      using f(2) old2 by (auto simp: mark_deposited_settlements)
    then show ?thesis unfolding f(1) using ne by (simp add: settlement_lookup_other)
  qed
qed

lemma authorize_settlements:
  "multisettle_settlements (snd (authorize env fac req db)) = multisettle_settlements db"
  by (auto simp: authorize_def createMultiSettleSignature_def Let_def
      split: outcome.splits option.splits if_splits prod.splits)

lemma revoke_settlements:
  "multisettle_settlements (snd (revoke fac i db)) = multisettle_settlements db"
  by (auto simp: revoke_def revokeMultiSettleSignature_def update_signatures_def split_beta
      split: option.splits if_splits)

text \<open>
  C6 (amended). \<open>updateMultiSettleSettlementStatus\<close> returns null exactly when no record has
  the id. On an existing record it writes the given status (and the hash and the message
  when given) whatever the status was: the store has no one-way guard. In the routes the
  life of a record is one-way all the same. In every execution of the settle handler, with
  the database and the log it returns: a settlement record is only ever inserted as pending,
  and when the insertion succeeds no record had that id before; every chain call is made in a
  database where the record is there and pending; the handler writes the status of the
  record at most once, as its last step, to success or failed, which gives the database it
  returns, and in every database logged between the insertion and that write the record is
  the pending record as inserted; and no call of settle, authorize or revoke writes a
  settlement record that was there before the call.
\<close>

theorem settlement_lifecycle:
  assumes "settle env fac i payTo a db = (res, dbF, l)"
  shows "(fst (updateMultiSettleSettlementStatus j st th em db) = None
            \<longleftrightarrow> getMultiSettleSettlementById db j = None)
    \<and> (getMultiSettleSettlementById db j = Some old \<longrightarrow>
          fst (updateMultiSettleSettlementStatus j st th em db) = Some (written_settlement st th em old)
        \<and> getMultiSettleSettlementById (snd (updateMultiSettleSettlementStatus j st th em db)) j =
            Some (written_settlement st th em old)
        \<and> stl_status (written_settlement st th em old) = st)
    \<and> ((CreateSettlement stC b, dC) \<in> set l \<longrightarrow>
          stC = Pending
        \<and> (b \<longrightarrow> getMultiSettleSettlementById db (settlement_id env) = None
                 \<and> map_option stl_status (getMultiSettleSettlementById dC (settlement_id env))
                     = Some Pending)
        \<and> (\<not> b \<longrightarrow> dC = dbF \<and> multisettle_settlements dbF = multisettle_settlements db))
    \<and> list_all (\<lambda>e. map_option stl_status (getMultiSettleSettlementById (snd e) (settlement_id env))
                       = Some Pending) (chain_calls l)
    \<and> ((UpdateSettlement stU, dU) \<in> set l \<longrightarrow>
          stU \<noteq> Pending \<and> dU = dbF
        \<and> (\<exists>db1 db2 mid stl thU emU.
              l = (Reserve True, db1) # (CreateSettlement Pending True, db2) # mid
                    @ [(UpdateSettlement stU, dbF)]
            \<and> getMultiSettleSettlementById db1 (settlement_id env) = None
            \<and> stl_status stl = Pending
            \<and> getMultiSettleSettlementById db2 (settlement_id env) = Some stl
            \<and> list_all (\<lambda>e. (is_chain_call (fst e) \<or> fst e = action.MarkDeposited)
                             \<and> getMultiSettleSettlementById (snd e) (settlement_id env) = Some stl) mid
            \<and> getMultiSettleSettlementById dbF (settlement_id env) =
                Some (written_settlement stU thU emU stl)))
    \<and> (getMultiSettleSettlementById db j = Some old \<longrightarrow>
          getMultiSettleSettlementById dbF j = Some old)
    \<and> multisettle_settlements (snd (authorize aenv fac req db)) = multisettle_settlements db
    \<and> multisettle_settlements (snd (revoke fac i db)) = multisettle_settlements db"
proof -
  let ?sid = "settlement_id env"
  note shape = settle_log_shape [OF assms]
  let ?A = "l = [] \<and> \<not> res_success res
      \<and> (dbF = db \<or> dbF = snd (decrementRemainingAmount (now_reserve env) i a db))"
  let ?B = "l = [(Reserve False, dbF)] \<and> \<not> res_success res
        \<and> decrementRemainingAmount (now_reserve env) i a db = (Inr None, dbF)"
  let ?C = "\<exists>upd db1. l = [(Reserve True, db1), (CreateSettlement Pending False, dbF)] \<and> dbF = db1
          \<and> \<not> res_success res
          \<and> decrementRemainingAmount (now_reserve env) i a db = (Inr (Some upd), db1)"
  let ?D = "\<exists>sg chainId privateKey address upd db1 stl db2.
          settle_checks env fac i a db = Inr (sg, chainId, privateKey, address)
        \<and> decrementRemainingAmount (now_reserve env) i a db = (Inr (Some upd), db1)
        \<and> createMultiSettleSettlement (settle_toLowerCase env) (settlement_id env) i (fac_id fac)
            payTo a None Pending None db1 = (Some stl, db2)
        \<and> (res, dbF, l) =
            (fst (settle_try env chainId sg upd stl i a db2),
             fst (snd (settle_try env chainId sg upd stl i a db2)),
             [(Reserve True, db1), (CreateSettlement Pending True, db2)]
               @ snd (snd (settle_try env chainId sg upd stl i a db2)))"
  let ?route = "((CreateSettlement stC b, dC) \<in> set l \<longrightarrow>
          stC = Pending
        \<and> (b \<longrightarrow> getMultiSettleSettlementById db ?sid = None
                 \<and> map_option stl_status (getMultiSettleSettlementById dC ?sid) = Some Pending)
        \<and> (\<not> b \<longrightarrow> dC = dbF \<and> multisettle_settlements dbF = multisettle_settlements db))
    \<and> list_all (\<lambda>e. map_option stl_status (getMultiSettleSettlementById (snd e) ?sid)
                       = Some Pending) (chain_calls l)
    \<and> ((UpdateSettlement stU, dU) \<in> set l \<longrightarrow>
          stU \<noteq> Pending \<and> dU = dbF
        \<and> (\<exists>db1 db2 mid stl thU emU.
              l = (Reserve True, db1) # (CreateSettlement Pending True, db2) # mid
                    @ [(UpdateSettlement stU, dbF)]
            \<and> getMultiSettleSettlementById db1 ?sid = None
            \<and> stl_status stl = Pending
            \<and> getMultiSettleSettlementById db2 ?sid = Some stl
            \<and> list_all (\<lambda>e. (is_chain_call (fst e) \<or> fst e = action.MarkDeposited)
                             \<and> getMultiSettleSettlementById (snd e) ?sid = Some stl) mid
            \<and> getMultiSettleSettlementById dbF ?sid = Some (written_settlement stU thU emU stl)))"
  have route: ?route
  proof -
    from shape consider (A) ?A | (B) ?B | (C) ?C | (D) ?D by blast
    then show ?thesis
    proof cases
      case A
      then show ?thesis by simp
    next
      case B
      then show ?thesis by simp
    next
      case C
      then show ?thesis using decrement_settlements [of "now_reserve env" i a db] by auto
    next
      case D
      then obtain sg chainId privateKey address upd db1 stl db2 where
        d: "decrementRemainingAmount (now_reserve env) i a db = (Inr (Some upd), db1)"
        and cr: "createMultiSettleSettlement (settle_toLowerCase env) ?sid i (fac_id fac)
              payTo a None Pending None db1 = (Some stl, db2)"
        and out: "dbF = fst (snd (settle_try env chainId sg upd stl i a db2))"
          "l = (Reserve True, db1) # (CreateSettlement Pending True, db2)
                 # snd (snd (settle_try env chainId sg upd stl i a db2))"
        by auto
      let ?dM = "snd (markSignatureDeposited i db2)"
      note ac = after_create [OF d cr]
      have tl: "try_log i ?sid db2 (settle_try env chainId sg upd stl i a db2)"
        using settle_try_log [of i stl db2 env chainId sg upd a] ac(4) by simp
      then obtain pre st' th' em' dT where t:
        "snd (snd (settle_try env chainId sg upd stl i a db2)) = pre @ [(UpdateSettlement st', dbF)]"
        "st' \<noteq> Pending"
        "dbF = snd (updateMultiSettleSettlementStatus ?sid st' th' em' dT)"
        "dT = db2 \<or> dT = ?dM"
        "list_all (\<lambda>e. (fst e = Deposit \<or> fst e = action.MarkDeposited \<or> fst e = CheckBalance
                         \<or> fst e = Transfer)
                      \<and> (snd e = db2 \<or> snd e = ?dM)) pre"
        unfolding try_log_def out(1) by blast
      have g2: "getMultiSettleSettlementById db2 ?sid = Some stl"
        and gM: "getMultiSettleSettlementById ?dM ?sid = Some stl"
        using ac(9,10) by (simp_all add: reserved_and_pending_def)
      have pend: "stl_status stl = Pending" by (rule ac(7))
      have gT: "getMultiSettleSettlementById dT ?sid = Some stl" using t(4) g2 gM by blast
      have gF: "getMultiSettleSettlementById dbF ?sid = Some (written_settlement st' th' em' stl)"
        unfolding t(3) using gT ac(4) by (simp add: update_settlement_lookup)
      have mid: "list_all (\<lambda>e. (is_chain_call (fst e) \<or> fst e = action.MarkDeposited)
                             \<and> getMultiSettleSettlementById (snd e) ?sid = Some stl) pre"
        unfolding list_all_iff
      proof
        fix e assume "e \<in> set pre"
        then have e: "fst e = Deposit \<or> fst e = action.MarkDeposited \<or> fst e = CheckBalance
            \<or> fst e = Transfer" "snd e = db2 \<or> snd e = ?dM"
          using t(5) unfolding list_all_iff by blast+
        have "is_chain_call (fst e) \<or> fst e = action.MarkDeposited"
          using e(1) by (elim disjE) simp_all
        moreover have "getMultiSettleSettlementById (snd e) ?sid = Some stl"
          using e(2) by (elim disjE) (simp_all add: g2 gM)
        ultimately show "(is_chain_call (fst e) \<or> fst e = action.MarkDeposited)
            \<and> getMultiSettleSettlementById (snd e) ?sid = Some stl" by (rule conjI)
      qed
      have l: "l = (Reserve True, db1) # (CreateSettlement Pending True, db2) # pre
                 @ [(UpdateSettlement st', dbF)]"
        using out(2) t(1) by simp
      have labels: "(CreateSettlement x y, z) \<notin> set pre" "(UpdateSettlement x, z) \<notin> set pre"
        for x y z
      proof -
        have "fst e = Deposit \<or> fst e = action.MarkDeposited \<or> fst e = CheckBalance
            \<or> fst e = Transfer" if "e \<in> set pre" for e
          using t(5) that unfolding list_all_iff by blast
        from this [of "(CreateSettlement x y, z)"] this [of "(UpdateSettlement x, z)"]
        show "(CreateSettlement x y, z) \<notin> set pre" "(UpdateSettlement x, z) \<notin> set pre"
          by auto
      qed
      have 1: "(CreateSettlement stC b, dC) \<in> set l \<longrightarrow>
          stC = Pending
        \<and> (b \<longrightarrow> getMultiSettleSettlementById db ?sid = None
                 \<and> map_option stl_status (getMultiSettleSettlementById dC ?sid) = Some Pending)
        \<and> (\<not> b \<longrightarrow> dC = dbF \<and> multisettle_settlements dbF = multisettle_settlements db)"
      proof
        assume "(CreateSettlement stC b, dC) \<in> set l"
        then have "stC = Pending \<and> b \<and> dC = db2"
          unfolding l using labels(1) [of stC b dC] by simp
        then show "stC = Pending
        \<and> (b \<longrightarrow> getMultiSettleSettlementById db ?sid = None
                 \<and> map_option stl_status (getMultiSettleSettlementById dC ?sid) = Some Pending)
        \<and> (\<not> b \<longrightarrow> dC = dbF \<and> multisettle_settlements dbF = multisettle_settlements db)"
          using ac(2) g2 pend by simp
      qed
      have "\<forall>e\<in>set (chain_calls pre).
          map_option stl_status (getMultiSettleSettlementById (snd e) ?sid) = Some Pending"
      proof
        fix e assume "e \<in> set (chain_calls pre)"
        then have "e \<in> set pre" using chain_calls_subset [of pre] by blast
        then have "getMultiSettleSettlementById (snd e) ?sid = Some stl"
          using mid unfolding list_all_iff by blast
        then show "map_option stl_status (getMultiSettleSettlementById (snd e) ?sid) = Some Pending"
          using pend by simp
      qed
      then have 2: "list_all (\<lambda>e. map_option stl_status (getMultiSettleSettlementById (snd e) ?sid)
                       = Some Pending) (chain_calls l)"
        unfolding l by (simp add: list_all_iff)
      have 3: "(UpdateSettlement stU, dU) \<in> set l \<longrightarrow>
          stU \<noteq> Pending \<and> dU = dbF
        \<and> (\<exists>db1 db2 mid stl thU emU.
              l = (Reserve True, db1) # (CreateSettlement Pending True, db2) # mid
                    @ [(UpdateSettlement stU, dbF)]
            \<and> getMultiSettleSettlementById db1 ?sid = None
            \<and> stl_status stl = Pending
            \<and> getMultiSettleSettlementById db2 ?sid = Some stl
            \<and> list_all (\<lambda>e. (is_chain_call (fst e) \<or> fst e = action.MarkDeposited)
                             \<and> getMultiSettleSettlementById (snd e) ?sid = Some stl) mid
            \<and> getMultiSettleSettlementById dbF ?sid = Some (written_settlement stU thU emU stl))"
      proof
        assume "(UpdateSettlement stU, dU) \<in> set l"
        then have e: "stU = st'" "dU = dbF" unfolding l using labels(2) [of stU dU] by simp_all
        have "\<exists>db1 db2 mid stl thU emU.
              l = (Reserve True, db1) # (CreateSettlement Pending True, db2) # mid
                    @ [(UpdateSettlement stU, dbF)]
            \<and> getMultiSettleSettlementById db1 ?sid = None
            \<and> stl_status stl = Pending
            \<and> getMultiSettleSettlementById db2 ?sid = Some stl
            \<and> list_all (\<lambda>e. (is_chain_call (fst e) \<or> fst e = action.MarkDeposited)
                             \<and> getMultiSettleSettlementById (snd e) ?sid = Some stl) mid
            \<and> getMultiSettleSettlementById dbF ?sid = Some (written_settlement stU thU emU stl)"
          by (rule exI [of _ db1], rule exI [of _ db2], rule exI [of _ pre], rule exI [of _ stl],
              rule exI [of _ th'], rule exI [of _ em'])
             (use l e(1) ac(3) pend g2 mid gF in simp)
        then show "stU \<noteq> Pending \<and> dU = dbF
        \<and> (\<exists>db1 db2 mid stl thU emU.
              l = (Reserve True, db1) # (CreateSettlement Pending True, db2) # mid
                    @ [(UpdateSettlement stU, dbF)]
            \<and> getMultiSettleSettlementById db1 ?sid = None
            \<and> stl_status stl = Pending
            \<and> getMultiSettleSettlementById db2 ?sid = Some stl
            \<and> list_all (\<lambda>e. (is_chain_call (fst e) \<or> fst e = action.MarkDeposited)
                             \<and> getMultiSettleSettlementById (snd e) ?sid = Some stl) mid
            \<and> getMultiSettleSettlementById dbF ?sid = Some (written_settlement stU thU emU stl))"
          using e t(2) by simp
      qed
      show ?thesis by (intro conjI) (rule 1 2 3)+
    qed
  qed
  have store1: "fst (updateMultiSettleSettlementStatus j st th em db) = None
            \<longleftrightarrow> getMultiSettleSettlementById db j = None"
    by (simp add: update_settlement_result)
  have store2: "getMultiSettleSettlementById db j = Some old \<longrightarrow>
          fst (updateMultiSettleSettlementStatus j st th em db) = Some (written_settlement st th em old)
        \<and> getMultiSettleSettlementById (snd (updateMultiSettleSettlementStatus j st th em db)) j =
            Some (written_settlement st th em old)
        \<and> stl_status (written_settlement st th em old) = st"
  proof
    assume g: "getMultiSettleSettlementById db j = Some old"
    then have id: "stl_id old = j"
      by (auto simp: getMultiSettleSettlementById_def find_Some_iff)
    show "fst (updateMultiSettleSettlementStatus j st th em db) = Some (written_settlement st th em old)
        \<and> getMultiSettleSettlementById (snd (updateMultiSettleSettlementStatus j st th em db)) j =
            Some (written_settlement st th em old)
        \<and> stl_status (written_settlement st th em old) = st"
      using g id
      by (simp add: update_settlement_result update_settlement_lookup written_settlement_def)
  qed
  have frame: "getMultiSettleSettlementById db j = Some old \<longrightarrow>
          getMultiSettleSettlementById dbF j = Some old"
    using settle_frame [OF assms] by blast
  note c1 = route [THEN conjunct1]
  note c2 = route [THEN conjunct2, THEN conjunct1]
  note c3 = route [THEN conjunct2, THEN conjunct2]
  show ?thesis
    by (intro conjI)
       (rule store1 store2 c1 c2 c3 frame authorize_settlements revoke_settlements)+
qed

lemma example_not_found:
  "settle example_env example_facilitator (str ''a1'') (str ''0xB0B'') (str ''30'')
     \<lparr>multisettle_signatures = [], multisettle_settlements = [example_settlement]\<rparr> =
   (settle_error 404 (Some (str ''Authorization not found'')) None None,
    \<lparr>multisettle_signatures = [], multisettle_settlements = [example_settlement]\<rparr>, [])"
  by (simp add: settle_def settle_checks_def getMultiSettleSignatureById_def)

theorem settlement_lifecycle_witness:
  "getMultiSettleSettlementById
     \<lparr>multisettle_signatures = [], multisettle_settlements = [example_settlement]\<rparr> (str ''s1'') =
     Some example_settlement
   \<and> fst (updateMultiSettleSettlementStatus (str ''s1'') Failed None (Some (str ''Transaction reverted''))
           \<lparr>multisettle_signatures = [], multisettle_settlements = [example_settlement]\<rparr>) =
       Some (example_settlement\<lparr>stl_status := Failed,
                                 error_message := Some (str ''Transaction reverted'')\<rparr>)
   \<and> getMultiSettleSettlementById (example_db example_row) (str ''s1'') = None
   \<and> fst (updateMultiSettleSettlementStatus (str ''s1'') Failed None None (example_db example_row)) = None
   \<and> settle example_env example_facilitator (str ''a1'') (str ''0xB0B'') (str ''30'')
        (example_db example_row) =
      (\<lparr>res_code = 200, res_success = True, res_errorMessage = None,
         res_transactionHash = Some (str ''0xtx''), res_remainingAmount = Some (str ''70''),
         res_network = Some (str ''base'')\<rparr>,
       settled_db,
       [(Reserve True, reserved_db), (CreateSettlement Pending True, pending_db),
        (Deposit, pending_db), (action.MarkDeposited, deposited_db), (CheckBalance, deposited_db),
        (Transfer, deposited_db), (UpdateSettlement Success, settled_db)])
   \<and> map_option stl_status (getMultiSettleSettlementById pending_db (str ''s1'')) = Some Pending
   \<and> map_option stl_status (getMultiSettleSettlementById deposited_db (str ''s1'')) = Some Pending
   \<and> map_option stl_status (getMultiSettleSettlementById settled_db (str ''s1'')) = Some Success"
proof -
  let ?one = "\<lparr>multisettle_signatures = [], multisettle_settlements = [example_settlement]\<rparr>"
  let ?db = "example_db example_row"
  have g: "getMultiSettleSettlementById ?one (str ''s1'') = Some example_settlement"
    by (simp add: getMultiSettleSettlementById_def example_settlement_def)
  have n: "getMultiSettleSettlementById ?db (str ''s1'') = None"
    by (simp add: getMultiSettleSettlementById_def example_db_def)
  have sid: "settlement_id example_env = str ''s1''" by (simp add: example_env_def)
  note t0 = settlement_lifecycle [OF example_not_found, where j = "str ''s1''" and st = Failed
      and th = None and em = "Some (str ''Transaction reverted'')" and old = example_settlement]
  have 1: "fst (updateMultiSettleSettlementStatus (str ''s1'') Failed None
        (Some (str ''Transaction reverted'')) ?one)
      = Some (written_settlement Failed None (Some (str ''Transaction reverted'')) example_settlement)"
    using t0 g by blast
  note t1 = settlement_lifecycle [OF example_settle, where j = "str ''s1''" and st = Failed
      and th = None and em = None and stC = Pending and b = True and dC = pending_db
      and stU = Success and dU = settled_db]
  have 2: "fst (updateMultiSettleSettlementStatus (str ''s1'') Failed None None ?db) = None"
    using t1 n by blast
  have 3: "list_all (\<lambda>e. map_option stl_status (getMultiSettleSettlementById (snd e) (str ''s1''))
                       = Some Pending)
             [(Deposit, pending_db), (CheckBalance, deposited_db), (Transfer, deposited_db)]"
    using t1 by (simp add: sid)
  have "\<exists>stl th2 em2. getMultiSettleSettlementById settled_db (str ''s1'') =
          Some (written_settlement Success th2 em2 stl)"
    using t1 by (simp add: sid) blast
  then have 4: "map_option stl_status (getMultiSettleSettlementById settled_db (str ''s1''))
      = Some Success"
    by (auto simp: written_settlement_def)
  show ?thesis
    using g n 1 2 3 4 example_settle by (simp add: written_settlement_def)
qed

text \<open>
  C6 as stated fails in the store: a record that has reached success is written again, and
  back to pending.
\<close>

theorem update_after_terminal_counterexample:
  "map_option stl_status (getMultiSettleSettlementById settled_db (str ''s1'')) = Some Success
   \<and> fst (updateMultiSettleSettlementStatus (str ''s1'') Pending None None settled_db) =
       Some (example_settlement\<lparr>stl_status := Pending, transaction_hash := Some (str ''0xtx'')\<rparr>)
   \<and> map_option stl_status
        (getMultiSettleSettlementById
           (snd (updateMultiSettleSettlementStatus (str ''s1'') Pending None None settled_db))
           (str ''s1'')) =
       Some Pending"
  by (simp add: updateMultiSettleSettlementStatus_def getMultiSettleSettlementById_def
      settled_db_def example_settlement_def Let_def)

section \<open>C7: authorizing the same nonce again\<close>

lemma authorize_existing:
  assumes "verification env = Returns (True, reason)"
    "extractAuthorizationFromPayload env (paymentPayload req) = Some authDetails"
    "getMultiSettleSignatureByNonce db (fac_id fac) (ad_nonce authDetails) = Some existing"
  shows "authorize env fac req db =
     (if status existing = Active
      then AuthorizeOk (sig_id existing) (cap_amount existing) (remaining_amount existing)
             (valid_until existing) (nonce existing) (deposited existing = 1)
      else AuthorizeError 400
             ((str ''Authorization with this nonce already exists and is '')
                @ status_name (status existing)), db)"
  using assms by (simp add: authorize_def)

lemma getByNonce_fields:
  "getMultiSettleSignatureByNonce db f n = Some r \<Longrightarrow> facilitator_id r = f \<and> nonce r = n"
  by (auto simp: getMultiSettleSignatureByNonce_def find_Some_iff)

lemma create_signature_Some:
  assumes "createMultiSettleSignature toLowerCase new_id data db = (Some sg, db')"
  shows "getMultiSettleSignatureById db new_id = None"
    and "getMultiSettleSignatureByNonce db (d_facilitator_id data) (d_nonce data) = None"
    and "sg = \<lparr>sig_id = new_id, facilitator_id = d_facilitator_id data, network = d_network data,
               asset = d_asset data, from_address = toLowerCase (d_from_address data),
               cap_amount = d_cap_amount data, remaining_amount = d_cap_amount data,
               valid_until = d_valid_until data, nonce = d_nonce data,
               signature = d_signature data, payment_payload = d_payment_payload data,
               status = Active, deposited = 0\<rparr>"
    and "db' = db\<lparr>multisettle_signatures := multisettle_signatures db @ [sg]\<rparr>"
    and "getMultiSettleSignatureById db' new_id = Some sg"
    and "getMultiSettleSignatureByNonce db' (d_facilitator_id data) (d_nonce data) = Some sg"
proof -
  let ?row = "\<lparr>sig_id = new_id, facilitator_id = d_facilitator_id data, network = d_network data,
               asset = d_asset data, from_address = toLowerCase (d_from_address data),
               cap_amount = d_cap_amount data, remaining_amount = d_cap_amount data,
               valid_until = d_valid_until data, nonce = d_nonce data,
               signature = d_signature data, payment_payload = d_payment_payload data,
               status = Active, deposited = 0\<rparr>"
  have nc: "\<not> signature_insert_conflict db ?row"
    using assms by (auto simp: createMultiSettleSignature_def Let_def split: if_splits)
  then show n1: "getMultiSettleSignatureById db new_id = None"
    and n2: "getMultiSettleSignatureByNonce db (d_facilitator_id data) (d_nonce data) = None"
    by (simp_all add: signature_insert_conflict_def)
  let ?db = "db\<lparr>multisettle_signatures := multisettle_signatures db @ [?row]\<rparr>"
  have l1: "getMultiSettleSignatureById ?db new_id = Some ?row"
    using n1 by (simp add: getMultiSettleSignatureById_def find_snoc_new)
  have l2: "getMultiSettleSignatureByNonce ?db (d_facilitator_id data) (d_nonce data) = Some ?row"
    using n2 by (simp add: getMultiSettleSignatureByNonce_def find_snoc_new)
  have "createMultiSettleSignature toLowerCase new_id data db = (Some ?row, ?db)"
    using nc l1 by (simp add: createMultiSettleSignature_def Let_def)
  then have "(Some sg, db') = (Some ?row, ?db)"
    by (rule trans [OF assms [symmetric]])
  then have e: "sg = ?row" "db' = ?db"
    by (metis prod.inject option.inject)+
  show "sg = ?row" by (rule e)
  show "db' = db\<lparr>multisettle_signatures := multisettle_signatures db @ [sg]\<rparr>"
    unfolding e by (rule refl)
  show "getMultiSettleSignatureById db' new_id = Some sg" unfolding e by (rule l1)
  show "getMultiSettleSignatureByNonce db' (d_facilitator_id data) (d_nonce data) = Some sg"
    unfolding e by (rule l2)
qed

lemma authorize_Ok_lookup:
  assumes "authorize env fac req db = (AuthorizeOk aid cap rem vu n dep, db1)"
  shows "\<exists>r. getMultiSettleSignatureByNonce db1 (fac_id fac) n = Some r \<and> sig_id r = aid"
proof -
  obtain valid reason where v: "verification env = Returns (valid, reason)"
    using assms by (cases "verification env") (auto simp: authorize_def)
  have valid: "valid" using assms v by (auto simp: authorize_def split: if_splits)
  have v': "verification env = Returns (True, reason)" using v valid by simp
  obtain authDetails where x: "extractAuthorizationFromPayload env (paymentPayload req) = Some authDetails"
    using assms v valid
    by (cases "extractAuthorizationFromPayload env (paymentPayload req)") (auto simp: authorize_def)
  show ?thesis
  proof (cases "getMultiSettleSignatureByNonce db (fac_id fac) (ad_nonce authDetails)")
    case (Some existing)
    then show ?thesis
      using assms authorize_existing [OF v' x Some] getByNonce_fields [OF Some]
      by (auto split: if_splits)
  next
    case None
    let ?data = "\<lparr>d_facilitator_id = fac_id fac, d_network = req_network req,
        d_asset = req_asset req, d_from_address = ad_from authDetails,
        d_cap_amount = capAmount req, d_valid_until = validUntil req,
        d_nonce = ad_nonce authDetails, d_signature = ad_signature authDetails,
        d_payment_payload = paymentPayload req\<rparr>"
    obtain s db' where cr: "createMultiSettleSignature (auth_toLowerCase env) (auth_new_id env) ?data db = (s, db')"
      by (cases "createMultiSettleSignature (auth_toLowerCase env) (auth_new_id env) ?data db") auto
    from assms v valid x None cr obtain sg where sg: "s = Some sg"
      "aid = sig_id sg" "n = nonce sg" "db1 = db'"
      by (cases s) (auto simp: authorize_def split: if_splits)
    note f = create_signature_Some [OF cr [unfolded sg(1)]]
    have "getMultiSettleSignatureByNonce db' (fac_id fac) (nonce sg) = Some sg"
      using f(6) f(3) by simp
    then show ?thesis using sg by simp
  qed
qed

lemma find_map_same:
  assumes "\<And>r. P (g r) = P r"
  shows "find P (map g rows) = map_option g (find P rows)"
  using assms by (induction rows) auto

lemma getByNonce_update:
  assumes "\<And>r. facilitator_id (f r) = facilitator_id r" "\<And>r. nonce (f r) = nonce r"
  shows "getMultiSettleSignatureByNonce (snd (update_signatures wh f db)) fid n =
         map_option (\<lambda>r. if wh r then f r else r) (getMultiSettleSignatureByNonce db fid n)"
  unfolding getMultiSettleSignatureByNonce_def update_signatures_def
  by (simp, rule find_map_same) (simp add: assms)

lemma getByNonce_apply_op:
  assumes "getMultiSettleSignatureByNonce db fid n = Some r"
  shows "\<exists>r'. getMultiSettleSignatureByNonce (apply_op toLowerCase op db) fid n = Some r' \<and> sig_id r' = sig_id r"
proof (cases op)
  case (OpCreate new_id data)
  then show ?thesis using assms
    by (auto simp: createMultiSettleSignature_def Let_def getMultiSettleSignatureByNonce_def
        find_append_first)
next
  case (OpReserve now j a)
  have "getMultiSettleSignatureByNonce (snd (decrementRemainingAmount now j a db)) fid n = Some r'
        \<Longrightarrow> sig_id r' = sig_id r" for r'
    using assms
    by (auto simp: decrementRemainingAmount_def Let_def getByNonce_update
        split: option.splits if_splits)
  moreover have "getMultiSettleSignatureByNonce (snd (decrementRemainingAmount now j a db)) fid n \<noteq> None"
    using assms
    by (auto simp: decrementRemainingAmount_def Let_def getByNonce_update
        split: option.splits if_splits)
  ultimately show ?thesis using OpReserve by auto
next
  case (OpRevoke j)
  then show ?thesis using assms
    by (simp add: revokeMultiSettleSignature_def split_beta getByNonce_update)
next
  case (OpRevokeByNonce f m)
  then show ?thesis using assms
    by (simp add: revokeMultiSettleSignatureByNonce_def split_beta getByNonce_update)
next
  case (OpMarkDeposited j)
  then show ?thesis using assms
    by (simp add: markSignatureDeposited_def split_beta getByNonce_update)
next
  case (OpCleanupExpired now)
  then show ?thesis using assms
    by (simp add: cleanupExpiredSignatures_def getByNonce_update)
qed

lemma getByNonce_run:
  "getMultiSettleSignatureByNonce db fid n = Some r \<Longrightarrow>
   \<exists>r'. getMultiSettleSignatureByNonce (run toLowerCase ops db) fid n = Some r' \<and> sig_id r' = sig_id r"
proof (induction ops arbitrary: db r)
  case Nil
  then show ?case by simp
next
  case (Cons op ops)
  obtain r1 where "getMultiSettleSignatureByNonce (apply_op toLowerCase op db) fid n = Some r1"
    "sig_id r1 = sig_id r"
    using getByNonce_apply_op [OF Cons.prems] by blast
  then show ?case using Cons.IH [of "apply_op toLowerCase op db" r1] by auto
qed


text \<open>
  C7. When the verifier accepts the request and an authorization of this facilitator with the
  payload's nonce exists: if it is active, authorize answers with its id and fields and
  writes nothing; if it is not, authorize refuses with a message that names its status, and
  writes nothing. Hence after a first call that returned an id, and after any store operations
  since, a second accepted call with the same nonce finds the record with that same id and
  returns it while it is active, creating no second record, and is refused with the name of
  the status once it is not.
\<close>

theorem authorize_same_nonce:
  "(verification env = Returns (True, reason)
      \<and> extractAuthorizationFromPayload env (paymentPayload req) = Some authDetails
      \<and> getMultiSettleSignatureByNonce db (fac_id fac) (ad_nonce authDetails) = Some existing \<longrightarrow>
        (status existing = Active \<longrightarrow>
           authorize env fac req db =
             (AuthorizeOk (sig_id existing) (cap_amount existing) (remaining_amount existing)
                (valid_until existing) (nonce existing) (deposited existing = 1), db))
      \<and> (status existing \<noteq> Active \<longrightarrow>
           authorize env fac req db =
             (AuthorizeError 400
                ((str ''Authorization with this nonce already exists and is '')
                   @ status_name (status existing)), db)))
   \<and> (authorize env1 fac req1 db = (AuthorizeOk aid cap rem vu n dep, db1)
      \<and> verification env2 = Returns (True, reason2)
      \<and> extractAuthorizationFromPayload env2 (paymentPayload req2) = Some authDetails2
      \<and> ad_nonce authDetails2 = n \<longrightarrow>
        (\<exists>r. getMultiSettleSignatureByNonce (run toLowerCase ops db1) (fac_id fac) n = Some r \<and> sig_id r = aid
           \<and> (status r = Active \<longrightarrow>
                authorize env2 fac req2 (run toLowerCase ops db1) =
                  (AuthorizeOk aid (cap_amount r) (remaining_amount r) (valid_until r) n
                     (deposited r = 1), run toLowerCase ops db1))
           \<and> (status r \<noteq> Active \<longrightarrow>
                authorize env2 fac req2 (run toLowerCase ops db1) =
                  (AuthorizeError 400
                     ((str ''Authorization with this nonce already exists and is '')
                        @ status_name (status r)), run toLowerCase ops db1))))"
proof (intro conjI impI; (elim conjE)?)
  assume h: "authorize env1 fac req1 db = (AuthorizeOk aid cap rem vu n dep, db1)"
    "verification env2 = Returns (True, reason2)"
    "extractAuthorizationFromPayload env2 (paymentPayload req2) = Some authDetails2"
    "ad_nonce authDetails2 = n"
  obtain r0 where r0: "getMultiSettleSignatureByNonce db1 (fac_id fac) n = Some r0" "sig_id r0 = aid"
    using authorize_Ok_lookup [OF h(1)] by blast
  obtain r where r: "getMultiSettleSignatureByNonce (run toLowerCase ops db1) (fac_id fac) n = Some r"
    "sig_id r = sig_id r0"
    using getByNonce_run [OF r0(1)] by blast
  have look: "getMultiSettleSignatureByNonce (run toLowerCase ops db1) (fac_id fac) (ad_nonce authDetails2) = Some r"
    using r(1) h(4) by simp
  note a = authorize_existing [OF h(2,3) look]
  show "\<exists>r. getMultiSettleSignatureByNonce (run toLowerCase ops db1) (fac_id fac) n = Some r \<and> sig_id r = aid
           \<and> (status r = Active \<longrightarrow>
                authorize env2 fac req2 (run toLowerCase ops db1) =
                  (AuthorizeOk aid (cap_amount r) (remaining_amount r) (valid_until r) n
                     (deposited r = 1), run toLowerCase ops db1))
           \<and> (status r \<noteq> Active \<longrightarrow>
                authorize env2 fac req2 (run toLowerCase ops db1) =
                  (AuthorizeError 400
                     ((str ''Authorization with this nonce already exists and is '')
                        @ status_name (status r)), run toLowerCase ops db1))"
    using r r0(2) a getByNonce_fields [OF r(1)] by (intro exI [of _ r]) simp
qed (simp_all add: authorize_existing)

lemma getByNonce_empty: "getMultiSettleSignatureByNonce empty_database f n = None"
  by (simp add: getMultiSettleSignatureByNonce_def empty_database_def)

lemma example_authorize:
  "authorize example_authorize_env example_facilitator example_request empty_database =
     (AuthorizeOk (str ''a1'') (str ''100'') (str ''100'') 1000 (str ''n1'') False, example_db example_row)"
proof -
  have cr: "createMultiSettleSignature toLowerCaseASCII (str ''a1'')
        \<lparr>d_facilitator_id = str ''f1'', d_network = str ''base'', d_asset = str ''0xA'',
         d_from_address = str ''0xABC'', d_cap_amount = str ''100'', d_valid_until = 1000,
         d_nonce = str ''n1'', d_signature = str ''sig'', d_payment_payload = str ''pp''\<rparr> empty_database =
       (Some example_row, example_db example_row)"
    using example_create by (simp add: example_data_def)
  have f: "sig_id example_row = str ''a1''" "cap_amount example_row = str ''100''"
    "remaining_amount example_row = str ''100''" "valid_until example_row = 1000"
    "nonce example_row = str ''n1''"
    by (simp_all add: example_row_def)
  show ?thesis
    by (simp add: authorize_def example_authorize_env_def example_facilitator_def
        example_request_def example_details_def getByNonce_empty cr f)
qed

theorem authorize_same_nonce_witness:
  "authorize example_authorize_env example_facilitator example_request empty_database =
     (AuthorizeOk (str ''a1'') (str ''100'') (str ''100'') 1000 (str ''n1'') False, example_db example_row)
   \<and> verification example_authorize_env = Returns (True, None)
   \<and> extractAuthorizationFromPayload example_authorize_env (paymentPayload example_request) =
       Some example_details
   \<and> ad_nonce example_details = str ''n1''
   \<and> authorize (example_authorize_env\<lparr>auth_new_id := str ''a2''\<rparr>) example_facilitator example_request
        (run toLowerCaseASCII [OpReserve 10 (str ''a1'') (str ''30'')] (example_db example_row)) =
       (AuthorizeOk (str ''a1'') (str ''100'') (str ''70'') 1000 (str ''n1'') False,
        example_db (example_row\<lparr>remaining_amount := str ''70''\<rparr>))
   \<and> authorize (example_authorize_env\<lparr>auth_new_id := str ''a2''\<rparr>) example_facilitator example_request
        (run toLowerCaseASCII [OpRevoke (str ''a1'')] (example_db example_row)) =
       (AuthorizeError 400 (str ''Authorization with this nonce already exists and is revoked''),
        example_db (example_row\<lparr>status := Revoked\<rparr>))"
proof -
  let ?env2 = "example_authorize_env\<lparr>auth_new_id := str ''a2''\<rparr>"
  have h: "verification example_authorize_env = Returns (True, None)"
    "verification ?env2 = Returns (True, None)"
    "extractAuthorizationFromPayload example_authorize_env (paymentPayload example_request) =
       Some example_details"
    "extractAuthorizationFromPayload ?env2 (paymentPayload example_request) = Some example_details"
    "ad_nonce example_details = str ''n1''"
    by (simp_all add: example_authorize_env_def example_details_def)
  have r1: "run toLowerCaseASCII [OpReserve 10 (str ''a1'') (str ''30'')] (example_db example_row) =
      example_db (example_row\<lparr>remaining_amount := str ''70''\<rparr>)"
    by (simp add: example_reserve_30)
  have r2: "run toLowerCaseASCII [OpRevoke (str ''a1'')] (example_db example_row) =
      example_db (example_row\<lparr>status := Revoked\<rparr>)"
    by (simp add: revokeMultiSettleSignature_def update_signatures_def example_db_def
        example_row_def)
  have l: "getMultiSettleSignatureByNonce (example_db row) (str ''f1'') (str ''n1'') = Some r \<longleftrightarrow>
      (facilitator_id row = str ''f1'' \<and> nonce row = str ''n1'' \<and> r = row)" for row r
    by (auto simp: getMultiSettleSignatureByNonce_def example_db_def)
  have f: "fac_id example_facilitator = str ''f1''" by (simp add: example_facilitator_def)
  note t = authorize_same_nonce [THEN conjunct2, rule_format, of example_authorize_env
      example_facilitator example_request empty_database "str ''a1''" "str ''100''" "str ''100''" 1000 "str ''n1''"
      False "example_db example_row" ?env2 None example_request example_details]
  obtain x where x: "getMultiSettleSignatureByNonce
        (run toLowerCaseASCII [OpReserve 10 (str ''a1'') (str ''30'')] (example_db example_row)) (fac_id example_facilitator) (str ''n1'')
        = Some x"
      "status x = Active \<longrightarrow>
         authorize ?env2 example_facilitator example_request
           (run toLowerCaseASCII [OpReserve 10 (str ''a1'') (str ''30'')] (example_db example_row)) =
         (AuthorizeOk (str ''a1'') (cap_amount x) (remaining_amount x) (valid_until x) (str ''n1'')
            (deposited x = 1), run toLowerCaseASCII [OpReserve 10 (str ''a1'') (str ''30'')] (example_db example_row))"
    using t [of toLowerCaseASCII "[OpReserve 10 (str ''a1'') (str ''30'')]"] example_authorize h by blast
  have "x = example_row\<lparr>remaining_amount := str ''70''\<rparr>"
    using x(1) unfolding r1 f l by simp
  then have 1: "authorize ?env2 example_facilitator example_request
        (run toLowerCaseASCII [OpReserve 10 (str ''a1'') (str ''30'')] (example_db example_row)) =
       (AuthorizeOk (str ''a1'') (str ''100'') (str ''70'') 1000 (str ''n1'') False,
        example_db (example_row\<lparr>remaining_amount := str ''70''\<rparr>))"
    using x(2) unfolding r1 by (simp add: example_row_def)
  obtain y where y: "getMultiSettleSignatureByNonce
        (run toLowerCaseASCII [OpRevoke (str ''a1'')] (example_db example_row)) (fac_id example_facilitator) (str ''n1'') = Some y"
      "status y \<noteq> Active \<longrightarrow>
         authorize ?env2 example_facilitator example_request
           (run toLowerCaseASCII [OpRevoke (str ''a1'')] (example_db example_row)) =
         (AuthorizeError 400
            (str ''Authorization with this nonce already exists and is '' @ status_name (status y)),
          run toLowerCaseASCII [OpRevoke (str ''a1'')] (example_db example_row))"
    using t [of toLowerCaseASCII "[OpRevoke (str ''a1'')]"] example_authorize h by blast
  have "y = example_row\<lparr>status := Revoked\<rparr>"
    using y(1) unfolding r2 f l by simp
  then have 2: "authorize ?env2 example_facilitator example_request
        (run toLowerCaseASCII [OpRevoke (str ''a1'')] (example_db example_row)) =
       (AuthorizeError 400 (str ''Authorization with this nonce already exists and is revoked''),
        example_db (example_row\<lparr>status := Revoked\<rparr>))"
    using y(2) unfolding r2 by (simp add: example_row_def)
  show ?thesis using example_authorize h 1 2 by simp
qed

section \<open>C9: what authorize checks before it creates\<close>

lemma create_signature_fresh:
  assumes "getMultiSettleSignatureById db new_id = None"
    "getMultiSettleSignatureByNonce db (d_facilitator_id data) (d_nonce data) = None"
  shows "createMultiSettleSignature toLowerCase new_id data db =
     (Some \<lparr>sig_id = new_id, facilitator_id = d_facilitator_id data, network = d_network data,
               asset = d_asset data, from_address = toLowerCase (d_from_address data),
               cap_amount = d_cap_amount data, remaining_amount = d_cap_amount data,
               valid_until = d_valid_until data, nonce = d_nonce data,
               signature = d_signature data, payment_payload = d_payment_payload data,
               status = Active, deposited = 0\<rparr>,
      db\<lparr>multisettle_signatures := multisettle_signatures db @
          [\<lparr>sig_id = new_id, facilitator_id = d_facilitator_id data, network = d_network data,
               asset = d_asset data, from_address = toLowerCase (d_from_address data),
               cap_amount = d_cap_amount data, remaining_amount = d_cap_amount data,
               valid_until = d_valid_until data, nonce = d_nonce data,
               signature = d_signature data, payment_payload = d_payment_payload data,
               status = Active, deposited = 0\<rparr>]\<rparr>)"
proof -
  let ?row = "\<lparr>sig_id = new_id, facilitator_id = d_facilitator_id data, network = d_network data,
               asset = d_asset data, from_address = toLowerCase (d_from_address data),
               cap_amount = d_cap_amount data, remaining_amount = d_cap_amount data,
               valid_until = d_valid_until data, nonce = d_nonce data,
               signature = d_signature data, payment_payload = d_payment_payload data,
               status = Active, deposited = 0\<rparr>"
  have "getMultiSettleSignatureById
      (db\<lparr>multisettle_signatures := multisettle_signatures db @ [?row]\<rparr>) new_id = Some ?row"
    using assms(1) by (simp add: getMultiSettleSignatureById_def find_snoc_new)
  then show ?thesis
    using assms by (simp add: createMultiSettleSignature_def Let_def signature_insert_conflict_def)
qed

text \<open>
  C9 (amended). The lookup by nonce comes before the two checks, so an existing active
  authorization of the facilitator with the payload's nonce is returned whatever \<open>validUntil\<close>
  and \<open>capAmount\<close> are. Apart from that case, authorize refuses a request whose
  \<open>validUntil\<close> is not after now, or whose payload value is not the jsstring \<open>capAmount\<close>, and
  writes nothing; for a fresh nonce it does so with the message of the failed check. Otherwise,
  for a fresh nonce and a fresh id, when the verifier accepts, the record is created with the
  remaining amount equal to the cap, active, and not deposited.
\<close>

theorem authorize_checks:
  "(extractAuthorizationFromPayload env (paymentPayload req) = Some authDetails
      \<and> (validUntil req \<le> auth_now env \<or> ad_value authDetails \<noteq> capAmount req)
      \<and> map_option status
            (getMultiSettleSignatureByNonce db (fac_id fac) (ad_nonce authDetails)) \<noteq> Some Active \<longrightarrow>
        (\<exists>code msg. authorize env fac req db = (AuthorizeError code msg, db)))
   \<and> (verification env = Returns (True, reason)
      \<and> extractAuthorizationFromPayload env (paymentPayload req) = Some authDetails
      \<and> getMultiSettleSignatureByNonce db (fac_id fac) (ad_nonce authDetails) = None \<longrightarrow>
        (validUntil req \<le> auth_now env \<longrightarrow>
           authorize env fac req db = (AuthorizeError 400 (str ''validUntil must be in the future''), db))
      \<and> (auth_now env < validUntil req \<and> ad_value authDetails \<noteq> capAmount req \<longrightarrow>
           authorize env fac req db =
             (AuthorizeError 400
                (str ''Cap amount ('' @ capAmount req @ str '') must match authorization value (''
                   @ ad_value authDetails @ str '')''), db))
      \<and> (auth_now env < validUntil req \<and> ad_value authDetails = capAmount req
          \<and> getMultiSettleSignatureById db (auth_new_id env) = None \<longrightarrow>
           fst (authorize env fac req db) =
             AuthorizeOk (auth_new_id env) (capAmount req) (capAmount req) (validUntil req)
               (ad_nonce authDetails) False
         \<and> (\<exists>sg. getMultiSettleSignatureById (snd (authorize env fac req db)) (auth_new_id env) = Some sg
               \<and> multisettle_signatures (snd (authorize env fac req db)) =
                   multisettle_signatures db @ [sg]
               \<and> remaining_amount sg = capAmount req \<and> cap_amount sg = capAmount req
               \<and> status sg = Active \<and> deposited sg = 0
               \<and> facilitator_id sg = fac_id fac \<and> nonce sg = ad_nonce authDetails
               \<and> valid_until sg = validUntil req)))"
proof (intro conjI impI; (elim conjE)?)
  assume x: "extractAuthorizationFromPayload env (paymentPayload req) = Some authDetails"
    and bad: "validUntil req \<le> auth_now env \<or> ad_value authDetails \<noteq> capAmount req"
    and na: "map_option status
            (getMultiSettleSignatureByNonce db (fac_id fac) (ad_nonce authDetails)) \<noteq> Some Active"
  show "\<exists>code msg. authorize env fac req db = (AuthorizeError code msg, db)"
  proof (cases "verification env")
    case (Throws m)
    then show ?thesis by (simp add: authorize_def)
  next
    case (Returns v)
    obtain valid reason where v: "v = (valid, reason)" by (cases v) auto
    show ?thesis
    proof (cases valid)
      case False
      then show ?thesis using Returns v by (simp add: authorize_def)
    next
      case True
      show ?thesis
      proof (cases "getMultiSettleSignatureByNonce db (fac_id fac) (ad_nonce authDetails)")
        case None
        then show ?thesis using Returns v True x bad by (auto simp: authorize_def)
      next
        case (Some existing)
        then show ?thesis using Returns v True x na by (simp add: authorize_def)
      qed
    qed
  qed
next
  assume h: "verification env = Returns (True, reason)"
    "extractAuthorizationFromPayload env (paymentPayload req) = Some authDetails"
    "getMultiSettleSignatureByNonce db (fac_id fac) (ad_nonce authDetails) = None"
    "auth_now env < validUntil req" "ad_value authDetails = capAmount req"
    "getMultiSettleSignatureById db (auth_new_id env) = None"
  let ?data = "\<lparr>d_facilitator_id = fac_id fac, d_network = req_network req,
        d_asset = req_asset req, d_from_address = ad_from authDetails,
        d_cap_amount = capAmount req, d_valid_until = validUntil req,
        d_nonce = ad_nonce authDetails, d_signature = ad_signature authDetails,
        d_payment_payload = paymentPayload req\<rparr>"
  let ?row = "\<lparr>sig_id = auth_new_id env, facilitator_id = fac_id fac, network = req_network req,
               asset = req_asset req, from_address = auth_toLowerCase env (ad_from authDetails),
               cap_amount = capAmount req, remaining_amount = capAmount req,
               valid_until = validUntil req, nonce = ad_nonce authDetails,
               signature = ad_signature authDetails, payment_payload = paymentPayload req,
               status = Active, deposited = 0\<rparr>"
  have cr: "createMultiSettleSignature (auth_toLowerCase env) (auth_new_id env) ?data db =
      (Some ?row, db\<lparr>multisettle_signatures := multisettle_signatures db @ [?row]\<rparr>)"
    using create_signature_fresh [of db "auth_new_id env" ?data] h(3,6) by simp
  have a: "authorize env fac req db =
      (AuthorizeOk (auth_new_id env) (capAmount req) (capAmount req) (validUntil req)
               (ad_nonce authDetails) False,
       db\<lparr>multisettle_signatures := multisettle_signatures db @ [?row]\<rparr>)"
    using h by (simp add: authorize_def cr)
  show "fst (authorize env fac req db) =
             AuthorizeOk (auth_new_id env) (capAmount req) (capAmount req) (validUntil req)
               (ad_nonce authDetails) False"
    by (simp add: a)
  have "getMultiSettleSignatureById
      (db\<lparr>multisettle_signatures := multisettle_signatures db @ [?row]\<rparr>) (auth_new_id env) = Some ?row"
    using h(6) by (simp add: getMultiSettleSignatureById_def find_snoc_new)
  then show "\<exists>sg. getMultiSettleSignatureById (snd (authorize env fac req db)) (auth_new_id env) = Some sg
               \<and> multisettle_signatures (snd (authorize env fac req db)) =
                   multisettle_signatures db @ [sg]
               \<and> remaining_amount sg = capAmount req \<and> cap_amount sg = capAmount req
               \<and> status sg = Active \<and> deposited sg = 0
               \<and> facilitator_id sg = fac_id fac \<and> nonce sg = ad_nonce authDetails
               \<and> valid_until sg = validUntil req"
    by (intro exI [of _ ?row]) (simp add: a)
qed (simp_all add: authorize_def)

theorem authorize_checks_witness:
  "verification example_authorize_env = Returns (True, None)
   \<and> extractAuthorizationFromPayload example_authorize_env (paymentPayload example_request) =
       Some example_details
   \<and> getMultiSettleSignatureByNonce empty_database (fac_id example_facilitator)
        (ad_nonce example_details) = None
   \<and> getMultiSettleSignatureById empty_database (auth_new_id example_authorize_env) = None
   \<and> auth_now example_authorize_env < validUntil example_request
   \<and> ad_value example_details = capAmount example_request
   \<and> fst (authorize example_authorize_env example_facilitator example_request empty_database) =
       AuthorizeOk (str ''a1'') (str ''100'') (str ''100'') 1000 (str ''n1'') False
   \<and> validUntil (example_request\<lparr>validUntil := 10\<rparr>) \<le> auth_now example_authorize_env
   \<and> authorize example_authorize_env example_facilitator (example_request\<lparr>validUntil := 10\<rparr>)
        empty_database =
       (AuthorizeError 400 (str ''validUntil must be in the future''), empty_database)
   \<and> ad_value example_details \<noteq> capAmount (example_request\<lparr>capAmount := str ''0100''\<rparr>)
   \<and> authorize example_authorize_env example_facilitator (example_request\<lparr>capAmount := str ''0100''\<rparr>)
        empty_database =
       (AuthorizeError 400 (str ''Cap amount (0100) must match authorization value (100)''), empty_database)"
proof -
  have h: "verification example_authorize_env = Returns (True, None)"
    "extractAuthorizationFromPayload example_authorize_env (paymentPayload req) = Some example_details"
    "getMultiSettleSignatureByNonce empty_database (fac_id example_facilitator)
        (ad_nonce example_details) = None"
    "getMultiSettleSignatureById empty_database (auth_new_id example_authorize_env) = None"
    "auth_now example_authorize_env < validUntil example_request"
    "ad_value example_details = capAmount example_request"
    "validUntil (example_request\<lparr>validUntil := 10\<rparr>) \<le> auth_now example_authorize_env"
    "ad_value example_details \<noteq> capAmount (example_request\<lparr>capAmount := str ''0100''\<rparr>)"
    "auth_now example_authorize_env < validUntil (example_request\<lparr>capAmount := str ''0100''\<rparr>)"
    for req
    by (simp_all add: example_authorize_env_def example_request_def example_details_def
        getByNonce_empty getById_empty)
  note t = authorize_checks [THEN conjunct2, rule_format, of example_authorize_env None _
      example_details empty_database example_facilitator]
  have 1: "fst (authorize example_authorize_env example_facilitator example_request empty_database) =
       AuthorizeOk (auth_new_id example_authorize_env) (capAmount example_request)
         (capAmount example_request) (validUntil example_request) (ad_nonce example_details) False"
    using t [of example_request] h by blast
  have 2: "authorize example_authorize_env example_facilitator (example_request\<lparr>validUntil := 10\<rparr>)
        empty_database = (AuthorizeError 400 (str ''validUntil must be in the future''), empty_database)"
    using t [of "example_request\<lparr>validUntil := 10\<rparr>"] h by blast
  have 3: "authorize example_authorize_env example_facilitator (example_request\<lparr>capAmount := str ''0100''\<rparr>)
        empty_database =
       (AuthorizeError 400
          (str ''Cap amount ('' @ capAmount (example_request\<lparr>capAmount := str ''0100''\<rparr>)
             @ str '') must match authorization value ('' @ ad_value example_details @ str '')''),
        empty_database)"
    using t [of "example_request\<lparr>capAmount := str ''0100''\<rparr>"] h by blast
  show ?thesis
    using h(1,3-8) h(2) [of example_request] 1 2 3
    by (simp add: example_authorize_env_def example_request_def example_details_def)
qed

text \<open>
  C9 as stated fails when an active authorization with the nonce exists: the request with a
  \<open>validUntil\<close> in the past is not refused, the existing record is returned.
\<close>

theorem authorize_replay_counterexample:
  "validUntil (example_request\<lparr>validUntil := 5\<rparr>) \<le> auth_now example_authorize_env
   \<and> authorize example_authorize_env example_facilitator (example_request\<lparr>validUntil := 5\<rparr>)
        (example_db example_row) =
       (AuthorizeOk (str ''a1'') (str ''100'') (str ''100'') 1000 (str ''n1'') False, example_db example_row)"
  by (simp add: authorize_def example_authorize_env_def example_request_def example_details_def
      example_facilitator_def getMultiSettleSignatureByNonce_def example_db_def example_row_def)

section \<open>C8: revocation\<close>

lemma revoke_lookup:
  "getMultiSettleSignatureById (snd (revokeMultiSettleSignature i db)) j =
     map_option (\<lambda>r. if sig_id r = i \<and> status r = Active then r\<lparr>status := Revoked\<rparr> else r)
       (getMultiSettleSignatureById db j)"
  by (simp add: revokeMultiSettleSignature_def split_beta getById_update_signatures)

lemma revoke_remaining:
  "map remaining_amount (multisettle_signatures (snd (revokeMultiSettleSignature i db))) =
   map remaining_amount (multisettle_signatures db)"
  by (simp add: revokeMultiSettleSignature_def split_beta update_signatures_def comp_def)

lemma revoke_result:
  "fst (revokeMultiSettleSignature i db) \<longleftrightarrow>
     filter (\<lambda>r. sig_id r = i \<and> status r = Active) (multisettle_signatures db) \<noteq> []"
  by (simp add: revokeMultiSettleSignature_def split_beta update_signatures_def)

lemma revoke_route_ok:
  assumes "revoke fac i db = (RevokeOk rem dep, db1)"
  shows "\<exists>sg. getMultiSettleSignatureById db i = Some sg \<and> facilitator_id sg = fac_id fac
           \<and> status sg = Active \<and> rem = remaining_amount sg
           \<and> db1 = snd (revokeMultiSettleSignature i db)
           \<and> getMultiSettleSignatureById db1 i = Some (sg\<lparr>status := Revoked\<rparr>)"
proof (cases "getMultiSettleSignatureById db i")
  case None
  then show ?thesis using assms by (simp add: revoke_def)
next
  case (Some sg)
  have f: "facilitator_id sg = fac_id fac" "status sg = Active"
    using assms Some by (auto simp: revoke_def split: if_splits)
  have r: "rem = remaining_amount sg" "db1 = snd (revokeMultiSettleSignature i db)"
    using assms Some f by (auto simp: revoke_def split_beta split: if_splits)
  have "getMultiSettleSignatureById db1 i = Some (sg\<lparr>status := Revoked\<rparr>)"
    using Some f(2) getById_sig_id [OF Some] by (simp add: r(2) revoke_lookup)
  then show ?thesis using Some f r by simp
qed

lemma revoked_apply_op:
  assumes "getMultiSettleSignatureById db i = Some sg" "status sg = Revoked"
  shows "\<exists>sg'. getMultiSettleSignatureById (apply_op toLowerCase op db) i = Some sg' \<and> status sg' = Revoked
           \<and> remaining_amount sg' = remaining_amount sg \<and> facilitator_id sg' = facilitator_id sg"
proof (cases op)
  case (OpCreate new_id data)
  then show ?thesis using assms getById_create_other [OF assms(1)] by simp
next
  case (OpReserve now j a)
  show ?thesis
  proof (cases "j = i")
    case True
    then show ?thesis using OpReserve assms by (simp add: decrement_inactive)
  next
    case False
    then show ?thesis using OpReserve assms by (simp add: getById_decrement_other)
  qed
next
  case (OpRevoke j)
  then show ?thesis using assms by (simp add: revoke_lookup)
next
  case (OpRevokeByNonce f n)
  then show ?thesis using assms
    by (simp add: revokeMultiSettleSignatureByNonce_def split_beta getById_update_signatures)
next
  case (OpMarkDeposited j)
  then show ?thesis using assms by (simp add: mark_deposited_lookup)
next
  case (OpCleanupExpired now)
  then show ?thesis using assms
    by (simp add: cleanupExpiredSignatures_def getById_update_signatures)
qed

lemma revoked_run:
  "getMultiSettleSignatureById db i = Some sg \<Longrightarrow> status sg = Revoked \<Longrightarrow>
   \<exists>sg'. getMultiSettleSignatureById (run toLowerCase ops db) i = Some sg' \<and> status sg' = Revoked
         \<and> remaining_amount sg' = remaining_amount sg \<and> facilitator_id sg' = facilitator_id sg"
proof (induction ops arbitrary: db sg)
  case Nil
  then show ?case by simp
next
  case (Cons op ops)
  obtain sg1 where s: "getMultiSettleSignatureById (apply_op toLowerCase op db) i = Some sg1"
    "status sg1 = Revoked" "remaining_amount sg1 = remaining_amount sg"
    "facilitator_id sg1 = facilitator_id sg"
    using revoked_apply_op [OF Cons.prems] by blast
  show ?case using Cons.IH [OF s(1,2)] s(3,4) by auto
qed

lemma settle_checks_revoked:
  assumes "getMultiSettleSignatureById db i = Some sg" "status sg = Revoked"
  shows "settle_checks env fac i a db =
     Inl (if facilitator_id sg = fac_id fac
          then settle_error 400 (Some (str ''Authorization is revoked'')) (Some (remaining_amount sg)) None
          else settle_error 403 (Some (str ''Authorization does not belong to this facilitator'')) None None)"
  using assms by (simp add: settle_checks_def)

lemma getById_same_table:
  "multisettle_signatures db2 = multisettle_signatures db \<Longrightarrow>
   getMultiSettleSignatureById db2 i = getMultiSettleSignatureById db i"
  by (simp add: getMultiSettleSignatureById_def)

text \<open>
  C8. Once the revoke route has succeeded on an authorization, then after any further store
  operations, and whatever has been written to the settlements table, every settle call of
  the owning facilitator against that id is refused with the message that the authorization
  is revoked, whatever the remaining amount, the amount asked and the clock; nothing is
  written and no reserve or chain call is made (another facilitator is refused as not the
  owner). The store's revoke sets to revoked exactly the records with that id that are
  active and returns whether there was one; the route refuses an authorization that is not
  active; and revoke leaves every remaining amount as it was.
\<close>

theorem revoke_blocks_settle:
  "(revoke fac i db = (RevokeOk rem dep, db1)
      \<and> multisettle_signatures db2 = multisettle_signatures (run toLowerCase ops db1) \<longrightarrow>
        (\<exists>sg. getMultiSettleSignatureById db2 i = Some sg \<and> status sg = Revoked
            \<and> remaining_amount sg = rem \<and> facilitator_id sg = fac_id fac)
      \<and> settle env fac i payTo a db2 =
          (settle_error 400 (Some (str ''Authorization is revoked'')) (Some rem) None, db2, [])
      \<and> (fac_id other \<noteq> fac_id fac \<longrightarrow>
          settle env other i payTo a db2 =
            (settle_error 403 (Some (str ''Authorization does not belong to this facilitator'')) None None,
             db2, [])))
   \<and> getMultiSettleSignatureById (snd (revokeMultiSettleSignature i db)) j =
       map_option (\<lambda>r. if sig_id r = i \<and> status r = Active then r\<lparr>status := Revoked\<rparr> else r)
         (getMultiSettleSignatureById db j)
   \<and> (fst (revokeMultiSettleSignature i db) \<longleftrightarrow>
        filter (\<lambda>r. sig_id r = i \<and> status r = Active) (multisettle_signatures db) \<noteq> [])
   \<and> map remaining_amount (multisettle_signatures (snd (revokeMultiSettleSignature i db))) =
       map remaining_amount (multisettle_signatures db)
   \<and> (getMultiSettleSignatureById db i = Some sg0 \<and> facilitator_id sg0 = fac_id fac
      \<and> status sg0 \<noteq> Active \<longrightarrow>
        revoke fac i db =
          (RevokeError 400 (str ''Authorization is already '' @ status_name (status sg0)), db))
   \<and> (getMultiSettleSignatureById db i = Some sg0 \<and> facilitator_id sg0 = fac_id fac
      \<and> status sg0 = Active \<longrightarrow>
        fst (revoke fac i db) = RevokeOk (remaining_amount sg0) (deposited sg0 = 1)
      \<and> getMultiSettleSignatureById (snd (revoke fac i db)) i = Some (sg0\<lparr>status := Revoked\<rparr>))"
proof (intro conjI impI; (elim conjE)?)
  assume h: "revoke fac i db = (RevokeOk rem dep, db1)"
    "multisettle_signatures db2 = multisettle_signatures (run toLowerCase ops db1)"
  obtain sg0 where s0: "facilitator_id sg0 = fac_id fac" "rem = remaining_amount sg0"
    "getMultiSettleSignatureById db1 i = Some (sg0\<lparr>status := Revoked\<rparr>)"
    using revoke_route_ok [OF h(1)] by blast
  obtain sg where sg: "getMultiSettleSignatureById (run toLowerCase ops db1) i = Some sg" "status sg = Revoked"
    "remaining_amount sg = rem" "facilitator_id sg = fac_id fac"
    using revoked_run [OF s0(3), where ops = ops and toLowerCase = toLowerCase] s0(1,2) by auto
  have sg2: "getMultiSettleSignatureById db2 i = Some sg"
    using sg(1) getById_same_table [OF h(2)] by simp
  show "\<exists>sg. getMultiSettleSignatureById db2 i = Some sg \<and> status sg = Revoked
            \<and> remaining_amount sg = rem \<and> facilitator_id sg = fac_id fac"
    using sg2 sg by blast
  show "settle env fac i payTo a db2 =
          (settle_error 400 (Some (str ''Authorization is revoked'')) (Some rem) None, db2, [])"
    using settle_checks_revoked [OF sg2 sg(2), of env fac a] sg(3,4)
    by (simp add: settle_def)
  assume "fac_id other \<noteq> fac_id fac"
  then show "settle env other i payTo a db2 =
            (settle_error 403 (Some (str ''Authorization does not belong to this facilitator'')) None None,
             db2, [])"
    using settle_checks_revoked [OF sg2 sg(2), of env other a] sg(4)
    by (simp add: settle_def)
next
  assume h: "getMultiSettleSignatureById db i = Some sg0" "facilitator_id sg0 = fac_id fac"
    "status sg0 = Active"
  have r: "revoke fac i db =
      (RevokeOk (remaining_amount sg0) (deposited sg0 = 1), snd (revokeMultiSettleSignature i db))"
  proof -
    have "fst (revokeMultiSettleSignature i db)"
      using getById_mem [OF h(1)] getById_sig_id [OF h(1)] h(3)
      by (auto simp: revoke_result filter_empty_conv)
    then show ?thesis using h by (simp add: revoke_def split_beta)
  qed
  show "fst (revoke fac i db) = RevokeOk (remaining_amount sg0) (deposited sg0 = 1)"
    by (simp add: r)
  show "getMultiSettleSignatureById (snd (revoke fac i db)) i = Some (sg0\<lparr>status := Revoked\<rparr>)"
    using h getById_sig_id [OF h(1)] by (simp add: r revoke_lookup)
qed (simp_all add: revoke_lookup revoke_result revoke_remaining revoke_def)


theorem revoke_blocks_settle_witness:
  "revoke example_facilitator (str ''a1'') (example_db example_row) =
     (RevokeOk (str ''100'') False, example_db (example_row\<lparr>status := Revoked\<rparr>))
   \<and> run toLowerCaseASCII [OpReserve 10 (str ''a1'') (str ''30'')] (example_db (example_row\<lparr>status := Revoked\<rparr>)) =
       example_db (example_row\<lparr>status := Revoked\<rparr>)
   \<and> settle example_env example_facilitator (str ''a1'') (str ''0xB0B'') (str ''30'')
        (example_db (example_row\<lparr>status := Revoked\<rparr>)) =
       (settle_error 400 (Some (str ''Authorization is revoked'')) (Some (str ''100'')) None,
        example_db (example_row\<lparr>status := Revoked\<rparr>), [])
   \<and> revoke example_facilitator (str ''a1'') (example_db (example_row\<lparr>status := Revoked\<rparr>)) =
       (RevokeError 400 (str ''Authorization is already revoked''),
        example_db (example_row\<lparr>status := Revoked\<rparr>))"
proof -
  let ?db1 = "example_db (example_row\<lparr>status := Revoked\<rparr>)"
  have r: "revoke example_facilitator (str ''a1'') (example_db example_row) = (RevokeOk (str ''100'') False, ?db1)"
    by (simp add: revoke_def revokeMultiSettleSignature_def update_signatures_def
        getMultiSettleSignatureById_def example_db_def example_row_def example_facilitator_def)
  have o: "run toLowerCaseASCII [OpReserve 10 (str ''a1'') (str ''30'')] ?db1 = ?db1"
    by (simp add: decrementRemainingAmount_def getMultiSettleSignatureById_def example_db_def
        example_row_def)
  have g: "getMultiSettleSignatureById ?db1 (str ''a1'') = Some (example_row\<lparr>status := Revoked\<rparr>)"
    "facilitator_id (example_row\<lparr>status := Revoked\<rparr>) = fac_id example_facilitator"
    "status (example_row\<lparr>status := Revoked\<rparr>) \<noteq> Active"
    by (simp_all add: getMultiSettleSignatureById_def example_db_def example_row_def
        example_facilitator_def)
  note t = revoke_blocks_settle [of example_facilitator "str ''a1''" _ "str ''100''" False ?db1 ?db1
      toLowerCaseASCII "[OpReserve 10 (str ''a1'') (str ''30'')]" example_env "str ''0xB0B''"
      "str ''30''"]
  have 1: "settle example_env example_facilitator (str ''a1'') (str ''0xB0B'') (str ''30'') ?db1 =
       (settle_error 400 (Some (str ''Authorization is revoked'')) (Some (str ''100'')) None, ?db1, [])"
    using t [of "example_db example_row"] r o by simp
  have 2: "revoke example_facilitator (str ''a1'') ?db1 =
       (RevokeError 400
          (str ''Authorization is already '' @ status_name (status (example_row\<lparr>status := Revoked\<rparr>))),
        ?db1)"
    using t [of ?db1 _ _ "example_row\<lparr>status := Revoked\<rparr>"] g by blast
  show ?thesis using r o 1 2 by simp
qed

end
